theory Spec2Isabelle
  imports Complex_Main "HOL-Library.Word"
begin

unbundle bit_operations_syntax

section \<open>The task scheduler (packages/scheduler/src/forks/Scheduler.js)\<close>

text \<open>
  Times are the millisecond readings of \<open>getCurrentTime()\<close>; they are modelled as
  real numbers. The profiling branches (\<open>enableProfiling\<close>, which is off) only
  write profiling marks and are left out.
\<close>

subsection \<open>Priorities, callbacks, tasks\<close>

text \<open>
  The five priority levels of SchedulerPriorities; \<open>UnknownPriority\<close> stands for any
  other value a caller may pass as \<open>priorityLevel\<close>.
\<close>

datatype priority =
    ImmediatePriority
  | UserBlockingPriority
  | NormalPriority
  | LowPriority
  | IdlePriority
  | UnknownPriority

text \<open>
  The \<open>options\<close> argument of \<open>unstable_scheduleCallback\<close>: either not an object
  (undefined, null, a primitive), or an object whose \<open>delay\<close> field is a number
  or something else.
\<close>

datatype delay = NotANumber | Number real

datatype options = NotAnObject | Object delay

text \<open>
  A callback is user code. Called with the \<open>didUserCallbackTimeout\<close> flag it may
  call back into the scheduler (schedule or cancel tasks) while time passes, and
  it either returns a value or throws. A value stored as a callback is \<open>null\<close>,
  a function, or something that is neither.
\<close>

datatype action =
    Schedule priority "value" options
  | Cancel nat
  | Elapse real
and callback =
    Callback "bool \<Rightarrow> action list \<times> outcome"
and outcome =
    Returns "value"
  | Throws
and "value" =
    Null
  | NotAFunction
  | Function callback

record task =
  taskId :: nat
  callback :: "value"
  priorityLevel :: priority
  startTime :: real
  expirationTime :: real
  sortIndex :: real

subsection \<open>The min-heap\<close>

text \<open>
  Modelled from the spec: SchedulerMinHeap (\<open>push\<close>, \<open>pop\<close>, \<open>peek\<close>) is not
  among the sources. The spec has two min-heaps ordering tasks by \<open>sortIndex\<close>;
  the task id, an increasing counter, keeps the insertion order among equal
  indices. The heap is a list of tasks: \<open>peek\<close> is the least task of the list,
  \<open>pop\<close> removes it, \<open>push\<close> adds a task.
\<close>

definition compare :: "task \<Rightarrow> task \<Rightarrow> bool" where
  "compare a b \<longleftrightarrow>
     sortIndex a < sortIndex b \<or> (sortIndex a = sortIndex b \<and> taskId a \<le> taskId b)"

fun peek :: "task list \<Rightarrow> task option" where
  "peek [] = None"
| "peek (t # ts) =
     (case peek ts of
        None \<Rightarrow> Some t
      | Some m \<Rightarrow> if compare t m then Some t else Some m)"

definition push :: "task list \<Rightarrow> task \<Rightarrow> task list" where
  "push heap node = heap @ [node]"

fun removeTask :: "nat \<Rightarrow> task list \<Rightarrow> task list" where
  "removeTask i [] = []"
| "removeTask i (t # ts) = (if taskId t = i then ts else t # removeTask i ts)"

definition pop :: "task list \<Rightarrow> task list" where
  "pop heap = (case peek heap of None \<Rightarrow> heap | Some m \<Rightarrow> removeTask (taskId m) heap)"

text \<open>
  Tasks are objects shared by reference between the heaps and the variables
  holding them; an assignment to a field of a task is an update of the task with
  that id wherever it is stored.
\<close>

definition updateTask :: "nat \<Rightarrow> (task \<Rightarrow> task) \<Rightarrow> task list \<Rightarrow> task list" where
  "updateTask i f heap = map (\<lambda>t. if taskId t = i then f t else t) heap"

definition findTask :: "nat \<Rightarrow> task list \<Rightarrow> task option" where
  "findTask i heap = find (\<lambda>t. taskId t = i) heap"

subsection \<open>The module state\<close>

datatype host_call =
    PostMessage
  | SetTimeout real
  | ClearTimeout
  | ConsoleError
  | CallbackInvoked nat bool

text \<open>
  The feature flags of SchedulerFeatureFlags, which is not among the sources; the
  reading of \<open>navigator.scheduling.isInputPending\<close> (\<open>None\<close> when the host has
  none; its argument is the \<open>includeContinuous\<close> option when one is passed).
\<close>

record host =
  enableSchedulerDebugging :: bool
  enableIsInputPending :: bool
  enableIsInputPendingContinuous :: bool
  isInputPending :: "(bool option \<Rightarrow> bool) option"

text \<open>
  Modelled from the spec: the yield intervals of SchedulerFeatureFlags (a frame
  budget of 5ms, a hard ceiling of 300ms; the source's comments give 5, 50, 300).
\<close>

definition frameYieldMs :: real where "frameYieldMs = 5"
definition continuousYieldMs :: real where "continuousYieldMs = 50"
definition maxYieldMs :: real where "maxYieldMs = 300"

record scheduler =
  taskQueue :: "task list"
  timerQueue :: "task list"
  taskIdCounter :: nat
  isSchedulerPaused :: bool
  currentTask :: "task option"
  currentPriorityLevel :: priority
  isPerformingWork :: bool
  isHostCallbackScheduled :: bool
  isHostTimeoutScheduled :: bool
  isMessageLoopRunning :: bool
  scheduledHostCallback :: bool
  taskTimeoutID :: "real option"
  frameInterval :: real
  startTime_slice :: real
  needsPaint :: bool
  clock :: real
  hostLog :: "host_call list"

text \<open>
  \<open>scheduledHostCallback\<close> is only ever \<open>flushWork\<close> or null (a boolean);
  \<open>taskTimeoutID\<close> is the pending host timeout (its delay) or \<open>None\<close> for -1;
  \<open>startTime_slice\<close> is the module variable \<open>startTime\<close> of the message loop;
  \<open>clock\<close> is what \<open>getCurrentTime()\<close> returns; \<open>hostLog\<close> records the calls
  made to the host and to user callbacks, latest last.
\<close>

definition initialScheduler :: scheduler where
  "initialScheduler =
     \<lparr>taskQueue = [], timerQueue = [], taskIdCounter = 1, isSchedulerPaused = False,
      currentTask = None, currentPriorityLevel = NormalPriority,
      isPerformingWork = False, isHostCallbackScheduled = False,
      isHostTimeoutScheduled = False, isMessageLoopRunning = False,
      scheduledHostCallback = False, taskTimeoutID = None,
      frameInterval = frameYieldMs, startTime_slice = -1, needsPaint = False,
      clock = 0, hostLog = []\<rparr>"

subsection \<open>Host requests\<close>

definition requestHostCallback :: "scheduler \<Rightarrow> scheduler" where
  "requestHostCallback s =
     (let s1 = s\<lparr>scheduledHostCallback := True\<rparr>
      in if \<not> isMessageLoopRunning s1
         then s1\<lparr>isMessageLoopRunning := True, hostLog := hostLog s1 @ [PostMessage]\<rparr>
         else s1)"

definition requestHostTimeout :: "real \<Rightarrow> scheduler \<Rightarrow> scheduler" where
  "requestHostTimeout ms s =
     s\<lparr>taskTimeoutID := Some ms, hostLog := hostLog s @ [SetTimeout ms]\<rparr>"

definition cancelHostTimeout :: "scheduler \<Rightarrow> scheduler" where
  "cancelHostTimeout s =
     s\<lparr>taskTimeoutID := None, hostLog := hostLog s @ [ClearTimeout]\<rparr>"

subsection \<open>unstable_scheduleCallback\<close>

definition timeoutOf :: "priority \<Rightarrow> real" where
  "timeoutOf level =
     (case level of
        ImmediatePriority \<Rightarrow> - 1
      | UserBlockingPriority \<Rightarrow> 250
      | IdlePriority \<Rightarrow> 1073741823
      | LowPriority \<Rightarrow> 10000
      | NormalPriority \<Rightarrow> 5000
      | UnknownPriority \<Rightarrow> 5000)"

definition startTimeOf :: "real \<Rightarrow> options \<Rightarrow> real" where
  "startTimeOf currentTime opts =
     (case opts of
        Object (Number d) \<Rightarrow> if d > 0 then currentTime + d else currentTime
      | Object NotANumber \<Rightarrow> currentTime
      | NotAnObject \<Rightarrow> currentTime)"

definition unstable_scheduleCallback ::
  "priority \<Rightarrow> value \<Rightarrow> options \<Rightarrow> scheduler \<Rightarrow> task \<times> scheduler" where
  "unstable_scheduleCallback level cb opts s =
     (let currentTime = clock s;
          start = startTimeOf currentTime opts;
          timeout = timeoutOf level;
          expiration = start + timeout;
          newTask = \<lparr>taskId = taskIdCounter s, callback = cb, priorityLevel = level,
                     startTime = start, expirationTime = expiration, sortIndex = - 1\<rparr>;
          s1 = s\<lparr>taskIdCounter := taskIdCounter s + 1\<rparr>
      in if start > currentTime then
           let delayed = newTask\<lparr>sortIndex := start\<rparr>;
               s2 = s1\<lparr>timerQueue := push (timerQueue s1) delayed\<rparr>
           in if peek (taskQueue s2) = None
                 \<and> map_option taskId (peek (timerQueue s2)) = Some (taskId delayed)
              then (delayed,
                    requestHostTimeout (start - currentTime)
                      (if isHostTimeoutScheduled s2 then cancelHostTimeout s2
                       else s2\<lparr>isHostTimeoutScheduled := True\<rparr>))
              else (delayed, s2)
         else
           let ready = newTask\<lparr>sortIndex := expiration\<rparr>;
               s2 = s1\<lparr>taskQueue := push (taskQueue s1) ready\<rparr>
           in if \<not> isHostCallbackScheduled s2 \<and> \<not> isPerformingWork s2
              then (ready, requestHostCallback (s2\<lparr>isHostCallbackScheduled := True\<rparr>))
              else (ready, s2))"

text \<open>
  \<open>task.callback = v\<close>: the task is reached through the heaps and through
  \<open>currentTask\<close>.
\<close>

definition setCallback :: "nat \<Rightarrow> value \<Rightarrow> scheduler \<Rightarrow> scheduler" where
  "setCallback i v s =
     s\<lparr>taskQueue := updateTask i (\<lambda>t. t\<lparr>callback := v\<rparr>) (taskQueue s),
       timerQueue := updateTask i (\<lambda>t. t\<lparr>callback := v\<rparr>) (timerQueue s),
       currentTask := map_option (\<lambda>t. if taskId t = i then t\<lparr>callback := v\<rparr> else t)
                        (currentTask s)\<rparr>"

definition unstable_cancelCallback :: "nat \<Rightarrow> scheduler \<Rightarrow> scheduler" where
  "unstable_cancelCallback i s = setCallback i Null s"

subsection \<open>advanceTimers\<close>

lemma peek_in_set: "peek heap = Some m \<Longrightarrow> m \<in> set heap"
  by (induction heap arbitrary: m) (auto split: option.splits if_splits)

lemma length_removeTask: "m \<in> set heap \<Longrightarrow> length (removeTask (taskId m) heap) < length heap"
  by (induction heap) auto

lemma length_pop: "peek heap = Some m \<Longrightarrow> length (pop heap) < length heap"
  by (simp add: pop_def length_removeTask peek_in_set)

function advanceTimers :: "real \<Rightarrow> scheduler \<Rightarrow> scheduler" where
  "advanceTimers currentTime s =
     (case peek (timerQueue s) of
        None \<Rightarrow> s
      | Some timer \<Rightarrow>
          if callback timer = Null then
            advanceTimers currentTime (s\<lparr>timerQueue := pop (timerQueue s)\<rparr>)
          else if startTime timer \<le> currentTime then
            advanceTimers currentTime
              (s\<lparr>timerQueue := pop (timerQueue s),
                 taskQueue := push (taskQueue s) (timer\<lparr>sortIndex := expirationTime timer\<rparr>)\<rparr>)
          else s)"
  by pat_completeness auto
termination
  by (relation "measure (\<lambda>(currentTime, s). length (timerQueue s))")
     (auto simp: length_pop)

subsection \<open>shouldYieldToHost, forceFrameRate\<close>

definition shouldYieldToHost :: "host \<Rightarrow> scheduler \<Rightarrow> bool" where
  "shouldYieldToHost h s =
     (let timeElapsed = clock s - startTime_slice s
      in if timeElapsed < frameInterval s then False
         else if enableIsInputPending h then
           (if needsPaint s then True
            else if timeElapsed < continuousYieldMs then
              (case isInputPending h of
                 Some pending \<Rightarrow> pending None
               | None \<Rightarrow> True)
            else if timeElapsed < maxYieldMs then
              (case isInputPending h of
                 Some pending \<Rightarrow> pending (Some (enableIsInputPendingContinuous h))
               | None \<Rightarrow> True)
            else True)
         else True)"

definition forceFrameRate :: "real \<Rightarrow> scheduler \<Rightarrow> scheduler" where
  "forceFrameRate fps s =
     (if fps < 0 \<or> fps > 125 then s\<lparr>hostLog := hostLog s @ [ConsoleError]\<rparr>
      else if fps > 0 then s\<lparr>frameInterval := of_int \<lfloor>1000 / fps\<rfloor>\<rparr>
      else s\<lparr>frameInterval := frameYieldMs\<rparr>)"

subsection \<open>workLoop\<close>

fun runAction :: "action \<Rightarrow> scheduler \<Rightarrow> scheduler" where
  "runAction (Schedule level cb opts) s = snd (unstable_scheduleCallback level cb opts s)"
| "runAction (Cancel i) s = unstable_cancelCallback i s"
| "runAction (Elapse d) s = s\<lparr>clock := clock s + d\<rparr>"

definition runActions :: "action list \<Rightarrow> scheduler \<Rightarrow> scheduler" where
  "runActions acts s = fold runAction acts s"

text \<open>
  One pass through the body of the \<open>while\<close> loop of \<open>workLoop\<close>, entered with
  \<open>currentTask\<close> not null: the loop breaks, goes on with a new \<open>currentTime\<close>, or
  the user callback throws.
\<close>

datatype pass =
    Break scheduler
  | Next real scheduler
  | Thrown scheduler

definition invokeCallback ::
  "task \<Rightarrow> bool \<Rightarrow> (bool \<Rightarrow> action list \<times> outcome) \<Rightarrow> scheduler \<Rightarrow> scheduler" where
  "invokeCallback t didUserCallbackTimeout f s =
     (let s1 = setCallback (taskId t) Null s;
          s2 = s1\<lparr>currentPriorityLevel := priorityLevel t\<rparr>
      in runActions (fst (f didUserCallbackTimeout))
           (s2\<lparr>hostLog := hostLog s2
                    @ [CallbackInvoked (taskId t) didUserCallbackTimeout]\<rparr>))"

definition workLoopBody :: "host \<Rightarrow> bool \<Rightarrow> real \<Rightarrow> task \<Rightarrow> scheduler \<Rightarrow> pass" where
  "workLoopBody h hasTimeRemaining currentTime t s =
     (if expirationTime t > currentTime \<and> (\<not> hasTimeRemaining \<or> shouldYieldToHost h s)
      then Break s
      else
        (case callback t of
           Function (Callback f) \<Rightarrow>
             let didUserCallbackTimeout = (expirationTime t \<le> currentTime);
                 s3 = invokeCallback t didUserCallbackTimeout f s
             in (case snd (f didUserCallbackTimeout) of
                   Throws \<Rightarrow> Thrown s3
                 | Returns continuationCallback \<Rightarrow>
                     let s4 =
                           (case continuationCallback of
                              Function k \<Rightarrow> setCallback (taskId t) (Function k) s3
                            | _ \<Rightarrow>
                                if map_option taskId (peek (taskQueue s3)) = Some (taskId t)
                                then s3\<lparr>taskQueue := pop (taskQueue s3)\<rparr>
                                else s3);
                         s5 = advanceTimers (clock s3) s4
                     in Next (clock s3) (s5\<lparr>currentTask := peek (taskQueue s5)\<rparr>))
         | _ \<Rightarrow>
             let s1 = s\<lparr>taskQueue := pop (taskQueue s)\<rparr>
             in Next currentTime (s1\<lparr>currentTask := peek (taskQueue s1)\<rparr>)))"

fun passState :: "pass \<Rightarrow> scheduler" where
  "passState (Break s) = s"
| "passState (Next currentTime s) = s"
| "passState (Thrown s) = s"

text \<open>
  The loop itself. A callback may return a continuation for ever, so the loop is
  given fuel: \<open>None\<close> is a loop that did not end within \<open>fuel\<close> passes.
\<close>

datatype loop_end =
    Ended real scheduler
  | Escaped scheduler

fun workLoop_while :: "nat \<Rightarrow> host \<Rightarrow> bool \<Rightarrow> real \<Rightarrow> scheduler \<Rightarrow> loop_end option" where
  "workLoop_while 0 h hasTimeRemaining currentTime s = None"
| "workLoop_while (Suc fuel) h hasTimeRemaining currentTime s =
     (case currentTask s of
        None \<Rightarrow> Some (Ended currentTime s)
      | Some t \<Rightarrow>
          if enableSchedulerDebugging h \<and> isSchedulerPaused s
          then Some (Ended currentTime s)
          else
            (case workLoopBody h hasTimeRemaining currentTime t s of
               Break s' \<Rightarrow> Some (Ended currentTime s')
             | Next currentTime' s' \<Rightarrow> workLoop_while fuel h hasTimeRemaining currentTime' s'
             | Thrown s' \<Rightarrow> Some (Escaped s')))"

text \<open>
  \<open>workLoop\<close> returns whether more work remains (\<open>Inr\<close>), or lets the exception
  of a callback escape (\<open>Inl\<close>).
\<close>

definition workLoop ::
  "nat \<Rightarrow> host \<Rightarrow> bool \<Rightarrow> real \<Rightarrow> scheduler \<Rightarrow> (scheduler + bool \<times> scheduler) option" where
  "workLoop fuel h hasTimeRemaining initialTime s =
     (let s1 = advanceTimers initialTime s;
          s2 = s1\<lparr>currentTask := peek (taskQueue s1)\<rparr>
      in (case workLoop_while fuel h hasTimeRemaining initialTime s2 of
            None \<Rightarrow> None
          | Some (Escaped s') \<Rightarrow> Some (Inl s')
          | Some (Ended currentTime s') \<Rightarrow>
              if currentTask s' \<noteq> None then Some (Inr (True, s'))
              else
                (case peek (timerQueue s') of
                   Some firstTimer \<Rightarrow>
                     Some (Inr (False,
                       requestHostTimeout (startTime firstTimer - currentTime) s'))
                 | None \<Rightarrow> Some (Inr (False, s')))))"

subsection \<open>Invariants and observations of the scheduler state\<close>

text \<open>
  The calls of user callbacks recorded in the log; the ids stored in a heap; the
  callback stored in the task of a given id; a state is well formed when no id
  occurs twice in the two heaps and every id is below the counter.
\<close>

definition isInvocation :: "host_call \<Rightarrow> bool" where
  "isInvocation c = (case c of CallbackInvoked i b \<Rightarrow> True | _ \<Rightarrow> False)"

definition invocations :: "scheduler \<Rightarrow> host_call list" where
  "invocations s = filter isInvocation (hostLog s)"

definition ids :: "task list \<Rightarrow> nat set" where
  "ids heap = taskId ` set heap"

definition allIds :: "scheduler \<Rightarrow> nat list" where
  "allIds s = map taskId (taskQueue s) @ map taskId (timerQueue s)"

definition wellFormed :: "scheduler \<Rightarrow> bool" where
  "wellFormed s \<longleftrightarrow> distinct (allIds s) \<and> (\<forall>i \<in> set (allIds s). i < taskIdCounter s)"

definition callbackOf :: "nat \<Rightarrow> task list \<Rightarrow> value option" where
  "callbackOf i heap = map_option callback (findTask i heap)"

subsection \<open>Example runs\<close>

text \<open>
  A host without \<open>isInputPending\<close>; a task whose callback schedules an immediate
  task and then returns null; a scheduler after \<open>forceFrameRate(2)\<close>, 400ms into
  a slice; a scheduler with the default frame budget at a given time into a slice.
\<close>

definition exampleHost :: host where
  "exampleHost = \<lparr>enableSchedulerDebugging = False, enableIsInputPending = False,
     enableIsInputPendingContinuous = False, isInputPending = None\<rparr>"

definition urgentWork :: "bool \<Rightarrow> action list \<times> outcome" where
  "urgentWork didTimeout = ([], Returns Null)"

definition spawningWork :: "bool \<Rightarrow> action list \<times> outcome" where
  "spawningWork didTimeout =
     ([Elapse 1, Schedule ImmediatePriority (Function (Callback urgentWork)) NotAnObject],
      Returns Null)"

definition spawningTask :: task where
  "spawningTask = fst (unstable_scheduleCallback NormalPriority
     (Function (Callback spawningWork)) NotAnObject initialScheduler)"

definition spawningScheduler :: scheduler where
  "spawningScheduler = snd (unstable_scheduleCallback NormalPriority
     (Function (Callback spawningWork)) NotAnObject initialScheduler)"

definition slowFrameScheduler :: scheduler where
  "slowFrameScheduler = (forceFrameRate 2 initialScheduler)\<lparr>startTime_slice := 0, clock := 400\<rparr>"

definition sliceAt :: "real \<Rightarrow> scheduler" where
  "sliceAt elapsed = initialScheduler\<lparr>startTime_slice := 0, clock := elapsed\<rparr>"

section \<open>The work loop (packages/react-reconciler/src/ReactFiberWorkLoop.old.js)\<close>

subsection \<open>Lanes and flags\<close>

text \<open>
  Modelled from the spec: ReactFiberLane is not among the sources. Lanes are a
  fixed-width bitset with set algebra: union (merge), subtraction (remove) and the
  intersection test (includes-some). The synchronous lane is one bit of it. Fiber
  flags are a bitset of the same width.
\<close>

type_synonym Lanes = "32 word"
type_synonym Flags = "32 word"

definition NoLanes :: Lanes where "NoLanes = 0"
definition NoLane :: Lanes where "NoLane = 0"
definition SyncLane :: Lanes where "SyncLane = 1"
definition NoFlags :: Flags where "NoFlags = 0"

definition mergeLanes :: "Lanes \<Rightarrow> Lanes \<Rightarrow> Lanes" where
  "mergeLanes a b = a OR b"

definition removeLanes :: "Lanes \<Rightarrow> Lanes \<Rightarrow> Lanes" where
  "removeLanes a b = a AND NOT b"

definition includesSomeLane :: "Lanes \<Rightarrow> Lanes \<Rightarrow> bool" where
  "includesSomeLane a b \<longleftrightarrow> a AND b \<noteq> NoLanes"

subsection \<open>Execution contexts and exit statuses\<close>

type_synonym ExecutionContext = "8 word"

definition NoContext :: ExecutionContext where "NoContext = 0"
definition BatchedContext :: ExecutionContext where "BatchedContext = 1"
definition RenderContext :: ExecutionContext where "RenderContext = 2"
definition CommitContext :: ExecutionContext where "CommitContext = 4"

datatype RootExitStatus =
    RootInProgress
  | RootFatalErrored
  | RootErrored
  | RootSuspended
  | RootSuspendedWithDelay
  | RootCompleted
  | RootDidNotComplete

text \<open>
  What a function of the work loop throws: one of its own errors (by the first
  sentence of its message), or a
  value recorded earlier (values are told apart by a number; \<open>None\<close> is null).
\<close>

datatype exn = Error string | ThrownValue "nat option"

subsection \<open>Fibers\<close>

text \<open>
  A finished tree, as the commit phase and the store check walk it: \<open>child\<close> and
  \<open>sibling\<close> links are the list of children. The tag keeps what the traversals
  look at: a hidden or visible Offscreen fiber of a concurrent-mode tree, a Scope
  fiber, the host root, or any other tag. A store check is what one entry of
  \<open>updateQueue.stores\<close> gives when it is checked: the value \<open>getSnapshot()\<close>
  returns (\<open>None\<close> when it throws) and the value that was rendered.
\<close>

datatype WorkTag = HostRoot | OffscreenComponent bool | ScopeComponent | OtherTag

datatype storeCheck = StoreCheck "nat option" nat

datatype fiber =
  Fiber (fiberId: nat) (tag: WorkTag) (flags: Flags) (subtreeFlags: Flags)
    (fiberLanes: Lanes) (childLanes: Lanes) (stores: "storeCheck list option")
    (deletions: "fiber list") (children: "fiber list")

text \<open>
  A fiber of the tree being built, as the work loop holds it in \<open>workInProgress\<close>:
  its number, whether its flags have \<open>Incomplete\<close>, its sibling. A unit of work is
  given with its return path: the list of the fiber and its ancestors along \<open>return\<close>,
  the root fiber last. The empty list is null.
\<close>

datatype workUnit =
  WorkUnit (unitId: nat) (incomplete: bool) (sibling: "workUnit option")

fun markIncomplete :: "workUnit \<Rightarrow> workUnit" where
  "markIncomplete (WorkUnit i inc sib) = WorkUnit i True sib"


subsection \<open>The root and the module state\<close>

datatype RootTag = LegacyRoot | ConcurrentRoot

datatype callbackNode = SchedulerTask nat | FakeActCallbackNode

datatype SchedulerCallback =
    PerformSyncWorkOnRoot nat
  | PerformConcurrentWorkOnRoot nat
  | FlushPassiveEffectsCallback
  | FlushSyncCallbacksCallback

datatype SchedulerPriority =
    ImmediateSchedulerPriority
  | UserBlockingSchedulerPriority
  | NormalSchedulerPriority
  | IdleSchedulerPriority

datatype EventPriority =
    DiscreteEventPriority
  | ContinuousEventPriority
  | DefaultEventPriority
  | IdleEventPriority

text \<open>
  The calls that leave the work loop, and the steps of the commit phase, in the order
  they happen.
\<close>

datatype event =
    RenderRootSync Lanes RootExitStatus
  | RenderRootConcurrent Lanes RootExitStatus
  | FinishConcurrentRender RootExitStatus Lanes
  | CommitBeforeMutationEffectsOnFiber nat
  | CommitBeforeMutationEffectsDeletion nat
  | CommitMutationEffectsOnFiber nat
  | CommitDeletionEffects nat
  | AfterActiveInstanceBlur
  | ResetAfterCommit
  | SetCurrent nat
  | CommitLayoutEffectOnFiber nat
  | RequestPaint
  | CommitPassiveUnmountEffects nat
  | CommitPassiveMountEffects nat
  | OnCommitRoot nat
  | OnRecoverableError nat
  | SchedulerScheduleCallback SchedulerPriority SchedulerCallback
  | SchedulerCancelCallback nat
  | ActQueuePush SchedulerCallback
  | ScheduleMicrotask
  | ScheduleTimeout real
  | CancelTimeout nat
  | SyncCallbackInvoked SchedulerCallback
  | ErrorHydratingContainer
  | ConsoleErrorLogged string

record rootLanes =
  pendingLanes :: Lanes
  suspendedLanes :: Lanes
  pingedLanes :: Lanes
  expiredLanes :: Lanes

text \<open>
  The root: \<open>alternate\<close> is \<open>root.current.alternate\<close>, the work-in-progress tree;
  \<open>timeoutHandle\<close> is \<open>None\<close> for \<open>noTimeout\<close>; \<open>callbackNode\<close> is \<open>None\<close> for null.
\<close>

record fiberRoot =
  rootRef :: nat
  rootTag :: RootTag
  current :: fiber
  alternate :: "fiber option"
  finishedWork :: "fiber option"
  finishedLanes :: Lanes
  callbackNode :: "callbackNode option"
  callbackPriority :: Lanes
  timeoutHandle :: "nat option"
  laneSets :: rootLanes

text \<open>
  The module variables of the work loop with the one root the model follows; other
  roots appear only as references (numbers). \<open>now\<close> is the reading of the clock,
  \<open>walks\<close> counts the tree walks, \<open>handles\<close> the scheduler tasks and timeouts
  handed out, \<open>trace\<close> records the events, latest last.
\<close>

record workLoop =
  root :: fiberRoot
  executionContext :: ExecutionContext
  workInProgressRoot :: "nat option"
  workInProgress :: "workUnit list"
  workInProgressRootRenderLanes :: Lanes
  workInProgressRootExitStatus :: RootExitStatus
  workInProgressRootFatalError :: "nat option"
  workInProgressRootSkippedLanes :: Lanes
  workInProgressRootInterleavedUpdatedLanes :: Lanes
  workInProgressRootRenderPhaseUpdatedLanes :: Lanes
  workInProgressRootPingedLanes :: Lanes
  workInProgressRootConcurrentErrors :: "nat list option"
  workInProgressRootRecoverableErrors :: "nat list option"
  globalMostRecentFallbackTime :: real
  workInProgressTransitions :: "nat list option"
  hasUncaughtError :: bool
  firstUncaughtError :: "nat option"
  legacyErrorBoundariesThatAlreadyFailed :: "nat list option"
  rootDoesHavePassiveEffects :: bool
  rootWithPendingPassiveEffects :: "nat option"
  pendingPassiveEffectsLanes :: Lanes
  pendingPassiveEffectsRemainingLanes :: Lanes
  pendingPassiveTransitions :: "nat list option"
  nestedUpdateCount :: nat
  rootWithNestedUpdates :: "nat option"
  isFlushingPassiveEffects :: bool
  didScheduleUpdateDuringPassiveEffects :: bool
  nestedPassiveUpdateCount :: nat
  rootWithPassiveNestedUpdates :: "nat option"
  currentEventTime :: "real option"
  currentEventTransitionLane :: Lanes
  currentUpdatePriority :: EventPriority
  transition :: "nat option"
  syncQueue :: "SchedulerCallback list option"
  includesLegacySyncCallbacks :: bool
  isFlushingSyncQueue :: bool
  now :: real
  walks :: nat
  handles :: nat
  trace :: "event list"

subsection \<open>What the work loop takes from elsewhere\<close>

text \<open>
  A tree walk (\<open>workLoopSync\<close> or \<open>workLoopConcurrent\<close> with \<open>handleError\<close>) runs
  \<open>beginWork\<close>, \<open>completeWork\<close> and \<open>unwindWork\<close>, which are not among the sources.
  The model takes a walk as what it does to the work loop: the calls it makes to the
  functions the work loop exports for it, and how it ends. It completes the tree it was
  building, or \<open>handleError\<close> finds the thrown value at the root fiber, or the unwinding
  reaches the root without a handler, or the scheduler asks for a yield.
\<close>

datatype walkCall =
    RenderDidSuspend
  | RenderDidSuspendDelayIfPossible
  | RenderDidError nat
  | QueueRecoverableErrors "nat list"
  | MarkSkippedUpdateLanes Lanes

datatype walkEnd =
    Completes fiber
  | ThrowsAtRoot nat
  | UnwindsToRoot
  | Yields

record walk =
  calls :: "walkCall list"
  ending :: walkEnd

text \<open>
  The configuration: \<open>__DEV__\<close>, whether an \<open>act\<close> queue is open
  (\<open>ReactCurrentActQueue.current !== null\<close>), the feature flags and host capabilities
  the modelled code reads, the flag masks of ReactFiberFlags, the functions of
  ReactFiberLane and ReactEventPriorities that are not set algebra (they read and
  write the lane sets of the root), and what user code does: the walks, by their
  number, whether passive effects schedule an update, and the error, if any, that the
  layout pass of a tree hands to \<open>onUncaughtError\<close>.
\<close>

record config =
  DEV :: bool
  actQueue :: bool
  enableCreateEventHandleAPI :: bool
  enableScopeAPI :: bool
  disableSchedulerTimeoutInWorkLoop :: bool
  supportsMicrotasks :: bool
  BeforeMutationMask :: Flags
  MutationMask :: Flags
  LayoutMask :: Flags
  PassiveMask :: Flags
  StoreConsistency :: Flags
  ForceClientRender :: Flags
  includesBlockingLane :: "Lanes \<Rightarrow> bool"
  includesExpiredLane :: "rootLanes \<Rightarrow> Lanes \<Rightarrow> bool"
  includesOnlyRetries :: "Lanes \<Rightarrow> bool"
  includesOnlyTransitions :: "Lanes \<Rightarrow> bool"
  includesNonIdleWork :: "Lanes \<Rightarrow> bool"
  isSubsetOfLanes :: "Lanes \<Rightarrow> Lanes \<Rightarrow> bool"
  getNextLanes :: "rootLanes \<Rightarrow> Lanes \<Rightarrow> Lanes"
  getHighestPriorityLane :: "Lanes \<Rightarrow> Lanes"
  getLanesToRetrySynchronouslyOnError :: "rootLanes \<Rightarrow> Lanes"
  getMostRecentEventTime :: "rootLanes \<Rightarrow> Lanes \<Rightarrow> real"
  markStarvedLanesAsExpired :: "rootLanes \<Rightarrow> real \<Rightarrow> rootLanes"
  markRootFinished :: "rootLanes \<Rightarrow> Lanes \<Rightarrow> rootLanes"
  markRootSuspended_dontCallThisOneDirectly :: "rootLanes \<Rightarrow> Lanes \<Rightarrow> rootLanes"
  markRootPinged :: "rootLanes \<Rightarrow> Lanes \<Rightarrow> real \<Rightarrow> rootLanes"
  lanesToEventPriority :: "Lanes \<Rightarrow> EventPriority"
  lowerEventPriority :: "EventPriority \<Rightarrow> EventPriority \<Rightarrow> EventPriority"
  getTransitionsForLanes :: "Lanes \<Rightarrow> nat list option"
  getConcurrentlyUpdatedLanes :: Lanes
  isRootDehydrated :: bool
  shouldFireAfterActiveInstanceBlur :: "fiber \<Rightarrow> bool"
  walkOf :: "nat \<Rightarrow> walk"
  passiveEffectsScheduleUpdate :: bool
  uncaughtErrorOf :: "fiber \<Rightarrow> nat option"

text \<open>A function of the work loop returns, or throws; either way the state goes on.\<close>

datatype 'a completion =
    Normal 'a workLoop
  | Abrupt exn workLoop

fun stateOf :: "'a completion \<Rightarrow> workLoop" where
  "stateOf (Normal x s) = s"
| "stateOf (Abrupt e s) = s"

definition emit :: "event list \<Rightarrow> workLoop \<Rightarrow> workLoop" where
  "emit evs s = s\<lparr>trace := trace s @ evs\<rparr>"

definition onRoot :: "(fiberRoot \<Rightarrow> fiberRoot) \<Rightarrow> workLoop \<Rightarrow> workLoop" where
  "onRoot f s = s\<lparr>root := f (root s)\<rparr>"

definition onLaneSets :: "(rootLanes \<Rightarrow> rootLanes) \<Rightarrow> workLoop \<Rightarrow> workLoop" where
  "onLaneSets f s = onRoot (\<lambda>r. r\<lparr>laneSets := f (laneSets r)\<rparr>) s"

definition isWorking :: "workLoop \<Rightarrow> bool" where
  "isWorking s \<longleftrightarrow> executionContext s AND (RenderContext OR CommitContext) \<noteq> NoContext"

subsection \<open>Scheduling helpers\<close>

definition scheduleCallback ::
  "config \<Rightarrow> SchedulerPriority \<Rightarrow> SchedulerCallback \<Rightarrow> workLoop \<Rightarrow> callbackNode \<times> workLoop" where
  "scheduleCallback cfg level cb s =
     (if DEV cfg \<and> actQueue cfg then (FakeActCallbackNode, emit [ActQueuePush cb] s)
      else (SchedulerTask (handles s),
            emit [SchedulerScheduleCallback level cb] (s\<lparr>handles := handles s + 1\<rparr>)))"

definition cancelCallback :: "config \<Rightarrow> callbackNode \<Rightarrow> workLoop \<Rightarrow> workLoop" where
  "cancelCallback cfg node s =
     (case node of
        FakeActCallbackNode \<Rightarrow> if DEV cfg then s else s
      | SchedulerTask i \<Rightarrow> emit [SchedulerCancelCallback i] s)"

definition shouldForceFlushFallbacksInDEV :: "config \<Rightarrow> bool" where
  "shouldForceFlushFallbacksInDEV cfg \<longleftrightarrow> DEV cfg \<and> actQueue cfg"

definition scheduleSyncCallback :: "SchedulerCallback \<Rightarrow> workLoop \<Rightarrow> workLoop" where
  "scheduleSyncCallback cb s =
     (case syncQueue s of
        None \<Rightarrow> s\<lparr>syncQueue := Some [cb]\<rparr>
      | Some queue \<Rightarrow> s\<lparr>syncQueue := Some (queue @ [cb])\<rparr>)"

definition scheduleLegacySyncCallback :: "SchedulerCallback \<Rightarrow> workLoop \<Rightarrow> workLoop" where
  "scheduleLegacySyncCallback cb s =
     scheduleSyncCallback cb (s\<lparr>includesLegacySyncCallbacks := True\<rparr>)"

definition requestEventTime :: "workLoop \<Rightarrow> real \<times> workLoop" where
  "requestEventTime s =
     (if isWorking s then (now s, s)
      else (case currentEventTime s of
              Some t \<Rightarrow> (t, s)
            | None \<Rightarrow> (now s, s\<lparr>currentEventTime := Some (now s)\<rparr>)))"

text \<open>
  \<open>ensureRootIsScheduled\<close>. The microtask it schedules and the scheduler task run
  later, outside this call.
\<close>

definition ensureRootIsScheduled :: "config \<Rightarrow> real \<Rightarrow> workLoop \<Rightarrow> workLoop" where
  "ensureRootIsScheduled cfg currentTime s =
     (let existingCallbackNode = callbackNode (root s);
          s1 = onLaneSets (\<lambda>l. markStarvedLanesAsExpired cfg l currentTime) s;
          nextLanes = getNextLanes cfg (laneSets (root s1))
                        (if workInProgressRoot s1 = Some (rootRef (root s1))
                         then workInProgressRootRenderLanes s1 else NoLanes)
      in if nextLanes = NoLanes then
           onRoot (\<lambda>r. r\<lparr>callbackNode := None, callbackPriority := NoLane\<rparr>)
             (case existingCallbackNode of
                Some node \<Rightarrow> cancelCallback cfg node s1
              | None \<Rightarrow> s1)
         else
           let newCallbackPriority = getHighestPriorityLane cfg nextLanes;
               existingCallbackPriority = callbackPriority (root s1)
           in if existingCallbackPriority = newCallbackPriority
                 \<and> \<not> (DEV cfg \<and> actQueue cfg \<and> existingCallbackNode \<noteq> Some FakeActCallbackNode)
              then s1
              else
                let s2 = (case existingCallbackNode of
                            Some node \<Rightarrow> cancelCallback cfg node s1
                          | None \<Rightarrow> s1)
                in if newCallbackPriority = SyncLane then
                     let s3 = (if rootTag (root s2) = LegacyRoot
                               then scheduleLegacySyncCallback
                                      (PerformSyncWorkOnRoot (rootRef (root s2))) s2
                               else scheduleSyncCallback
                                      (PerformSyncWorkOnRoot (rootRef (root s2))) s2);
                         s4 = (if supportsMicrotasks cfg then
                                 (if DEV cfg \<and> actQueue cfg
                                  then emit [ActQueuePush FlushSyncCallbacksCallback] s3
                                  else emit [ScheduleMicrotask] s3)
                               else snd (scheduleCallback cfg ImmediateSchedulerPriority
                                           FlushSyncCallbacksCallback s3))
                     in onRoot (\<lambda>r. r\<lparr>callbackPriority := newCallbackPriority,
                                         callbackNode := None\<rparr>) s4
                   else
                     let schedulerPriorityLevel =
                           (case lanesToEventPriority cfg nextLanes of
                              DiscreteEventPriority \<Rightarrow> ImmediateSchedulerPriority
                            | ContinuousEventPriority \<Rightarrow> UserBlockingSchedulerPriority
                            | DefaultEventPriority \<Rightarrow> NormalSchedulerPriority
                            | IdleEventPriority \<Rightarrow> IdleSchedulerPriority);
                         scheduled = scheduleCallback cfg schedulerPriorityLevel
                                       (PerformConcurrentWorkOnRoot (rootRef (root s2))) s2
                     in onRoot (\<lambda>r. r\<lparr>callbackPriority := newCallbackPriority,
                                         callbackNode := Some (fst scheduled)\<rparr>)
                          (snd scheduled))"

text \<open>
  \<open>flushSyncCallbacks\<close>. The callbacks of the queue are \<open>performSyncWorkOnRoot\<close>
  closures, each a render and a commit of its own: the model records that they are
  called and does not follow them.
\<close>

definition flushSyncCallbacks :: "workLoop \<Rightarrow> workLoop" where
  "flushSyncCallbacks s =
     (case syncQueue s of
        Some queue \<Rightarrow>
          if \<not> isFlushingSyncQueue s then
            let previousUpdatePriority = currentUpdatePriority s;
                s1 = s\<lparr>isFlushingSyncQueue := True,
                        currentUpdatePriority := DiscreteEventPriority\<rparr>;
                s2 = emit (map SyncCallbackInvoked queue) s1;
                s3 = s2\<lparr>syncQueue := None, includesLegacySyncCallbacks := False\<rparr>
            in s3\<lparr>currentUpdatePriority := previousUpdatePriority,
                    isFlushingSyncQueue := False\<rparr>
          else s
      | None \<Rightarrow> s)"

subsection \<open>Passive effects\<close>

text \<open>
  \<open>flushPassiveEffectsImpl\<close>. The passive effects of the tree are user code; the
  model records the two passes over \<open>root.current\<close> when the root with pending
  effects is the one it follows.
\<close>

definition flushPassiveEffectsImpl :: "config \<Rightarrow> workLoop \<Rightarrow> bool completion" where
  "flushPassiveEffectsImpl cfg s =
     (case rootWithPendingPassiveEffects s of
        None \<Rightarrow> Normal False s
      | Some pendingRoot \<Rightarrow>
          let s1 = s\<lparr>pendingPassiveTransitions := None,
                      rootWithPendingPassiveEffects := None,
                      pendingPassiveEffectsLanes := NoLanes\<rparr>
          in if isWorking s1
             then Abrupt (Error ''Cannot flush passive effects while already rendering.'') s1
             else
               let s2 = (if DEV cfg
                         then s1\<lparr>isFlushingPassiveEffects := True,
                                 didScheduleUpdateDuringPassiveEffects := False\<rparr>
                         else s1);
                   prevExecutionContext = executionContext s2;
                   s3 = s2\<lparr>executionContext := executionContext s2 OR CommitContext\<rparr>;
                   s4 = (if pendingRoot = rootRef (root s3)
                         then emit [CommitPassiveUnmountEffects (fiberId (current (root s3))),
                                    CommitPassiveMountEffects (fiberId (current (root s3)))] s3
                         else s3);
                   s5 = (if passiveEffectsScheduleUpdate cfg \<and> DEV cfg
                            \<and> isFlushingPassiveEffects s4
                         then s4\<lparr>didScheduleUpdateDuringPassiveEffects := True\<rparr>
                         else s4);
                   s6 = flushSyncCallbacks (s5\<lparr>executionContext := prevExecutionContext\<rparr>);
                   s7 = (if DEV cfg then
                           (if didScheduleUpdateDuringPassiveEffects s6 then
                              (if rootWithPassiveNestedUpdates s6 = Some pendingRoot
                               then s6\<lparr>nestedPassiveUpdateCount :=
                                         nestedPassiveUpdateCount s6 + 1\<rparr>
                               else s6\<lparr>nestedPassiveUpdateCount := 0,
                                       rootWithPassiveNestedUpdates := Some pendingRoot\<rparr>)
                            else s6\<lparr>nestedPassiveUpdateCount := 0\<rparr>)
                           \<lparr>isFlushingPassiveEffects := False,
                            didScheduleUpdateDuringPassiveEffects := False\<rparr>
                         else s6)
               in Normal True s7)"

definition flushPassiveEffects :: "config \<Rightarrow> workLoop \<Rightarrow> bool completion" where
  "flushPassiveEffects cfg s =
     (if rootWithPendingPassiveEffects s \<noteq> None then
        let s1 = s\<lparr>pendingPassiveEffectsRemainingLanes := NoLanes\<rparr>;
            renderPriority = lanesToEventPriority cfg (pendingPassiveEffectsLanes s1);
            priority = lowerEventPriority cfg DefaultEventPriority renderPriority;
            prevTransition = transition s1;
            previousPriority = currentUpdatePriority s1;
            s2 = s1\<lparr>transition := None, currentUpdatePriority := priority\<rparr>
        in (case flushPassiveEffectsImpl cfg s2 of
              Normal b s3 \<Rightarrow>
                Normal b (s3\<lparr>currentUpdatePriority := previousPriority,
                             transition := prevTransition\<rparr>)
            | Abrupt e s3 \<Rightarrow>
                Abrupt e (s3\<lparr>currentUpdatePriority := previousPriority,
                             transition := prevTransition\<rparr>))
      else Normal False s)"

subsection \<open>The nested update counters\<close>


text \<open>The end of \<open>commitRootImpl\<close>: counting the synchronous re-renders of a root.\<close>

definition countNestedUpdate :: "workLoop \<Rightarrow> workLoop" where
  "countNestedUpdate s =
     (let remainingLanes = pendingLanes (laneSets (root s))
      in if includesSomeLane remainingLanes SyncLane then
           (if rootWithNestedUpdates s = Some (rootRef (root s))
            then s\<lparr>nestedUpdateCount := nestedUpdateCount s + 1\<rparr>
            else s\<lparr>nestedUpdateCount := 0,
                   rootWithNestedUpdates := Some (rootRef (root s))\<rparr>)
         else s\<lparr>nestedUpdateCount := 0\<rparr>)"


subsection \<open>The passes of the commit phase (ReactFiberCommitWork)\<close>

text \<open>
  The three passes, as the calls they make per fiber, in order. The work done for a
  fiber (inserting host nodes, calling lifecycles and effects) is user and host code;
  the model keeps the traversal. The before-mutation pass goes down while
  \<open>subtreeFlags\<close> has a before-mutation flag and calls
  \<open>commitBeforeMutationEffectsOnFiber\<close> on the way up; the mutation pass calls
  \<open>commitMutationEffectsOnFiber\<close>, which runs the deletions of the fiber and then its
  children (\<open>recursivelyTraverseMutationEffects\<close>); the layout pass calls
  \<open>commitLayoutEffectOnFiber\<close>, which goes through the children
  (\<open>recursivelyTraverseLayoutEffects\<close>) unless the fiber is a hidden Offscreen fiber.
  A visible Offscreen fiber is taken to have been visible before.
\<close>

fun commitBeforeMutationEffects_begin :: "config \<Rightarrow> fiber \<Rightarrow> event list" where
  "commitBeforeMutationEffects_begin cfg (Fiber i t f sf l cl st dels kids) =
     (if enableCreateEventHandleAPI cfg
      then map (\<lambda>d. CommitBeforeMutationEffectsDeletion (fiberId d)) dels else [])
     @ (if sf AND BeforeMutationMask cfg \<noteq> NoFlags
        then concat (map (commitBeforeMutationEffects_begin cfg) kids) else [])
     @ [CommitBeforeMutationEffectsOnFiber i]"

fun commitMutationEffectsOnFiber :: "config \<Rightarrow> fiber \<Rightarrow> event list" where
  "commitMutationEffectsOnFiber cfg (Fiber i t f sf l cl st dels kids) =
     CommitMutationEffectsOnFiber i
     # (if t = ScopeComponent \<and> \<not> enableScopeAPI cfg then []
        else map (\<lambda>d. CommitDeletionEffects (fiberId d)) dels
             @ (if sf AND MutationMask cfg \<noteq> NoFlags
                then concat (map (commitMutationEffectsOnFiber cfg) kids) else []))"

fun commitLayoutEffectOnFiber :: "config \<Rightarrow> fiber \<Rightarrow> event list" where
  "commitLayoutEffectOnFiber cfg (Fiber i t f sf l cl st dels kids) =
     CommitLayoutEffectOnFiber i
     # (if t = OffscreenComponent True then []
        else if sf AND LayoutMask cfg \<noteq> NoFlags
             then concat (map (commitLayoutEffectOnFiber cfg) kids) else [])"

definition commitBeforeMutationEffects :: "config \<Rightarrow> fiber \<Rightarrow> workLoop \<Rightarrow> bool \<times> workLoop" where
  "commitBeforeMutationEffects cfg firstChild s =
     (shouldFireAfterActiveInstanceBlur cfg firstChild,
      emit (commitBeforeMutationEffects_begin cfg firstChild) s)"

definition commitMutationEffects :: "config \<Rightarrow> fiber \<Rightarrow> workLoop \<Rightarrow> workLoop" where
  "commitMutationEffects cfg fw s = emit (commitMutationEffectsOnFiber cfg fw) s"

definition onUncaughtError :: "nat \<Rightarrow> workLoop \<Rightarrow> workLoop" where
  "onUncaughtError e s =
     (if \<not> hasUncaughtError s
      then s\<lparr>hasUncaughtError := True, firstUncaughtError := Some e\<rparr> else s)"

definition commitLayoutEffects :: "config \<Rightarrow> fiber \<Rightarrow> workLoop \<Rightarrow> workLoop" where
  "commitLayoutEffects cfg fw s =
     (let s1 = emit (commitLayoutEffectOnFiber cfg fw) s
      in (case uncaughtErrorOf cfg fw of
            Some e \<Rightarrow> onUncaughtError e s1
          | None \<Rightarrow> s1))"

subsection \<open>commitRootImpl and commitRoot\<close>

lemma flushSyncCallbacks_pending [simp]:
  "rootWithPendingPassiveEffects (flushSyncCallbacks s) = rootWithPendingPassiveEffects s"
  by (simp add: flushSyncCallbacks_def emit_def Let_def split: option.splits)

lemma flushPassiveEffectsImpl_pending:
  "flushPassiveEffectsImpl cfg s = Normal b s' \<Longrightarrow> rootWithPendingPassiveEffects s' = None"
  by (auto simp: flushPassiveEffectsImpl_def Let_def emit_def split: option.splits if_splits)

lemma flushPassiveEffects_pending:
  "flushPassiveEffects cfg s = Normal b s' \<Longrightarrow> rootWithPendingPassiveEffects s' = None"
  by (auto simp: flushPassiveEffects_def Let_def split: if_splits completion.splits
        dest: flushPassiveEffectsImpl_pending)

text \<open>
  The loop at the head of \<open>commitRootImpl\<close>:
  \<open>do { flushPassiveEffects() } while (rootWithPendingPassiveEffects !== null)\<close>.
\<close>

function flushPendingPassiveEffects :: "config \<Rightarrow> workLoop \<Rightarrow> unit completion" where
  "flushPendingPassiveEffects cfg s =
     (case flushPassiveEffects cfg s of
        Abrupt e s1 \<Rightarrow> Abrupt e s1
      | Normal b s1 \<Rightarrow>
          if rootWithPendingPassiveEffects s1 \<noteq> None
          then flushPendingPassiveEffects cfg s1
          else Normal () s1)"
  by pat_completeness auto
termination
  by (relation "{}") (auto dest: flushPassiveEffects_pending)

declare flushPendingPassiveEffects.simps [simp del]

text \<open>
  The part of \<open>commitRootImpl\<close> that applies the effects of the finished tree \<open>fw\<close>:
  with effects, the before-mutation pass, the mutation pass, the assignment
  \<open>root.current = finishedWork\<close> and the layout pass; without effects, the assignment
  alone. After the assignment the former current tree is the alternate.
\<close>

definition setCurrent :: "fiber \<Rightarrow> workLoop \<Rightarrow> workLoop" where
  "setCurrent fw s =
     emit [SetCurrent (fiberId fw)]
       (onRoot (\<lambda>r. r\<lparr>current := fw, alternate := Some (current r)\<rparr>) s)"

definition commitRootImpl_effects :: "config \<Rightarrow> fiber \<Rightarrow> workLoop \<Rightarrow> workLoop" where
  "commitRootImpl_effects cfg fw s =
     (let mask = BeforeMutationMask cfg OR MutationMask cfg OR LayoutMask cfg OR PassiveMask cfg;
          subtreeHasEffects = (subtreeFlags fw AND mask \<noteq> NoFlags);
          rootHasEffect = (flags fw AND mask \<noteq> NoFlags)
      in if subtreeHasEffects \<or> rootHasEffect then
           let prevTransition = transition s;
               previousPriority = currentUpdatePriority s;
               prevExecutionContext = executionContext s;
               s1 = s\<lparr>transition := None, currentUpdatePriority := DiscreteEventPriority,
                       executionContext := executionContext s OR CommitContext\<rparr>;
               beforeMutation = commitBeforeMutationEffects cfg fw s1;
               s2 = commitMutationEffects cfg fw (snd beforeMutation);
               s3 = (if enableCreateEventHandleAPI cfg \<and> fst beforeMutation
                     then emit [AfterActiveInstanceBlur] s2 else s2);
               s4 = emit [ResetAfterCommit] s3;
               s5 = setCurrent fw s4;
               s6 = commitLayoutEffects cfg fw s5;
               s7 = emit [RequestPaint] s6
           in s7\<lparr>executionContext := prevExecutionContext,
                   currentUpdatePriority := previousPriority,
                   transition := prevTransition\<rparr>
         else setCurrent fw s)"

definition reportRecoverableErrors :: "nat list option \<Rightarrow> workLoop \<Rightarrow> workLoop" where
  "reportRecoverableErrors recoverableErrors s =
     (case recoverableErrors of
        Some errors \<Rightarrow> emit (map OnRecoverableError errors) s
      | None \<Rightarrow> s)"

text \<open>
  \<open>commitRootImpl\<close>, in the order of the source: the flush of pending passive
  effects, the two checks on \<open>root.finishedWork\<close>, the bookkeeping before the
  effects (\<open>commitRootImpl_prepare\<close>), the effects, and the rest
  (\<open>commitRootImpl_finish\<close>).
\<close>

definition commitRootImpl_prepare ::
  "config \<Rightarrow> fiber \<Rightarrow> nat list option \<Rightarrow> workLoop \<Rightarrow> workLoop" where
  "commitRootImpl_prepare cfg fw transitions s1 =
     (let s2 = onRoot (\<lambda>r. r\<lparr>callbackNode := None, callbackPriority := NoLane\<rparr>) s1;
          remainingLanes =
            mergeLanes (mergeLanes (fiberLanes fw) (childLanes fw))
              (getConcurrentlyUpdatedLanes cfg);
          s3 = onLaneSets (\<lambda>l. markRootFinished cfg l remainingLanes) s2;
          s4 = (if workInProgressRoot s3 = Some (rootRef (root s3))
                then s3\<lparr>workInProgressRoot := None, workInProgress := [],
                        workInProgressRootRenderLanes := NoLanes\<rparr>
                else s3)
      in if (subtreeFlags fw AND PassiveMask cfg \<noteq> NoFlags
             \<or> flags fw AND PassiveMask cfg \<noteq> NoFlags)
            \<and> \<not> rootDoesHavePassiveEffects s4
         then snd (scheduleCallback cfg NormalSchedulerPriority FlushPassiveEffectsCallback
                (s4\<lparr>rootDoesHavePassiveEffects := True,
                    pendingPassiveEffectsRemainingLanes := remainingLanes,
                    pendingPassiveTransitions := transitions\<rparr>))
         else s4)"

definition commitRootImpl_finish ::
  "config \<Rightarrow> fiber \<Rightarrow> Lanes \<Rightarrow> nat list option \<Rightarrow> workLoop \<Rightarrow> unit completion" where
  "commitRootImpl_finish cfg fw lanes recoverableErrors s6 =
     (let s7 = (if rootDoesHavePassiveEffects s6
                then s6\<lparr>rootDoesHavePassiveEffects := False,
                        rootWithPendingPassiveEffects := Some (rootRef (root s6)),
                        pendingPassiveEffectsLanes := lanes\<rparr>
                else s6);
          s8 = (if pendingLanes (laneSets (root s7)) = NoLanes
                then s7\<lparr>legacyErrorBoundariesThatAlreadyFailed := None\<rparr>
                else s7);
          s9 = ensureRootIsScheduled cfg (now s8) (emit [OnCommitRoot (fiberId fw)] s8);
          s10 = reportRecoverableErrors recoverableErrors s9
      in if hasUncaughtError s10 then
           Abrupt (ThrownValue (firstUncaughtError s10))
             (s10\<lparr>hasUncaughtError := False, firstUncaughtError := None\<rparr>)
         else
           (case (if includesSomeLane (pendingPassiveEffectsLanes s10) SyncLane
                     \<and> rootTag (root s10) \<noteq> LegacyRoot
                  then flushPassiveEffects cfg s10
                  else Normal False s10) of
              Abrupt e s11 \<Rightarrow> Abrupt e s11
            | Normal b s11 \<Rightarrow> Normal () (flushSyncCallbacks (countNestedUpdate s11))))"

definition commitRootImpl ::
  "config \<Rightarrow> nat list option \<Rightarrow> nat list option \<Rightarrow> EventPriority \<Rightarrow> workLoop
   \<Rightarrow> unit completion" where
  "commitRootImpl cfg recoverableErrors transitions renderPriorityLevel s =
     (case flushPendingPassiveEffects cfg s of
        Abrupt e s0 \<Rightarrow> Abrupt e s0
      | Normal u s0 \<Rightarrow>
          (case finishedWork (root s0) of
             None \<Rightarrow> Normal () s0
           | Some fw \<Rightarrow>
               let lanes = finishedLanes (root s0);
                   s1 = onRoot (\<lambda>r. r\<lparr>finishedWork := None, finishedLanes := NoLanes\<rparr>) s0
               in if fiberId fw = fiberId (current (root s1)) then
                    Abrupt (Error ''Cannot commit the same tree as before.'') s1
                  else
                    commitRootImpl_finish cfg fw lanes recoverableErrors
                      (commitRootImpl_effects cfg fw
                         (commitRootImpl_prepare cfg fw transitions s1))))"

text \<open>
  \<open>commitRoot\<close> runs \<open>commitRootImpl\<close> at the discrete priority with no transition
  and restores both in its \<open>finally\<close> block.
\<close>

definition commitRoot ::
  "config \<Rightarrow> nat list option \<Rightarrow> nat list option \<Rightarrow> workLoop \<Rightarrow> unit completion" where
  "commitRoot cfg recoverableErrors transitions s =
     (let previousUpdateLanePriority = currentUpdatePriority s;
          prevTransition = transition s;
          s1 = s\<lparr>transition := None, currentUpdatePriority := DiscreteEventPriority\<rparr>
      in (case commitRootImpl cfg recoverableErrors transitions previousUpdateLanePriority s1 of
            Normal u s2 \<Rightarrow>
              Normal () (s2\<lparr>transition := prevTransition,
                            currentUpdatePriority := previousUpdateLanePriority\<rparr>)
          | Abrupt e s2 \<Rightarrow>
              Abrupt e (s2\<lparr>transition := prevTransition,
                           currentUpdatePriority := previousUpdateLanePriority\<rparr>)))"

subsection \<open>Rendering\<close>

definition markRootSuspended :: "config \<Rightarrow> Lanes \<Rightarrow> workLoop \<Rightarrow> workLoop" where
  "markRootSuspended cfg lanes s =
     (let l1 = removeLanes lanes (workInProgressRootPingedLanes s);
          l2 = removeLanes l1 (workInProgressRootInterleavedUpdatedLanes s)
      in onLaneSets (\<lambda>l. markRootSuspended_dontCallThisOneDirectly cfg l l2) s)"

text \<open>
  Modelled from the spec: \<open>createWorkInProgress\<close> (ReactFiber) is not among the sources.
  A work node has at most one alternate; creating the work-in-progress node reuses
  the alternate when there is one, reset, and allocates a node otherwise. The new
  node shares the children of the current one and has no effect flags; its number
  differs from the current node's.
\<close>

definition createWorkInProgress :: "workLoop \<Rightarrow> workLoop" where
  "createWorkInProgress s =
     (let cur = current (root s);
          i = (case alternate (root s) of Some a \<Rightarrow> fiberId a | None \<Rightarrow> Suc (fiberId cur))
      in onRoot (\<lambda>r. r\<lparr>alternate :=
           Some (Fiber i (tag cur) NoFlags NoFlags (fiberLanes cur) (childLanes cur)
                   (stores cur) [] (children cur))\<rparr>) s)"

definition prepareFreshStack :: "config \<Rightarrow> Lanes \<Rightarrow> workLoop \<Rightarrow> workLoop" where
  "prepareFreshStack cfg lanes s =
     (let s1 = onRoot (\<lambda>r. r\<lparr>finishedWork := None, finishedLanes := NoLanes\<rparr>) s;
          s2 = (case timeoutHandle (root s1) of
                  Some h \<Rightarrow> emit [CancelTimeout h] (onRoot (\<lambda>r. r\<lparr>timeoutHandle := None\<rparr>) s1)
                | None \<Rightarrow> s1);
          s3 = createWorkInProgress (s2\<lparr>workInProgressRoot := Some (rootRef (root s2))\<rparr>)
      in s3\<lparr>workInProgress :=
               (case alternate (root s3) of
                  Some rootWorkInProgress \<Rightarrow> [WorkUnit (fiberId rootWorkInProgress) False None]
                | None \<Rightarrow> []),
             workInProgressRootRenderLanes := lanes,
             workInProgressRootExitStatus := RootInProgress,
             workInProgressRootFatalError := None,
             workInProgressRootSkippedLanes := NoLanes,
             workInProgressRootInterleavedUpdatedLanes := NoLanes,
             workInProgressRootRenderPhaseUpdatedLanes := NoLanes,
             workInProgressRootPingedLanes := NoLanes,
             workInProgressRootConcurrentErrors := None,
             workInProgressRootRecoverableErrors := None\<rparr>)"

definition renderDidSuspend :: "workLoop \<Rightarrow> workLoop" where
  "renderDidSuspend s =
     (if workInProgressRootExitStatus s = RootInProgress
      then s\<lparr>workInProgressRootExitStatus := RootSuspended\<rparr> else s)"

definition renderDidSuspendDelayIfPossible :: "config \<Rightarrow> workLoop \<Rightarrow> workLoop" where
  "renderDidSuspendDelayIfPossible cfg s =
     (let s1 = (if workInProgressRootExitStatus s = RootInProgress
                   \<or> workInProgressRootExitStatus s = RootSuspended
                   \<or> workInProgressRootExitStatus s = RootErrored
                then s\<lparr>workInProgressRootExitStatus := RootSuspendedWithDelay\<rparr> else s)
      in if workInProgressRoot s1 \<noteq> None
            \<and> (includesNonIdleWork cfg (workInProgressRootSkippedLanes s1)
               \<or> includesNonIdleWork cfg (workInProgressRootInterleavedUpdatedLanes s1))
         then markRootSuspended cfg (workInProgressRootRenderLanes s1) s1
         else s1)"

definition renderDidError :: "nat \<Rightarrow> workLoop \<Rightarrow> workLoop" where
  "renderDidError error s =
     (let s1 = (if workInProgressRootExitStatus s \<noteq> RootSuspendedWithDelay
                then s\<lparr>workInProgressRootExitStatus := RootErrored\<rparr> else s)
      in (case workInProgressRootConcurrentErrors s1 of
            None \<Rightarrow> s1\<lparr>workInProgressRootConcurrentErrors := Some [error]\<rparr>
          | Some errors \<Rightarrow> s1\<lparr>workInProgressRootConcurrentErrors := Some (errors @ [error])\<rparr>))"

definition queueRecoverableErrors :: "nat list \<Rightarrow> workLoop \<Rightarrow> workLoop" where
  "queueRecoverableErrors errors s =
     (case workInProgressRootRecoverableErrors s of
        None \<Rightarrow> s\<lparr>workInProgressRootRecoverableErrors := Some errors\<rparr>
      | Some queued \<Rightarrow> s\<lparr>workInProgressRootRecoverableErrors := Some (queued @ errors)\<rparr>)"

definition markSkippedUpdateLanes :: "Lanes \<Rightarrow> workLoop \<Rightarrow> workLoop" where
  "markSkippedUpdateLanes lane s =
     s\<lparr>workInProgressRootSkippedLanes := mergeLanes lane (workInProgressRootSkippedLanes s)\<rparr>"

fun applyWalkCall :: "config \<Rightarrow> walkCall \<Rightarrow> workLoop \<Rightarrow> workLoop" where
  "applyWalkCall cfg RenderDidSuspend s = renderDidSuspend s"
| "applyWalkCall cfg RenderDidSuspendDelayIfPossible s = renderDidSuspendDelayIfPossible cfg s"
| "applyWalkCall cfg (RenderDidError error) s = renderDidError error s"
| "applyWalkCall cfg (QueueRecoverableErrors errors) s = queueRecoverableErrors errors s"
| "applyWalkCall cfg (MarkSkippedUpdateLanes lane) s = markSkippedUpdateLanes lane s"

text \<open>
  The two ways a walk ends without a tree, as \<open>handleError\<close> and
  \<open>completeUnitOfWork\<close> write them, and the end of \<open>completeUnitOfWork\<close> at the
  root of a tree that completed.
\<close>

definition rootFatalErrored :: "nat \<Rightarrow> workLoop \<Rightarrow> workLoop" where
  "rootFatalErrored thrownValue s =
     s\<lparr>workInProgressRootExitStatus := RootFatalErrored,
       workInProgressRootFatalError := Some thrownValue,
       workInProgress := []\<rparr>"

definition rootDidNotComplete :: "workLoop \<Rightarrow> workLoop" where
  "rootDidNotComplete s =
     s\<lparr>workInProgressRootExitStatus := RootDidNotComplete, workInProgress := []\<rparr>"

definition rootCompleted :: "workLoop \<Rightarrow> workLoop" where
  "rootCompleted s =
     (if workInProgressRootExitStatus s = RootInProgress
      then s\<lparr>workInProgressRootExitStatus := RootCompleted\<rparr> else s)"





text \<open>
  One run of the work loop inside \<open>renderRootSync\<close> or \<open>renderRootConcurrent\<close>
  (with its \<open>handleError\<close> rounds), as a whole: nothing when \<open>workInProgress\<close> is
  null; otherwise the next walk. A completed walk leaves the built tree as the
  alternate (the same node as before) and ends as \<open>completeUnitOfWork\<close> does at the
  root; a walk that throws with the root fiber as its unit of work ends as
  \<open>handleError\<close> does; a walk that unwinds to the root without a handler ends as
  \<open>completeUnitOfWork\<close> does there.
\<close>

definition runWalk :: "config \<Rightarrow> workLoop \<Rightarrow> workLoop" where
  "runWalk cfg s =
     (if workInProgress s = [] then s
      else
        let w = walkOf cfg (walks s);
            s1 = fold (applyWalkCall cfg) (calls w) (s\<lparr>walks := walks s + 1\<rparr>)
        in (case ending w of
              Completes built \<Rightarrow>
                rootCompleted
                  ((onRoot (\<lambda>r. r\<lparr>alternate :=
                      Some (Fiber (case alternate r of Some a \<Rightarrow> fiberId a | None \<Rightarrow> fiberId built)
                              (tag built) (flags built) (subtreeFlags built) (fiberLanes built)
                              (childLanes built) (stores built) (deletions built)
                              (children built))\<rparr>) s1)
                   \<lparr>workInProgress := []\<rparr>)
            | ThrowsAtRoot thrownValue \<Rightarrow> rootFatalErrored thrownValue s1
            | UnwindsToRoot \<Rightarrow> rootDidNotComplete s1
            | Yields \<Rightarrow> s1))"

definition renderRootSync :: "config \<Rightarrow> Lanes \<Rightarrow> workLoop \<Rightarrow> RootExitStatus completion" where
  "renderRootSync cfg lanes s =
     (let prevExecutionContext = executionContext s;
          s1 = s\<lparr>executionContext := executionContext s OR RenderContext\<rparr>;
          s2 = (if workInProgressRoot s1 \<noteq> Some (rootRef (root s1))
                   \<or> workInProgressRootRenderLanes s1 \<noteq> lanes
                then prepareFreshStack cfg lanes
                       (s1\<lparr>workInProgressTransitions := getTransitionsForLanes cfg lanes\<rparr>)
                else s1);
          s3 = runWalk cfg s2;
          s4 = s3\<lparr>executionContext := prevExecutionContext\<rparr>
      in if workInProgress s4 \<noteq> []
         then Abrupt (Error ''Cannot commit an incomplete root.'') s4
         else
           let s5 = s4\<lparr>workInProgressRoot := None, workInProgressRootRenderLanes := NoLanes\<rparr>
           in Normal (workInProgressRootExitStatus s5)
                (emit [RenderRootSync lanes (workInProgressRootExitStatus s5)] s5))"


text \<open>
  The first step of \<open>recoverFromConcurrentError\<close>: on a dehydrated root, a fresh stack
  with \<open>ForceClientRender\<close> on the root fiber.
\<close>

definition forceClientRender :: "config \<Rightarrow> Lanes \<Rightarrow> workLoop \<Rightarrow> workLoop" where
  "forceClientRender cfg errorRetryLanes s =
     (if isRootDehydrated cfg then
        let p = prepareFreshStack cfg errorRetryLanes s;
            forced = onRoot (\<lambda>r. r\<lparr>alternate :=
                       map_option
                         (\<lambda>a. Fiber (fiberId a) (tag a) (flags a OR ForceClientRender cfg)
                                 (subtreeFlags a) (fiberLanes a) (childLanes a)
                                 (stores a) (deletions a) (children a))
                         (alternate r)\<rparr>) p
        in if DEV cfg then emit [ErrorHydratingContainer] forced else forced
      else s)"

definition recoverFromConcurrentError ::
  "config \<Rightarrow> Lanes \<Rightarrow> workLoop \<Rightarrow> RootExitStatus completion" where
  "recoverFromConcurrentError cfg errorRetryLanes s =
     (let errorsFromFirstAttempt = workInProgressRootConcurrentErrors s
      in (case renderRootSync cfg errorRetryLanes (forceClientRender cfg errorRetryLanes s) of
            Abrupt e s2 \<Rightarrow> Abrupt e s2
          | Normal exitStatus s2 \<Rightarrow>
              if exitStatus \<noteq> RootErrored then
                let errorsFromSecondAttempt = workInProgressRootRecoverableErrors s2;
                    s3 = s2\<lparr>workInProgressRootRecoverableErrors := errorsFromFirstAttempt\<rparr>
                in Normal exitStatus
                     (case errorsFromSecondAttempt of
                        Some errors \<Rightarrow> queueRecoverableErrors errors s3
                      | None \<Rightarrow> s3)
              else Normal exitStatus s2))"

text \<open>
  \<open>isRenderConsistentWithExternalStores\<close>: every store check of a flagged fiber
  that the walk reaches must return the rendered value; \<open>getSnapshot\<close> throwing
  counts as a mismatch. The walk goes into the children of a fiber whose
  \<open>subtreeFlags\<close> has the store-consistency flag.
\<close>

fun storeMatches :: "storeCheck \<Rightarrow> bool" where
  "storeMatches (StoreCheck snapshot renderedValue) \<longleftrightarrow> snapshot = Some renderedValue"

fun isRenderConsistentWithExternalStores :: "config \<Rightarrow> fiber \<Rightarrow> bool" where
  "isRenderConsistentWithExternalStores cfg (Fiber i t f sf l cl st dels kids) \<longleftrightarrow>
     (if f AND StoreConsistency cfg \<noteq> NoFlags
      then (case st of Some checks \<Rightarrow> list_all storeMatches checks | None \<Rightarrow> True)
      else True)
     \<and> (if sf AND StoreConsistency cfg \<noteq> NoFlags
        then list_all (isRenderConsistentWithExternalStores cfg) kids
        else True)"

subsection \<open>finishConcurrentRender\<close>

definition FALLBACK_THROTTLE_MS :: real where "FALLBACK_THROTTLE_MS = 500"

definition jnd :: "real \<Rightarrow> real" where
  "jnd timeElapsed =
     (if timeElapsed < 120 then 120
      else if timeElapsed < 480 then 480
      else if timeElapsed < 1080 then 1080
      else if timeElapsed < 1920 then 1920
      else if timeElapsed < 3000 then 3000
      else if timeElapsed < 4320 then 4320
      else of_int \<lceil>timeElapsed / 1960\<rceil> * 1960)"

text \<open>
  \<open>root.timeoutHandle = scheduleTimeout(commitRoot.bind(null, root, ...), ms)\<close>: the
  commit runs when the host fires the timeout, outside this call.
\<close>

definition scheduleCommitTimeout :: "real \<Rightarrow> workLoop \<Rightarrow> workLoop" where
  "scheduleCommitTimeout msUntilTimeout s =
     emit [ScheduleTimeout msUntilTimeout]
       (onRoot (\<lambda>r. r\<lparr>timeoutHandle := Some (handles s)\<rparr>) (s\<lparr>handles := handles s + 1\<rparr>))"

definition finishConcurrentRender ::
  "config \<Rightarrow> RootExitStatus \<Rightarrow> Lanes \<Rightarrow> workLoop \<Rightarrow> unit completion" where
  "finishConcurrentRender cfg exitStatus lanes s0 =
     (let s = emit [FinishConcurrentRender exitStatus lanes] s0
      in (case exitStatus of
            RootInProgress \<Rightarrow> Abrupt (Error ''Root did not complete. This is a bug in React.'') s
          | RootFatalErrored \<Rightarrow>
              Abrupt (Error ''Root did not complete. This is a bug in React.'') s
          | RootErrored \<Rightarrow>
              commitRoot cfg (workInProgressRootRecoverableErrors s) (workInProgressTransitions s) s
          | RootSuspended \<Rightarrow>
              let s1 = markRootSuspended cfg lanes s
              in if includesOnlyRetries cfg lanes \<and> \<not> shouldForceFlushFallbacksInDEV cfg then
                   let msUntilTimeout =
                         globalMostRecentFallbackTime s1 + FALLBACK_THROTTLE_MS - now s1
                   in if msUntilTimeout > 10 then
                        let nextLanes = getNextLanes cfg (laneSets (root s1)) NoLanes
                        in if nextLanes \<noteq> NoLanes then Normal () s1
                           else
                             let suspended = suspendedLanes (laneSets (root s1))
                             in if \<not> isSubsetOfLanes cfg suspended lanes then
                                  let timed = requestEventTime s1
                                  in Normal ()
                                       (onLaneSets
                                          (\<lambda>l. markRootPinged cfg l suspended (fst timed))
                                          (snd timed))
                                else Normal () (scheduleCommitTimeout msUntilTimeout s1)
                      else commitRoot cfg (workInProgressRootRecoverableErrors s1)
                             (workInProgressTransitions s1) s1
                 else commitRoot cfg (workInProgressRootRecoverableErrors s1)
                        (workInProgressTransitions s1) s1
          | RootSuspendedWithDelay \<Rightarrow>
              let s1 = markRootSuspended cfg lanes s
              in if includesOnlyTransitions cfg lanes then Normal () s1
                 else
                   let mostRecentEventTime = getMostRecentEventTime cfg (laneSets (root s1)) lanes;
                       timeElapsedMs = now s1 - mostRecentEventTime;
                       msUntilTimeout = jnd timeElapsedMs - timeElapsedMs
                   in if \<not> shouldForceFlushFallbacksInDEV cfg \<and> msUntilTimeout > 10
                      then Normal () (scheduleCommitTimeout msUntilTimeout s1)
                      else commitRoot cfg (workInProgressRootRecoverableErrors s1)
                             (workInProgressTransitions s1) s1
          | RootCompleted \<Rightarrow>
              commitRoot cfg (workInProgressRootRecoverableErrors s) (workInProgressTransitions s) s
          | RootDidNotComplete \<Rightarrow> Abrupt (Error ''Unknown root exit status.'') s))"

subsection \<open>performConcurrentWorkOnRoot\<close>

text \<open>
  Two blocks that \<open>performConcurrentWorkOnRoot\<close> has twice, after the first render and
  after the synchronous render that follows a failed store check, and that
  \<open>performSyncWorkOnRoot\<close> has too: the retry of an errored render, and the throw of a
  fatal error.
\<close>

definition retrySynchronouslyOnError ::
  "config \<Rightarrow> RootExitStatus \<Rightarrow> Lanes \<Rightarrow> workLoop \<Rightarrow> (RootExitStatus \<times> Lanes) completion" where
  "retrySynchronouslyOnError cfg exitStatus lanes s =
     (if exitStatus = RootErrored then
        let errorRetryLanes = getLanesToRetrySynchronouslyOnError cfg (laneSets (root s))
        in if errorRetryLanes \<noteq> NoLanes then
             (case recoverFromConcurrentError cfg errorRetryLanes s of
                Abrupt e s1 \<Rightarrow> Abrupt e s1
              | Normal retried s1 \<Rightarrow> Normal (retried, errorRetryLanes) s1)
           else Normal (exitStatus, lanes) s
      else Normal (exitStatus, lanes) s)"

definition throwFatalError :: "config \<Rightarrow> Lanes \<Rightarrow> workLoop \<Rightarrow> 'a completion" where
  "throwFatalError cfg lanes s =
     (let fatalError = workInProgressRootFatalError s;
          s1 = prepareFreshStack cfg NoLanes s;
          s2 = markRootSuspended cfg lanes s1;
          s3 = ensureRootIsScheduled cfg (now s2) s2
      in Abrupt (ThrownValue fatalError) s3)"

text \<open>
  The body of \<open>if (exitStatus !== RootInProgress)\<close>. The finished work is
  \<open>root.current.alternate\<close>, read before the check of the stores and, being the
  same node, holding the tree of the latest render when it is assigned to
  \<open>root.finishedWork\<close>. Were there no alternate, the check of the stores would read
  a field of null, which throws a TypeError.
\<close>

definition performConcurrentWorkOnRoot_exited ::
  "config \<Rightarrow> RootExitStatus \<Rightarrow> Lanes \<Rightarrow> workLoop \<Rightarrow> unit completion" where
  "performConcurrentWorkOnRoot_exited cfg exitStatus lanes s =
     (case retrySynchronouslyOnError cfg exitStatus lanes s of
        Abrupt e s1 \<Rightarrow> Abrupt e s1
      | Normal retried s1 \<Rightarrow>
          if fst retried = RootFatalErrored then throwFatalError cfg (snd retried) s1
          else if fst retried = RootDidNotComplete
          then Normal () (markRootSuspended cfg (snd retried) s1)
          else
            let renderWasConcurrent = \<not> includesBlockingLane cfg (snd retried);
                inconsistent =
                  (case alternate (root s1) of
                     Some tree \<Rightarrow> Some (\<not> isRenderConsistentWithExternalStores cfg tree)
                   | None \<Rightarrow> None)
            in if renderWasConcurrent \<and> inconsistent = None
               then Abrupt (Error ''TypeError: finishedWork is null'') s1
               else
                 (case (if renderWasConcurrent \<and> inconsistent = Some True then
                          (case renderRootSync cfg (snd retried) s1 of
                             Abrupt e s2 \<Rightarrow> Abrupt e s2
                           | Normal rerendered s2 \<Rightarrow>
                               (case retrySynchronouslyOnError cfg rerendered (snd retried) s2 of
                                  Abrupt e s3 \<Rightarrow> Abrupt e s3
                                | Normal again s3 \<Rightarrow>
                                    if fst again = RootFatalErrored
                                    then throwFatalError cfg (snd again) s3
                                    else Normal again s3))
                        else Normal retried s1) of
                    Abrupt e s4 \<Rightarrow> Abrupt e s4
                  | Normal final s4 \<Rightarrow>
                      finishConcurrentRender cfg (fst final) (snd final)
                        (onRoot (\<lambda>r. r\<lparr>finishedWork := alternate r,
                                          finishedLanes := snd final\<rparr>) s4)))"


subsection \<open>performSyncWorkOnRoot\<close>

text \<open>
  The entry point of synchronous work. It has the same two blocks after its render
  (the retry only on a root that is not a legacy root), and commits without the check
  of the stores.
\<close>

definition performSyncWorkOnRoot :: "config \<Rightarrow> workLoop \<Rightarrow> unit completion" where
  "performSyncWorkOnRoot cfg s =
     (if isWorking s then Abrupt (Error ''Should not already be working.'') s
      else
        (case flushPassiveEffects cfg s of
           Abrupt e s1 \<Rightarrow> Abrupt e s1
         | Normal didFlushPassiveEffects s1 \<Rightarrow>
             let lanes = getNextLanes cfg (laneSets (root s1)) NoLanes
             in if \<not> includesSomeLane lanes SyncLane
                then Normal () (ensureRootIsScheduled cfg (now s1) s1)
                else
                  (case renderRootSync cfg lanes s1 of
                     Abrupt e s2 \<Rightarrow> Abrupt e s2
                   | Normal exitStatus s2 \<Rightarrow>
                       (case (if rootTag (root s2) \<noteq> LegacyRoot
                              then retrySynchronouslyOnError cfg exitStatus lanes s2
                              else Normal (exitStatus, lanes) s2) of
                          Abrupt e s3 \<Rightarrow> Abrupt e s3
                        | Normal retried s3 \<Rightarrow>
                            if fst retried = RootFatalErrored
                            then throwFatalError cfg (snd retried) s3
                            else if fst retried = RootDidNotComplete
                            then Abrupt (Error ''Root did not complete. This is a bug in React.'') s3
                            else
                              let s4 = onRoot (\<lambda>r. r\<lparr>finishedWork := alternate r,
                                                      finishedLanes := snd retried\<rparr>) s3
                              in (case commitRoot cfg (workInProgressRootRecoverableErrors s4)
                                         (workInProgressTransitions s4) s4 of
                                    Abrupt e s5 \<Rightarrow> Abrupt e s5
                                  | Normal u s5 \<Rightarrow>
                                      Normal () (ensureRootIsScheduled cfg (now s5) s5))))))"

subsection \<open>Observations of the trace\<close>

text \<open>
  The steps of the commit phase in a trace: the calls of the before-mutation pass, of
  the mutation pass, the assignment to \<open>root.current\<close>, the calls of the layout pass.
\<close>

datatype commitStep = BeforeMutation | Mutation | Swap | Layout

fun stepOf :: "event \<Rightarrow> commitStep option" where
  "stepOf (CommitBeforeMutationEffectsOnFiber i) = Some BeforeMutation"
| "stepOf (CommitBeforeMutationEffectsDeletion i) = Some BeforeMutation"
| "stepOf (CommitMutationEffectsOnFiber i) = Some Mutation"
| "stepOf (CommitDeletionEffects i) = Some Mutation"
| "stepOf (SetCurrent i) = Some Swap"
| "stepOf (CommitLayoutEffectOnFiber i) = Some Layout"
| "stepOf e = None"

definition steps :: "workLoop \<Rightarrow> commitStep list" where
  "steps s = List.map_filter stepOf (trace s)"

text \<open>The renders in a trace, and the errors handed to \<open>onRecoverableError\<close>.\<close>

fun isRender :: "event \<Rightarrow> bool" where
  "isRender (RenderRootSync l st) = True"
| "isRender (RenderRootConcurrent l st) = True"
| "isRender e = False"

definition renders :: "workLoop \<Rightarrow> event list" where
  "renders s = filter isRender (trace s)"

fun recoverableOf :: "event \<Rightarrow> nat option" where
  "recoverableOf (OnRecoverableError i) = Some i"
| "recoverableOf e = None"

definition reported :: "workLoop \<Rightarrow> nat list" where
  "reported s = List.map_filter recoverableOf (trace s)"

fun errorsOf :: "nat list option \<Rightarrow> nat list" where
  "errorsOf None = []"
| "errorsOf (Some errors) = errors"

text \<open>
  The other events (calls to the scheduler and the host, the passive passes, the
  callbacks of the sync queue) are aside of these observations. A state extends
  another when its trace is the other's followed by such events only; it keeps the
  other when, moreover, the published tree and its alternate, the execution context
  and the nested update counter are the same.
\<close>

fun aside :: "event \<Rightarrow> bool" where
  "aside (RenderRootSync l st) = False"
| "aside (RenderRootConcurrent l st) = False"
| "aside (FinishConcurrentRender st l) = False"
| "aside (OnRecoverableError i) = False"
| "aside e = (stepOf e = None)"

definition extends :: "workLoop \<Rightarrow> workLoop \<Rightarrow> bool" where
  "extends s s' \<longleftrightarrow> (\<exists>evs. trace s' = trace s @ evs \<and> list_all aside evs)"

definition keeps :: "workLoop \<Rightarrow> workLoop \<Rightarrow> bool" where
  "keeps s s' \<longleftrightarrow> extends s s'
     \<and> rootRef (root s') = rootRef (root s) \<and> rootTag (root s') = rootTag (root s)
     \<and> current (root s') = current (root s) \<and> alternate (root s') = alternate (root s)
     \<and> executionContext s' = executionContext s
     \<and> nestedUpdateCount s' = nestedUpdateCount s
     \<and> rootWithNestedUpdates s' = rootWithNestedUpdates s"



subsection \<open>Unwinding to the root\<close>



subsection \<open>An example configuration and example states\<close>

text \<open>
  A production build with the flag masks of ReactFiberFlags and, for the lane
  functions, the bit masks of ReactFiberLane with simple stand-ins where the original
  walks over the lanes: nothing starves, the next lanes are the highest pending lane
  that is not suspended or is pinged, a finished root forgets its suspended and pinged
  lanes. Every walk completes \<open>renderedTree\<close>.
\<close>

definition currentTree :: fiber where
  "currentTree = Fiber 1 HostRoot 0 0 0 0 None [] [Fiber 3 OtherTag 0 0 0 0 None [] []]"

definition renderedTree :: fiber where
  "renderedTree = Fiber 2 HostRoot 0 4 0 0 None [] [Fiber 4 OtherTag 4 0 0 0 None [] []]"

definition exampleConfig :: config where
  "exampleConfig =
     \<lparr>DEV = False, actQueue = False, enableCreateEventHandleAPI = False,
      enableScopeAPI = False, disableSchedulerTimeoutInWorkLoop = False,
      supportsMicrotasks = True,
      BeforeMutationMask = 1028, MutationMask = 12854, LayoutMask = 8772,
      PassiveMask = 2064, StoreConsistency = 16384, ForceClientRender = 256,
      includesBlockingLane = (\<lambda>l. l AND 30 \<noteq> 0),
      includesExpiredLane = (\<lambda>sets l. l AND expiredLanes sets \<noteq> 0),
      includesOnlyRetries = (\<lambda>l. l AND 130023424 = l),
      includesOnlyTransitions = (\<lambda>l. l AND 4194240 = l),
      includesNonIdleWork = (\<lambda>l. l AND 268435455 \<noteq> 0),
      isSubsetOfLanes = (\<lambda>a b. a AND b = b),
      getNextLanes = (\<lambda>sets wipLanes.
         let ready = pendingLanes sets AND (NOT (suspendedLanes sets) OR pingedLanes sets)
         in ready AND - ready),
      getHighestPriorityLane = (\<lambda>l. l AND - l),
      getLanesToRetrySynchronouslyOnError = (\<lambda>sets.
         if pendingLanes sets AND NOT 1073741824 \<noteq> 0
         then pendingLanes sets AND NOT 1073741824
         else pendingLanes sets AND 1073741824),
      getMostRecentEventTime = (\<lambda>sets l. 0),
      markStarvedLanesAsExpired = (\<lambda>sets currentTime. sets),
      markRootFinished = (\<lambda>sets remainingLanes.
         \<lparr>pendingLanes = remainingLanes, suspendedLanes = 0, pingedLanes = 0,
          expiredLanes = expiredLanes sets AND remainingLanes\<rparr>),
      markRootSuspended_dontCallThisOneDirectly = (\<lambda>sets l.
         sets\<lparr>suspendedLanes := suspendedLanes sets OR l,
              pingedLanes := pingedLanes sets AND NOT l\<rparr>),
      markRootPinged = (\<lambda>sets l eventTime.
         sets\<lparr>pingedLanes := pingedLanes sets OR (suspendedLanes sets AND l)\<rparr>),
      lanesToEventPriority = (\<lambda>l. if l AND - l = 1 then DiscreteEventPriority
                                   else DefaultEventPriority),
      lowerEventPriority = (\<lambda>a b.
         if a = IdleEventPriority \<or> b = IdleEventPriority then IdleEventPriority
         else if a = DefaultEventPriority \<or> b = DefaultEventPriority then DefaultEventPriority
         else if a = ContinuousEventPriority \<or> b = ContinuousEventPriority
         then ContinuousEventPriority else DiscreteEventPriority),
      getTransitionsForLanes = (\<lambda>l. None),
      getConcurrentlyUpdatedLanes = 0,
      isRootDehydrated = False,
      shouldFireAfterActiveInstanceBlur = (\<lambda>firstChild. False),
      walkOf = (\<lambda>n. \<lparr>calls = [], ending = Completes renderedTree\<rparr>),
      passiveEffectsScheduleUpdate = False,
      uncaughtErrorOf = (\<lambda>fw. None)\<rparr>"


definition actConfig :: config where
  "actConfig = exampleConfig\<lparr>DEV := True, actQueue := True\<rparr>"

text \<open>
  A concurrent root with the default lane pending, nothing rendering, no pending
  passive effects, and \<open>renderedTree\<close> as its finished work.
\<close>

definition idleRoot :: fiberRoot where
  "idleRoot =
     \<lparr>rootRef = 0, rootTag = ConcurrentRoot, current = currentTree,
      alternate = Some renderedTree, finishedWork = Some renderedTree, finishedLanes = 16,
      callbackNode = None, callbackPriority = 0, timeoutHandle = None,
      laneSets = \<lparr>pendingLanes = 16, suspendedLanes = 0, pingedLanes = 0,
                  expiredLanes = 0\<rparr>\<rparr>"

definition finishedRender :: workLoop where
  "finishedRender =
     \<lparr>root = idleRoot, executionContext = 0, workInProgressRoot = None,
      workInProgress = [], workInProgressRootRenderLanes = 0,
      workInProgressRootExitStatus = RootCompleted, workInProgressRootFatalError = None,
      workInProgressRootSkippedLanes = 0, workInProgressRootInterleavedUpdatedLanes = 0,
      workInProgressRootRenderPhaseUpdatedLanes = 0, workInProgressRootPingedLanes = 0,
      workInProgressRootConcurrentErrors = None, workInProgressRootRecoverableErrors = None,
      globalMostRecentFallbackTime = 1000, workInProgressTransitions = None,
      hasUncaughtError = False, firstUncaughtError = None,
      legacyErrorBoundariesThatAlreadyFailed = None, rootDoesHavePassiveEffects = False,
      rootWithPendingPassiveEffects = None, pendingPassiveEffectsLanes = 0,
      pendingPassiveEffectsRemainingLanes = 0, pendingPassiveTransitions = None,
      nestedUpdateCount = 0, rootWithNestedUpdates = None, isFlushingPassiveEffects = False,
      didScheduleUpdateDuringPassiveEffects = False, nestedPassiveUpdateCount = 0,
      rootWithPassiveNestedUpdates = None, currentEventTime = None,
      currentEventTransitionLane = 0, currentUpdatePriority = DefaultEventPriority,
      transition = None, syncQueue = None, includesLegacySyncCallbacks = False,
      isFlushingSyncQueue = False, now = 1100, walks = 0, handles = 0, trace = []\<rparr>"


text \<open>
  A render of the first retry lane that suspended, 100ms after the last fallback was
  committed; the retry lane is the only pending lane.
\<close>

definition retryLane :: Lanes where "retryLane = 4194304"

definition suspendedRetry :: workLoop where
  "suspendedRetry =
     onRoot (\<lambda>r. r\<lparr>finishedLanes := retryLane,
                    laneSets := (laneSets r)\<lparr>pendingLanes := retryLane\<rparr>\<rparr>)
       (finishedRender\<lparr>workInProgressRootExitStatus := RootSuspended\<rparr>)"


















section \<open>Properties of the task scheduler\<close>

subsection \<open>Facts about the heaps\<close>

lemma peek_None_iff: "peek heap = None \<longleftrightarrow> heap = []"
  by (cases heap) (auto split: option.splits)

lemma map_taskId_removeTask: "map taskId (removeTask i heap) = remove1 i (map taskId heap)"
  by (induction heap) auto

lemma map_taskId_pop:
  "peek heap = Some m \<Longrightarrow> map taskId (pop heap) = remove1 (taskId m) (map taskId heap)"
  by (simp add: pop_def map_taskId_removeTask)

lemma ids_pop:
  "distinct (map taskId heap) \<Longrightarrow> peek heap = Some m \<Longrightarrow> ids (pop heap) = ids heap - {taskId m}"
  unfolding ids_def set_map [symmetric] by (simp add: map_taskId_pop)

lemma distinct_pop: "distinct (map taskId heap) \<Longrightarrow> distinct (map taskId (pop heap))"
  by (cases "peek heap") (simp_all add: pop_def map_taskId_removeTask)

lemma ids_pop_subset: "ids (pop heap) \<subseteq> ids heap"
proof (cases "peek heap")
  case None
  then show ?thesis by (simp add: pop_def)
next
  case (Some m)
  have "set (remove1 (taskId m) (map taskId heap)) \<subseteq> set (map taskId heap)"
    by (rule set_remove1_subset)
  with Some show ?thesis
    unfolding ids_def set_map [symmetric] by (simp add: map_taskId_pop)
qed

lemma ids_push: "ids (push heap t) = insert (taskId t) (ids heap)"
  by (auto simp: ids_def push_def)

lemma map_taskId_updateTask:
  "(\<And>t. taskId (f t) = taskId t) \<Longrightarrow> map taskId (updateTask i f heap) = map taskId heap"
  by (induction heap) (auto simp: updateTask_def)

lemma peek_key_cong:
  "map taskId h1 = map taskId h2 \<Longrightarrow> map sortIndex h1 = map sortIndex h2
   \<Longrightarrow> map_option taskId (peek h1) = map_option taskId (peek h2)
     \<and> map_option sortIndex (peek h1) = map_option sortIndex (peek h2)"
proof (induction h1 arbitrary: h2)
  case Nil
  then show ?case by simp
next
  case (Cons a h1)
  then obtain b h2' where h2: "h2 = b # h2'" by (cases h2) auto
  with Cons.prems have eq: "taskId a = taskId b" "sortIndex a = sortIndex b"
    "map taskId h1 = map taskId h2'" "map sortIndex h1 = map sortIndex h2'" by auto
  from Cons.IH [OF eq(3,4)] eq(1,2) show ?case
    unfolding h2 by (auto simp: compare_def split: option.splits)
qed



lemma callbackOf_None_iff: "callbackOf i heap = None \<longleftrightarrow> i \<notin> ids heap"
  by (induction heap) (auto simp: callbackOf_def findTask_def ids_def)

lemma callbackOf_push:
  "callbackOf i (push heap t) =
     (if i \<in> ids heap then callbackOf i heap else if taskId t = i then Some (callback t) else None)"
  by (induction heap) (auto simp: callbackOf_def findTask_def ids_def push_def)

lemma callbackOf_updateTask_same:
  "i \<in> ids heap \<Longrightarrow> callbackOf i (updateTask i (\<lambda>t. t\<lparr>callback := v\<rparr>) heap) = Some v"
  by (induction heap) (auto simp: callbackOf_def findTask_def ids_def updateTask_def)

lemma callbackOf_updateTask_other:
  "i \<noteq> j \<Longrightarrow> callbackOf i (updateTask j (\<lambda>t. t\<lparr>callback := v\<rparr>) heap) = callbackOf i heap"
  by (induction heap) (auto simp: callbackOf_def findTask_def updateTask_def)

lemma map_taskId_setcb [simp]:
  "map taskId (updateTask i (\<lambda>t. t\<lparr>callback := v\<rparr>) heap) = map taskId heap"
  by (rule map_taskId_updateTask) simp

lemma map_sortIndex_setcb [simp]:
  "map sortIndex (updateTask i (\<lambda>t. t\<lparr>callback := v\<rparr>) heap) = map sortIndex heap"
  by (induction heap) (auto simp: updateTask_def)

lemma ids_setcb [simp]: "ids (updateTask i (\<lambda>t. t\<lparr>callback := v\<rparr>) heap) = ids heap"
  unfolding ids_def set_map [symmetric] by simp

lemma peek_id_setcb [simp]:
  "map_option taskId (peek (updateTask i (\<lambda>t. t\<lparr>callback := v\<rparr>) heap)) = map_option taskId (peek heap)"
  using peek_key_cong [of "updateTask i (\<lambda>t. t\<lparr>callback := v\<rparr>) heap" heap] by simp

subsection \<open>Facts about the operations\<close>

lemma setCallback_fields [simp]:
  "hostLog (setCallback i v s) = hostLog s"
  "clock (setCallback i v s) = clock s"
  "taskIdCounter (setCallback i v s) = taskIdCounter s"
  "taskQueue (setCallback i v s) = updateTask i (\<lambda>t. t\<lparr>callback := v\<rparr>) (taskQueue s)"
  "timerQueue (setCallback i v s) = updateTask i (\<lambda>t. t\<lparr>callback := v\<rparr>) (timerQueue s)"
  by (simp_all add: setCallback_def)

lemma allIds_setCallback [simp]: "allIds (setCallback i v s) = allIds s"
  by (simp add: allIds_def)

lemma wellFormed_setCallback: "wellFormed s \<Longrightarrow> wellFormed (setCallback i v s)"
  by (simp add: wellFormed_def)

lemma invocations_setCallback [simp]: "invocations (setCallback i v s) = invocations s"
  by (simp add: invocations_def)


lemmas schedule_defs = unstable_scheduleCallback_def Let_def requestHostCallback_def
  requestHostTimeout_def cancelHostTimeout_def

lemma schedule_taskId: "taskId (fst (unstable_scheduleCallback level cb opts s)) = taskIdCounter s"
  by (simp add: schedule_defs)

lemma schedule_counter:
  "taskIdCounter (snd (unstable_scheduleCallback level cb opts s)) = Suc (taskIdCounter s)"
  by (simp add: schedule_defs)

lemma schedule_clock: "clock (snd (unstable_scheduleCallback level cb opts s)) = clock s"
  by (simp add: schedule_defs)

lemma schedule_invocations:
  "invocations (snd (unstable_scheduleCallback level cb opts s)) = invocations s"
  by (simp add: schedule_defs invocations_def isInvocation_def)

lemma schedule_queues:
  "(taskQueue (snd (unstable_scheduleCallback level cb opts s))
      = push (taskQueue s) (fst (unstable_scheduleCallback level cb opts s))
    \<and> timerQueue (snd (unstable_scheduleCallback level cb opts s)) = timerQueue s)
   \<or> (timerQueue (snd (unstable_scheduleCallback level cb opts s))
      = push (timerQueue s) (fst (unstable_scheduleCallback level cb opts s))
    \<and> taskQueue (snd (unstable_scheduleCallback level cb opts s)) = taskQueue s)"
  by (simp add: schedule_defs)

lemma distinct_insert_fresh:
  "distinct (A @ B) \<Longrightarrow> n \<notin> set (A @ B)
   \<Longrightarrow> distinct ((A @ [n]) @ B) \<and> distinct (A @ (B @ [n]))"
  by auto

lemma allIds_schedule:
  "allIds (snd (unstable_scheduleCallback level cb opts s))
     = (map taskId (taskQueue s) @ [taskIdCounter s]) @ map taskId (timerQueue s)
   \<or> allIds (snd (unstable_scheduleCallback level cb opts s))
     = map taskId (taskQueue s) @ (map taskId (timerQueue s) @ [taskIdCounter s])"
  using schedule_queues [of level cb opts s]
  by (auto simp: allIds_def push_def schedule_taskId)

lemma wellFormed_schedule:
  assumes "wellFormed s"
  shows "wellFormed (snd (unstable_scheduleCallback level cb opts s))"
proof -
  let ?s' = "snd (unstable_scheduleCallback level cb opts s)"
  let ?n = "taskIdCounter s"
  from assms have d: "distinct (map taskId (taskQueue s) @ map taskId (timerQueue s))"
    and lt: "\<forall>i \<in> set (map taskId (taskQueue s) @ map taskId (timerQueue s)). i < ?n"
    by (simp_all add: wellFormed_def allIds_def)
  from lt have fresh: "?n \<notin> set (map taskId (taskQueue s) @ map taskId (timerQueue s))"
    by blast
  note dd = distinct_insert_fresh [OF d fresh]
  from allIds_schedule [of level cb opts s] dd have "distinct (allIds ?s')"
    by metis
  moreover from allIds_schedule [of level cb opts s]
  have "set (allIds ?s') = insert ?n (set (map taskId (taskQueue s) @ map taskId (timerQueue s)))"
    by (elim disjE) simp_all
  with lt have "\<forall>i \<in> set (allIds ?s'). i < taskIdCounter ?s'"
    by (simp add: schedule_counter less_Suc_eq)
  ultimately show ?thesis by (simp add: wellFormed_def)
qed


lemma wellFormed_runAction:
  assumes "wellFormed s"
  shows "wellFormed (runAction a s)"
proof (cases a)
  case (Schedule level cb opts)
  with assms show ?thesis by (simp add: wellFormed_schedule)
next
  case (Cancel j)
  with assms show ?thesis by (simp add: unstable_cancelCallback_def wellFormed_setCallback)
next
  case (Elapse d)
  with assms show ?thesis by (simp add: wellFormed_def allIds_def)
qed

lemma wellFormed_runActions: "wellFormed s \<Longrightarrow> wellFormed (runActions acts s)"
  unfolding runActions_def
  by (induction acts arbitrary: s) (simp_all add: wellFormed_runAction)

lemma invocations_runAction: "invocations (runAction a s) = invocations s"
proof (cases a)
  case (Schedule level cb opts)
  then show ?thesis by (simp add: schedule_invocations)
next
  case (Cancel j)
  then show ?thesis by (simp add: unstable_cancelCallback_def)
next
  case (Elapse d)
  then show ?thesis by (simp add: invocations_def)
qed

lemma invocations_runActions: "invocations (runActions acts s) = invocations s"
  unfolding runActions_def
  by (induction acts arbitrary: s) (simp_all add: invocations_runAction)

text \<open>While a callback runs, a task of the ready heap stays there; if its callback is
  null it stays null.\<close>

lemma ready_runAction:
  assumes "i \<in> ids (taskQueue s)"
  shows "i \<in> ids (taskQueue (runAction a s))"
proof (cases a)
  case (Schedule level cb opts)
  with assms schedule_queues [of level cb opts s] show ?thesis
    by (auto simp: ids_push)
next
  case (Cancel j)
  with assms show ?thesis by (simp add: unstable_cancelCallback_def)
next
  case (Elapse d)
  with assms show ?thesis by simp
qed

lemma null_runAction:
  assumes "callbackOf i (taskQueue s) = Some Null"
  shows "callbackOf i (taskQueue (runAction a s)) = Some Null"
proof (cases a)
  case (Schedule level cb opts)
  from assms have "i \<in> ids (taskQueue s)"
    using callbackOf_None_iff [of i "taskQueue s"] by auto
  with assms schedule_queues [of level cb opts s] Schedule show ?thesis
    by (auto simp: callbackOf_push)
next
  case (Cancel j)
  from assms have "i \<in> ids (taskQueue s)"
    using callbackOf_None_iff [of i "taskQueue s"] by auto
  with assms Cancel show ?thesis
    by (cases "i = j")
       (simp_all add: unstable_cancelCallback_def callbackOf_updateTask_same
          callbackOf_updateTask_other)
next
  case (Elapse d)
  with assms show ?thesis by simp
qed

lemma null_runActions:
  "callbackOf i (taskQueue s) = Some Null
   \<Longrightarrow> callbackOf i (taskQueue (runActions acts s)) = Some Null"
  unfolding runActions_def
  by (induction acts arbitrary: s) (simp_all add: null_runAction)

lemma ready_runActions:
  "i \<in> ids (taskQueue s) \<Longrightarrow> i \<in> ids (taskQueue (runActions acts s))"
  unfolding runActions_def
  by (induction acts arbitrary: s) (simp_all add: ready_runAction)



declare advanceTimers.simps [simp del]

lemma invocations_advanceTimers: "invocations (advanceTimers currentTime s) = invocations s"
proof (induction currentTime s rule: advanceTimers.induct)
  case (1 currentTime s)
  show ?case
  proof (cases "peek (timerQueue s)")
    case None
    then show ?thesis by (simp add: advanceTimers.simps [of currentTime s])
  next
    case (Some timer)
    with 1 show ?thesis
      by (simp add: advanceTimers.simps [of currentTime s] invocations_def)
  qed
qed

lemma ids_advanceTimers:
  "ids (taskQueue (advanceTimers currentTime s)) \<subseteq> ids (taskQueue s) \<union> ids (timerQueue s)"
proof (induction currentTime s rule: advanceTimers.induct)
  case (1 currentTime s)
  show ?case
  proof (cases "peek (timerQueue s)")
    case None
    then show ?thesis by (simp add: advanceTimers.simps [of currentTime s])
  next
    case (Some timer)
    have sub: "ids (pop (timerQueue s)) \<subseteq> ids (timerQueue s)" by (rule ids_pop_subset)
    from Some have mem: "taskId timer \<in> ids (timerQueue s)"
      by (auto simp: ids_def dest: peek_in_set)
    show ?thesis
    proof (cases "callback timer = Null")
      case True
      with 1(1) [OF Some] Some sub show ?thesis
        by (auto simp: advanceTimers.simps [of currentTime s])
    next
      case False
      show ?thesis
      proof (cases "startTime timer \<le> currentTime")
        case True
        with 1(2) [OF Some False] Some False sub mem show ?thesis
          by (auto simp: advanceTimers.simps [of currentTime s] ids_push)
      next
        case no: False
        with Some False show ?thesis
          by (simp add: advanceTimers.simps [of currentTime s])
      qed
    qed
  qed
qed

lemma callbackOf_advanceTimers:
  "i \<in> ids (taskQueue s)
   \<Longrightarrow> callbackOf i (taskQueue (advanceTimers currentTime s)) = callbackOf i (taskQueue s)"
proof (induction currentTime s rule: advanceTimers.induct)
  case (1 currentTime s)
  show ?case
  proof (cases "peek (timerQueue s)")
    case None
    then show ?thesis by (simp add: advanceTimers.simps [of currentTime s])
  next
    case (Some timer)
    show ?thesis
    proof (cases "callback timer = Null")
      case True
      with 1(1) [OF Some] 1(3) Some show ?thesis
        by (simp add: advanceTimers.simps [of currentTime s])
    next
      case False
      show ?thesis
      proof (cases "startTime timer \<le> currentTime")
        case True
        with 1(2) [OF Some False] 1(3) Some False show ?thesis
          by (simp add: advanceTimers.simps [of currentTime s] ids_push callbackOf_push)
      next
        case no: False
        with Some False show ?thesis
          by (simp add: advanceTimers.simps [of currentTime s])
      qed
    qed
  qed
qed


lemma invokeCallback_facts:
  assumes wf: "wellFormed s" and top: "peek (taskQueue s) = Some t"
  shows "wellFormed (invokeCallback t b f s)"
    and "invocations (invokeCallback t b f s) = invocations s @ [CallbackInvoked (taskId t) b]"
    and "taskId t \<in> ids (taskQueue (invokeCallback t b f s))"
    and "callbackOf (taskId t) (taskQueue (invokeCallback t b f s)) = Some Null"
proof -
  let ?s2 = "(setCallback (taskId t) Null s)\<lparr>currentPriorityLevel := priorityLevel t\<rparr>"
  let ?s2' = "?s2\<lparr>hostLog := hostLog ?s2 @ [CallbackInvoked (taskId t) b]\<rparr>"
  have eq: "invokeCallback t b f s = runActions (fst (f b)) ?s2'"
    by (simp add: invokeCallback_def Let_def)
  from top have mem: "taskId t \<in> ids (taskQueue s)"
    by (auto simp: ids_def dest: peek_in_set)
  from wf have "wellFormed ?s2'"
    by (simp add: wellFormed_def allIds_def)
  then show "wellFormed (invokeCallback t b f s)"
    unfolding eq by (rule wellFormed_runActions)
  have "invocations ?s2' = invocations s @ [CallbackInvoked (taskId t) b]"
    by (simp add: invocations_def isInvocation_def)
  then show "invocations (invokeCallback t b f s) = invocations s @ [CallbackInvoked (taskId t) b]"
    unfolding eq by (simp add: invocations_runActions)
  from mem have mem2: "taskId t \<in> ids (taskQueue ?s2')" by simp
  then show "taskId t \<in> ids (taskQueue (invokeCallback t b f s))"
    unfolding eq by (rule ready_runActions)
  from mem have "callbackOf (taskId t) (taskQueue ?s2') = Some Null"
    by (simp add: callbackOf_updateTask_same)
  then show "callbackOf (taskId t) (taskQueue (invokeCallback t b f s)) = Some Null"
    unfolding eq by (rule null_runActions)
qed

lemmas example_defs = exampleHost_def urgentWork_def spawningWork_def spawningTask_def
  spawningScheduler_def initialScheduler_def unstable_scheduleCallback_def Let_def
  startTimeOf_def timeoutOf_def push_def pop_def compare_def requestHostCallback_def
  requestHostTimeout_def cancelHostTimeout_def shouldYieldToHost_def frameYieldMs_def
  invokeCallback_def setCallback_def updateTask_def runActions_def unstable_cancelCallback_def
  workLoopBody_def wellFormed_def allIds_def invocations_def isInvocation_def callbackOf_def
  findTask_def ids_def advanceTimers.simps

subsection \<open>Claims about the scheduler\<close>



text \<open>
  Claim C5, as the code has it. In a pass of \<open>workLoop\<close> that invokes the callback of the
  task \<open>t\<close> at the top of the ready heap, the callback is called once, with the flag
  \<open>expirationTime t \<le> currentTime\<close>. If it returns a function, that function is stored
  as the callback of the task, which stays in the ready heap. If it returns anything
  else, the task is popped when it is still the top of the ready heap after the
  callback ran; when the callback scheduled a task that now precedes it, the task
  stays in the ready heap with a null callback.
\<close>

theorem workLoopBody_callback:
  assumes wf: "wellFormed s"
    and top: "peek (taskQueue s) = Some t"
    and go: "\<not> (currentTime < expirationTime t \<and> (\<not> hasTimeRemaining \<or> shouldYieldToHost h s))"
    and cb: "callback t = Function (Callback f)"
    and ret: "snd (f (expirationTime t \<le> currentTime)) = Returns v"
  shows "invocations (passState (workLoopBody h hasTimeRemaining currentTime t s))
           = invocations s @ [CallbackInvoked (taskId t) (expirationTime t \<le> currentTime)]
       \<and> (case v of
            Function k \<Rightarrow>
              callbackOf (taskId t)
                (taskQueue (passState (workLoopBody h hasTimeRemaining currentTime t s)))
              = Some (Function k)
          | _ \<Rightarrow>
              if map_option taskId
                   (peek (taskQueue (invokeCallback t (expirationTime t \<le> currentTime) f s)))
                 = Some (taskId t)
              then taskId t
                     \<notin> ids (taskQueue (passState (workLoopBody h hasTimeRemaining currentTime t s)))
              else callbackOf (taskId t)
                     (taskQueue (passState (workLoopBody h hasTimeRemaining currentTime t s)))
                   = Some Null)"
proof -
  let ?b = "expirationTime t \<le> currentTime"
  let ?s3 = "invokeCallback t ?b f s"
  note facts = invokeCallback_facts [OF wf top, of ?b f]
  let ?popped = "?s3\<lparr>taskQueue := pop (taskQueue ?s3)\<rparr>"
  have unfold: "passState (workLoopBody h hasTimeRemaining currentTime t s)
      = (let s5 = advanceTimers (clock ?s3)
                    (case v of
                       Function k \<Rightarrow> setCallback (taskId t) (Function k) ?s3
                     | _ \<Rightarrow> if map_option taskId (peek (taskQueue ?s3)) = Some (taskId t)
                            then ?popped else ?s3)
         in s5\<lparr>currentTask := peek (taskQueue s5)\<rparr>)"
  proof -
    from go have cond: "(currentTime < expirationTime t
        \<and> (\<not> hasTimeRemaining \<or> shouldYieldToHost h s)) = False"
      by blast
    show ?thesis
      unfolding workLoopBody_def cond by (cases v) (simp_all add: cb ret Let_def)
  qed
  have inv_other: "invocations (x\<lparr>currentTask := c\<rparr>) = invocations x"
    "invocations (x\<lparr>taskQueue := q\<rparr>) = invocations x" for x c q
    by (simp_all add: invocations_def)
  have log: "invocations (passState (workLoopBody h hasTimeRemaining currentTime t s))
      = invocations s @ [CallbackInvoked (taskId t) ?b]"
    unfolding unfold
    by (cases v)
       (simp_all add: Let_def inv_other invocations_advanceTimers facts(2))
  have rest: "(case v of
            Function k \<Rightarrow>
              callbackOf (taskId t)
                (taskQueue (passState (workLoopBody h hasTimeRemaining currentTime t s)))
              = Some (Function k)
          | _ \<Rightarrow>
              if map_option taskId (peek (taskQueue ?s3)) = Some (taskId t)
              then taskId t
                     \<notin> ids (taskQueue (passState (workLoopBody h hasTimeRemaining currentTime t s)))
              else callbackOf (taskId t)
                     (taskQueue (passState (workLoopBody h hasTimeRemaining currentTime t s)))
                   = Some Null)"
  proof (cases "\<exists>k. v = Function k")
    case True
    then obtain k where v: "v = Function k" by blast
    have "callbackOf (taskId t) (taskQueue (setCallback (taskId t) (Function k) ?s3))
            = Some (Function k)"
      using facts(3) by (simp add: callbackOf_updateTask_same)
    moreover have "taskId t \<in> ids (taskQueue (setCallback (taskId t) (Function k) ?s3))"
      using facts(3) by simp
    ultimately show ?thesis
      unfolding unfold v by (simp add: Let_def callbackOf_advanceTimers)
  next
    case False
    then have vcase: "(case v of Function k \<Rightarrow> P k | _ \<Rightarrow> Q) = Q" for P and Q :: 'z
      by (cases v) auto
    show ?thesis
    proof (cases "map_option taskId (peek (taskQueue ?s3)) = Some (taskId t)")
      case True
      then obtain m where m: "peek (taskQueue ?s3) = Some m" "taskId m = taskId t"
        by auto
      from facts(1) have d: "distinct (map taskId (taskQueue ?s3) @ map taskId (timerQueue ?s3))"
        by (simp add: wellFormed_def allIds_def)
      then have d1: "distinct (map taskId (taskQueue ?s3))" by simp
      from d facts(3) have notimer: "taskId t \<notin> ids (timerQueue ?s3)"
        by (auto simp: ids_def)
      have "ids (pop (taskQueue ?s3)) = ids (taskQueue ?s3) - {taskId t}"
        using ids_pop [OF d1 m(1)] m(2) by simp
      with notimer have "taskId t \<notin> ids (taskQueue ?popped) \<union> ids (timerQueue ?popped)"
        by simp
      with ids_advanceTimers [of "clock ?s3" ?popped]
      have "taskId t \<notin> ids (taskQueue (advanceTimers (clock ?s3) ?popped))"
        by blast
      moreover from True
      have c: "(map_option taskId (peek (taskQueue ?s3)) = Some (taskId t)) = True" by simp
      ultimately show ?thesis
        unfolding unfold vcase c if_True Let_def by simp
    next
      case no: False
      then have c: "(map_option taskId (peek (taskQueue ?s3)) = Some (taskId t)) = False"
        by simp
      from facts(3,4) show ?thesis
        unfolding unfold vcase c if_False Let_def by (simp add: callbackOf_advanceTimers)
    qed
  qed
  from log rest show ?thesis by blast
qed

theorem workLoopBody_callback_witness:
  "invocations (passState (workLoopBody exampleHost True 0 spawningTask spawningScheduler))
     = [CallbackInvoked 1 False]
   \<and> callbackOf 1
       (taskQueue (passState (workLoopBody exampleHost True 0 spawningTask spawningScheduler)))
     = Some Null"
proof -
  have wf: "wellFormed spawningScheduler" by (simp add: example_defs)
  have top: "peek (taskQueue spawningScheduler) = Some spawningTask"
    by (simp add: example_defs)
  have go: "\<not> (0 < expirationTime spawningTask
      \<and> (\<not> True \<or> shouldYieldToHost exampleHost spawningScheduler))"
    by (simp add: example_defs)
  have cb: "callback spawningTask = Function (Callback spawningWork)"
    by (simp add: spawningTask_def unstable_scheduleCallback_def Let_def)
  have ret: "snd (spawningWork (expirationTime spawningTask \<le> 0)) = Returns Null"
    by (simp add: spawningWork_def)
  have flag: "(expirationTime spawningTask \<le> 0) = False" by (simp add: example_defs)
  have i: "taskId spawningTask = 1" by (simp add: example_defs)
  have inv: "invocations spawningScheduler = []" by (simp add: example_defs)
  have pk: "map_option taskId (peek (taskQueue
      (invokeCallback spawningTask False spawningWork spawningScheduler))) = Some 2"
    by (simp add: example_defs)
  from workLoopBody_callback [OF wf top go cb ret] show ?thesis
    unfolding flag i inv pk by simp
qed

text \<open>
  The claim C5 says that a task whose callback returns a non-function is removed from
  the ready heap. Here the callback of task 1 schedules an immediate task (id 2) and
  returns null: after the pass both tasks are in the ready heap.
\<close>

theorem workLoopBody_pop_counterexample:
  "callback spawningTask = Function (Callback spawningWork)
   \<and> snd (spawningWork (expirationTime spawningTask \<le> 0)) = Returns Null
   \<and> map taskId
       (taskQueue (passState (workLoopBody exampleHost True 0 spawningTask spawningScheduler)))
     = [1, 2]"
  by (simp add: example_defs)

text \<open>
  Claim C8, as the code has it. \<open>shouldYieldToHost\<close> returns false while the time elapsed
  in the slice is below the frame budget; once the budget is reached it returns true
  unless the input-pending refinement is enabled and available, in which case, below
  300ms, it returns true exactly when a paint is needed or the host reports pending
  input; it returns true once the elapsed time has reached both the frame budget and
  300ms, which with the default budget of 5ms is every time from 300ms on.
\<close>

theorem shouldYieldToHost_budget:
  "(clock s - startTime_slice s < frameInterval s \<longrightarrow> \<not> shouldYieldToHost h s)
   \<and> (frameInterval s \<le> clock s - startTime_slice s
        \<and> (\<not> enableIsInputPending h \<or> isInputPending h = None)
      \<longrightarrow> shouldYieldToHost h s)
   \<and> (frameInterval s \<le> clock s - startTime_slice s \<and> clock s - startTime_slice s < 300
        \<and> enableIsInputPending h \<and> isInputPending h = Some pending
      \<longrightarrow> shouldYieldToHost h s
          = (needsPaint s
             \<or> pending (if clock s - startTime_slice s < 50 then None
                         else Some (enableIsInputPendingContinuous h))))
   \<and> (frameInterval s \<le> clock s - startTime_slice s \<and> 300 \<le> clock s - startTime_slice s
      \<longrightarrow> shouldYieldToHost h s)
   \<and> (frameInterval s = 5 \<and> 300 \<le> clock s - startTime_slice s \<longrightarrow> shouldYieldToHost h s)"
  by (auto simp: shouldYieldToHost_def Let_def continuousYieldMs_def maxYieldMs_def
        split: option.splits)

theorem shouldYieldToHost_budget_witness:
  "\<not> shouldYieldToHost exampleHost (sliceAt 3)
   \<and> shouldYieldToHost exampleHost (sliceAt 7)
   \<and> shouldYieldToHost exampleHost (sliceAt 300)"
proof -
  have fi: "frameInterval (sliceAt e) = 5" "clock (sliceAt e) - startTime_slice (sliceAt e) = e"
    "\<not> enableIsInputPending exampleHost" for e
    by (simp_all add: sliceAt_def initialScheduler_def frameYieldMs_def exampleHost_def)
  from shouldYieldToHost_budget [of "sliceAt 3" exampleHost]
  have a: "\<not> shouldYieldToHost exampleHost (sliceAt 3)" by (simp add: fi)
  from shouldYieldToHost_budget [of "sliceAt 7" exampleHost]
  have b: "shouldYieldToHost exampleHost (sliceAt 7)" by (simp add: fi)
  from shouldYieldToHost_budget [of "sliceAt 300" exampleHost]
  have c: "shouldYieldToHost exampleHost (sliceAt 300)" by (simp add: fi)
  from a b c show ?thesis by simp
qed

text \<open>
  The claim C8 says that \<open>shouldYieldToHost\<close> always returns true from 300ms on. After
  \<open>forceFrameRate(2)\<close> the frame budget is 500ms, and 400ms into the slice the
  function returns false.
\<close>

theorem shouldYieldToHost_ceiling_counterexample:
  "frameInterval slowFrameScheduler = 500
   \<and> 300 \<le> clock slowFrameScheduler - startTime_slice slowFrameScheduler
   \<and> \<not> shouldYieldToHost exampleHost slowFrameScheduler"
  by (simp add: slowFrameScheduler_def forceFrameRate_def initialScheduler_def
        shouldYieldToHost_def exampleHost_def)

section \<open>Properties of the work loop\<close>

subsection \<open>What a step leaves as it is\<close>

lemma emit_frame [simp]:
  "root (emit evs s) = root s"
  "executionContext (emit evs s) = executionContext s"
  "workInProgressRoot (emit evs s) = workInProgressRoot s"
  "workInProgress (emit evs s) = workInProgress s"
  "workInProgressRootRenderLanes (emit evs s) = workInProgressRootRenderLanes s"
  "workInProgressRootExitStatus (emit evs s) = workInProgressRootExitStatus s"
  "workInProgressRootFatalError (emit evs s) = workInProgressRootFatalError s"
  "workInProgressRootSkippedLanes (emit evs s) = workInProgressRootSkippedLanes s"
  "workInProgressRootInterleavedUpdatedLanes (emit evs s) = workInProgressRootInterleavedUpdatedLanes s"
  "workInProgressRootRenderPhaseUpdatedLanes (emit evs s) = workInProgressRootRenderPhaseUpdatedLanes s"
  "workInProgressRootPingedLanes (emit evs s) = workInProgressRootPingedLanes s"
  "workInProgressRootConcurrentErrors (emit evs s) = workInProgressRootConcurrentErrors s"
  "workInProgressRootRecoverableErrors (emit evs s) = workInProgressRootRecoverableErrors s"
  "globalMostRecentFallbackTime (emit evs s) = globalMostRecentFallbackTime s"
  "workInProgressTransitions (emit evs s) = workInProgressTransitions s"
  "hasUncaughtError (emit evs s) = hasUncaughtError s"
  "firstUncaughtError (emit evs s) = firstUncaughtError s"
  "legacyErrorBoundariesThatAlreadyFailed (emit evs s) = legacyErrorBoundariesThatAlreadyFailed s"
  "rootDoesHavePassiveEffects (emit evs s) = rootDoesHavePassiveEffects s"
  "rootWithPendingPassiveEffects (emit evs s) = rootWithPendingPassiveEffects s"
  "pendingPassiveEffectsLanes (emit evs s) = pendingPassiveEffectsLanes s"
  "pendingPassiveEffectsRemainingLanes (emit evs s) = pendingPassiveEffectsRemainingLanes s"
  "pendingPassiveTransitions (emit evs s) = pendingPassiveTransitions s"
  "nestedUpdateCount (emit evs s) = nestedUpdateCount s"
  "rootWithNestedUpdates (emit evs s) = rootWithNestedUpdates s"
  "isFlushingPassiveEffects (emit evs s) = isFlushingPassiveEffects s"
  "didScheduleUpdateDuringPassiveEffects (emit evs s) = didScheduleUpdateDuringPassiveEffects s"
  "nestedPassiveUpdateCount (emit evs s) = nestedPassiveUpdateCount s"
  "rootWithPassiveNestedUpdates (emit evs s) = rootWithPassiveNestedUpdates s"
  "currentEventTime (emit evs s) = currentEventTime s"
  "currentEventTransitionLane (emit evs s) = currentEventTransitionLane s"
  "currentUpdatePriority (emit evs s) = currentUpdatePriority s"
  "transition (emit evs s) = transition s"
  "syncQueue (emit evs s) = syncQueue s"
  "includesLegacySyncCallbacks (emit evs s) = includesLegacySyncCallbacks s"
  "isFlushingSyncQueue (emit evs s) = isFlushingSyncQueue s"
  "now (emit evs s) = now s"
  "walks (emit evs s) = walks s"
  "handles (emit evs s) = handles s"
  by (simp_all add: emit_def)

lemma trace_emit [simp]: "trace (emit evs s) = trace s @ evs"
  by (simp add: emit_def)

lemma onRoot_frame [simp]:
  "executionContext (onRoot g s) = executionContext s"
  "workInProgressRoot (onRoot g s) = workInProgressRoot s"
  "workInProgress (onRoot g s) = workInProgress s"
  "workInProgressRootRenderLanes (onRoot g s) = workInProgressRootRenderLanes s"
  "workInProgressRootExitStatus (onRoot g s) = workInProgressRootExitStatus s"
  "workInProgressRootFatalError (onRoot g s) = workInProgressRootFatalError s"
  "workInProgressRootSkippedLanes (onRoot g s) = workInProgressRootSkippedLanes s"
  "workInProgressRootInterleavedUpdatedLanes (onRoot g s) = workInProgressRootInterleavedUpdatedLanes s"
  "workInProgressRootRenderPhaseUpdatedLanes (onRoot g s) = workInProgressRootRenderPhaseUpdatedLanes s"
  "workInProgressRootPingedLanes (onRoot g s) = workInProgressRootPingedLanes s"
  "workInProgressRootConcurrentErrors (onRoot g s) = workInProgressRootConcurrentErrors s"
  "workInProgressRootRecoverableErrors (onRoot g s) = workInProgressRootRecoverableErrors s"
  "globalMostRecentFallbackTime (onRoot g s) = globalMostRecentFallbackTime s"
  "workInProgressTransitions (onRoot g s) = workInProgressTransitions s"
  "hasUncaughtError (onRoot g s) = hasUncaughtError s"
  "firstUncaughtError (onRoot g s) = firstUncaughtError s"
  "legacyErrorBoundariesThatAlreadyFailed (onRoot g s) = legacyErrorBoundariesThatAlreadyFailed s"
  "rootDoesHavePassiveEffects (onRoot g s) = rootDoesHavePassiveEffects s"
  "rootWithPendingPassiveEffects (onRoot g s) = rootWithPendingPassiveEffects s"
  "pendingPassiveEffectsLanes (onRoot g s) = pendingPassiveEffectsLanes s"
  "pendingPassiveEffectsRemainingLanes (onRoot g s) = pendingPassiveEffectsRemainingLanes s"
  "pendingPassiveTransitions (onRoot g s) = pendingPassiveTransitions s"
  "nestedUpdateCount (onRoot g s) = nestedUpdateCount s"
  "rootWithNestedUpdates (onRoot g s) = rootWithNestedUpdates s"
  "isFlushingPassiveEffects (onRoot g s) = isFlushingPassiveEffects s"
  "didScheduleUpdateDuringPassiveEffects (onRoot g s) = didScheduleUpdateDuringPassiveEffects s"
  "nestedPassiveUpdateCount (onRoot g s) = nestedPassiveUpdateCount s"
  "rootWithPassiveNestedUpdates (onRoot g s) = rootWithPassiveNestedUpdates s"
  "currentEventTime (onRoot g s) = currentEventTime s"
  "currentEventTransitionLane (onRoot g s) = currentEventTransitionLane s"
  "currentUpdatePriority (onRoot g s) = currentUpdatePriority s"
  "transition (onRoot g s) = transition s"
  "syncQueue (onRoot g s) = syncQueue s"
  "includesLegacySyncCallbacks (onRoot g s) = includesLegacySyncCallbacks s"
  "isFlushingSyncQueue (onRoot g s) = isFlushingSyncQueue s"
  "now (onRoot g s) = now s"
  "walks (onRoot g s) = walks s"
  "handles (onRoot g s) = handles s"
  "trace (onRoot g s) = trace s"
  by (simp_all add: onRoot_def)

lemma root_onRoot [simp]: "root (onRoot g s) = g (root s)"
  by (simp add: onRoot_def)

lemma onLaneSets_frame [simp]:
  "rootRef (root (onLaneSets g s)) = rootRef (root s)"
  "rootTag (root (onLaneSets g s)) = rootTag (root s)"
  "current (root (onLaneSets g s)) = current (root s)"
  "alternate (root (onLaneSets g s)) = alternate (root s)"
  "finishedWork (root (onLaneSets g s)) = finishedWork (root s)"
  "finishedLanes (root (onLaneSets g s)) = finishedLanes (root s)"
  "callbackNode (root (onLaneSets g s)) = callbackNode (root s)"
  "callbackPriority (root (onLaneSets g s)) = callbackPriority (root s)"
  "timeoutHandle (root (onLaneSets g s)) = timeoutHandle (root s)"
  "executionContext (onLaneSets g s) = executionContext s"
  "workInProgressRoot (onLaneSets g s) = workInProgressRoot s"
  "workInProgress (onLaneSets g s) = workInProgress s"
  "workInProgressRootRenderLanes (onLaneSets g s) = workInProgressRootRenderLanes s"
  "workInProgressRootExitStatus (onLaneSets g s) = workInProgressRootExitStatus s"
  "workInProgressRootFatalError (onLaneSets g s) = workInProgressRootFatalError s"
  "workInProgressRootSkippedLanes (onLaneSets g s) = workInProgressRootSkippedLanes s"
  "workInProgressRootInterleavedUpdatedLanes (onLaneSets g s) = workInProgressRootInterleavedUpdatedLanes s"
  "workInProgressRootRenderPhaseUpdatedLanes (onLaneSets g s) = workInProgressRootRenderPhaseUpdatedLanes s"
  "workInProgressRootPingedLanes (onLaneSets g s) = workInProgressRootPingedLanes s"
  "workInProgressRootConcurrentErrors (onLaneSets g s) = workInProgressRootConcurrentErrors s"
  "workInProgressRootRecoverableErrors (onLaneSets g s) = workInProgressRootRecoverableErrors s"
  "globalMostRecentFallbackTime (onLaneSets g s) = globalMostRecentFallbackTime s"
  "workInProgressTransitions (onLaneSets g s) = workInProgressTransitions s"
  "hasUncaughtError (onLaneSets g s) = hasUncaughtError s"
  "firstUncaughtError (onLaneSets g s) = firstUncaughtError s"
  "legacyErrorBoundariesThatAlreadyFailed (onLaneSets g s) = legacyErrorBoundariesThatAlreadyFailed s"
  "rootDoesHavePassiveEffects (onLaneSets g s) = rootDoesHavePassiveEffects s"
  "rootWithPendingPassiveEffects (onLaneSets g s) = rootWithPendingPassiveEffects s"
  "pendingPassiveEffectsLanes (onLaneSets g s) = pendingPassiveEffectsLanes s"
  "pendingPassiveEffectsRemainingLanes (onLaneSets g s) = pendingPassiveEffectsRemainingLanes s"
  "pendingPassiveTransitions (onLaneSets g s) = pendingPassiveTransitions s"
  "nestedUpdateCount (onLaneSets g s) = nestedUpdateCount s"
  "rootWithNestedUpdates (onLaneSets g s) = rootWithNestedUpdates s"
  "isFlushingPassiveEffects (onLaneSets g s) = isFlushingPassiveEffects s"
  "didScheduleUpdateDuringPassiveEffects (onLaneSets g s) = didScheduleUpdateDuringPassiveEffects s"
  "nestedPassiveUpdateCount (onLaneSets g s) = nestedPassiveUpdateCount s"
  "rootWithPassiveNestedUpdates (onLaneSets g s) = rootWithPassiveNestedUpdates s"
  "currentEventTime (onLaneSets g s) = currentEventTime s"
  "currentEventTransitionLane (onLaneSets g s) = currentEventTransitionLane s"
  "currentUpdatePriority (onLaneSets g s) = currentUpdatePriority s"
  "transition (onLaneSets g s) = transition s"
  "syncQueue (onLaneSets g s) = syncQueue s"
  "includesLegacySyncCallbacks (onLaneSets g s) = includesLegacySyncCallbacks s"
  "isFlushingSyncQueue (onLaneSets g s) = isFlushingSyncQueue s"
  "now (onLaneSets g s) = now s"
  "walks (onLaneSets g s) = walks s"
  "handles (onLaneSets g s) = handles s"
  "trace (onLaneSets g s) = trace s"
  by (simp_all add: onLaneSets_def)

lemma laneSets_onLaneSets [simp]: "laneSets (root (onLaneSets g s)) = g (laneSets (root s))"
  by (simp add: onLaneSets_def)

lemma scheduleCallback_frame [simp]:
  "root (snd (scheduleCallback cfg level cb s)) = root s"
  "executionContext (snd (scheduleCallback cfg level cb s)) = executionContext s"
  "workInProgressRoot (snd (scheduleCallback cfg level cb s)) = workInProgressRoot s"
  "workInProgress (snd (scheduleCallback cfg level cb s)) = workInProgress s"
  "workInProgressRootRenderLanes (snd (scheduleCallback cfg level cb s)) = workInProgressRootRenderLanes s"
  "workInProgressRootExitStatus (snd (scheduleCallback cfg level cb s)) = workInProgressRootExitStatus s"
  "workInProgressRootFatalError (snd (scheduleCallback cfg level cb s)) = workInProgressRootFatalError s"
  "workInProgressRootSkippedLanes (snd (scheduleCallback cfg level cb s)) = workInProgressRootSkippedLanes s"
  "workInProgressRootInterleavedUpdatedLanes (snd (scheduleCallback cfg level cb s)) = workInProgressRootInterleavedUpdatedLanes s"
  "workInProgressRootRenderPhaseUpdatedLanes (snd (scheduleCallback cfg level cb s)) = workInProgressRootRenderPhaseUpdatedLanes s"
  "workInProgressRootPingedLanes (snd (scheduleCallback cfg level cb s)) = workInProgressRootPingedLanes s"
  "workInProgressRootConcurrentErrors (snd (scheduleCallback cfg level cb s)) = workInProgressRootConcurrentErrors s"
  "workInProgressRootRecoverableErrors (snd (scheduleCallback cfg level cb s)) = workInProgressRootRecoverableErrors s"
  "globalMostRecentFallbackTime (snd (scheduleCallback cfg level cb s)) = globalMostRecentFallbackTime s"
  "workInProgressTransitions (snd (scheduleCallback cfg level cb s)) = workInProgressTransitions s"
  "hasUncaughtError (snd (scheduleCallback cfg level cb s)) = hasUncaughtError s"
  "firstUncaughtError (snd (scheduleCallback cfg level cb s)) = firstUncaughtError s"
  "legacyErrorBoundariesThatAlreadyFailed (snd (scheduleCallback cfg level cb s)) = legacyErrorBoundariesThatAlreadyFailed s"
  "rootDoesHavePassiveEffects (snd (scheduleCallback cfg level cb s)) = rootDoesHavePassiveEffects s"
  "rootWithPendingPassiveEffects (snd (scheduleCallback cfg level cb s)) = rootWithPendingPassiveEffects s"
  "pendingPassiveEffectsLanes (snd (scheduleCallback cfg level cb s)) = pendingPassiveEffectsLanes s"
  "pendingPassiveEffectsRemainingLanes (snd (scheduleCallback cfg level cb s)) = pendingPassiveEffectsRemainingLanes s"
  "pendingPassiveTransitions (snd (scheduleCallback cfg level cb s)) = pendingPassiveTransitions s"
  "nestedUpdateCount (snd (scheduleCallback cfg level cb s)) = nestedUpdateCount s"
  "rootWithNestedUpdates (snd (scheduleCallback cfg level cb s)) = rootWithNestedUpdates s"
  "isFlushingPassiveEffects (snd (scheduleCallback cfg level cb s)) = isFlushingPassiveEffects s"
  "didScheduleUpdateDuringPassiveEffects (snd (scheduleCallback cfg level cb s)) = didScheduleUpdateDuringPassiveEffects s"
  "nestedPassiveUpdateCount (snd (scheduleCallback cfg level cb s)) = nestedPassiveUpdateCount s"
  "rootWithPassiveNestedUpdates (snd (scheduleCallback cfg level cb s)) = rootWithPassiveNestedUpdates s"
  "currentEventTime (snd (scheduleCallback cfg level cb s)) = currentEventTime s"
  "currentEventTransitionLane (snd (scheduleCallback cfg level cb s)) = currentEventTransitionLane s"
  "currentUpdatePriority (snd (scheduleCallback cfg level cb s)) = currentUpdatePriority s"
  "transition (snd (scheduleCallback cfg level cb s)) = transition s"
  "syncQueue (snd (scheduleCallback cfg level cb s)) = syncQueue s"
  "includesLegacySyncCallbacks (snd (scheduleCallback cfg level cb s)) = includesLegacySyncCallbacks s"
  "isFlushingSyncQueue (snd (scheduleCallback cfg level cb s)) = isFlushingSyncQueue s"
  "now (snd (scheduleCallback cfg level cb s)) = now s"
  "walks (snd (scheduleCallback cfg level cb s)) = walks s"
  by (simp_all add: scheduleCallback_def)

lemma cancelCallback_frame [simp]:
  "root (cancelCallback cfg node s) = root s"
  "executionContext (cancelCallback cfg node s) = executionContext s"
  "workInProgressRoot (cancelCallback cfg node s) = workInProgressRoot s"
  "workInProgress (cancelCallback cfg node s) = workInProgress s"
  "workInProgressRootRenderLanes (cancelCallback cfg node s) = workInProgressRootRenderLanes s"
  "workInProgressRootExitStatus (cancelCallback cfg node s) = workInProgressRootExitStatus s"
  "workInProgressRootFatalError (cancelCallback cfg node s) = workInProgressRootFatalError s"
  "workInProgressRootSkippedLanes (cancelCallback cfg node s) = workInProgressRootSkippedLanes s"
  "workInProgressRootInterleavedUpdatedLanes (cancelCallback cfg node s) = workInProgressRootInterleavedUpdatedLanes s"
  "workInProgressRootRenderPhaseUpdatedLanes (cancelCallback cfg node s) = workInProgressRootRenderPhaseUpdatedLanes s"
  "workInProgressRootPingedLanes (cancelCallback cfg node s) = workInProgressRootPingedLanes s"
  "workInProgressRootConcurrentErrors (cancelCallback cfg node s) = workInProgressRootConcurrentErrors s"
  "workInProgressRootRecoverableErrors (cancelCallback cfg node s) = workInProgressRootRecoverableErrors s"
  "globalMostRecentFallbackTime (cancelCallback cfg node s) = globalMostRecentFallbackTime s"
  "workInProgressTransitions (cancelCallback cfg node s) = workInProgressTransitions s"
  "hasUncaughtError (cancelCallback cfg node s) = hasUncaughtError s"
  "firstUncaughtError (cancelCallback cfg node s) = firstUncaughtError s"
  "legacyErrorBoundariesThatAlreadyFailed (cancelCallback cfg node s) = legacyErrorBoundariesThatAlreadyFailed s"
  "rootDoesHavePassiveEffects (cancelCallback cfg node s) = rootDoesHavePassiveEffects s"
  "rootWithPendingPassiveEffects (cancelCallback cfg node s) = rootWithPendingPassiveEffects s"
  "pendingPassiveEffectsLanes (cancelCallback cfg node s) = pendingPassiveEffectsLanes s"
  "pendingPassiveEffectsRemainingLanes (cancelCallback cfg node s) = pendingPassiveEffectsRemainingLanes s"
  "pendingPassiveTransitions (cancelCallback cfg node s) = pendingPassiveTransitions s"
  "nestedUpdateCount (cancelCallback cfg node s) = nestedUpdateCount s"
  "rootWithNestedUpdates (cancelCallback cfg node s) = rootWithNestedUpdates s"
  "isFlushingPassiveEffects (cancelCallback cfg node s) = isFlushingPassiveEffects s"
  "didScheduleUpdateDuringPassiveEffects (cancelCallback cfg node s) = didScheduleUpdateDuringPassiveEffects s"
  "nestedPassiveUpdateCount (cancelCallback cfg node s) = nestedPassiveUpdateCount s"
  "rootWithPassiveNestedUpdates (cancelCallback cfg node s) = rootWithPassiveNestedUpdates s"
  "currentEventTime (cancelCallback cfg node s) = currentEventTime s"
  "currentEventTransitionLane (cancelCallback cfg node s) = currentEventTransitionLane s"
  "currentUpdatePriority (cancelCallback cfg node s) = currentUpdatePriority s"
  "transition (cancelCallback cfg node s) = transition s"
  "syncQueue (cancelCallback cfg node s) = syncQueue s"
  "includesLegacySyncCallbacks (cancelCallback cfg node s) = includesLegacySyncCallbacks s"
  "isFlushingSyncQueue (cancelCallback cfg node s) = isFlushingSyncQueue s"
  "now (cancelCallback cfg node s) = now s"
  "walks (cancelCallback cfg node s) = walks s"
  "handles (cancelCallback cfg node s) = handles s"
  by (simp_all add: cancelCallback_def split: callbackNode.splits)

lemma scheduleSyncCallback_frame [simp]:
  "root (scheduleSyncCallback cb s) = root s"
  "executionContext (scheduleSyncCallback cb s) = executionContext s"
  "workInProgressRoot (scheduleSyncCallback cb s) = workInProgressRoot s"
  "workInProgress (scheduleSyncCallback cb s) = workInProgress s"
  "workInProgressRootRenderLanes (scheduleSyncCallback cb s) = workInProgressRootRenderLanes s"
  "workInProgressRootExitStatus (scheduleSyncCallback cb s) = workInProgressRootExitStatus s"
  "workInProgressRootFatalError (scheduleSyncCallback cb s) = workInProgressRootFatalError s"
  "workInProgressRootSkippedLanes (scheduleSyncCallback cb s) = workInProgressRootSkippedLanes s"
  "workInProgressRootInterleavedUpdatedLanes (scheduleSyncCallback cb s) = workInProgressRootInterleavedUpdatedLanes s"
  "workInProgressRootRenderPhaseUpdatedLanes (scheduleSyncCallback cb s) = workInProgressRootRenderPhaseUpdatedLanes s"
  "workInProgressRootPingedLanes (scheduleSyncCallback cb s) = workInProgressRootPingedLanes s"
  "workInProgressRootConcurrentErrors (scheduleSyncCallback cb s) = workInProgressRootConcurrentErrors s"
  "workInProgressRootRecoverableErrors (scheduleSyncCallback cb s) = workInProgressRootRecoverableErrors s"
  "globalMostRecentFallbackTime (scheduleSyncCallback cb s) = globalMostRecentFallbackTime s"
  "workInProgressTransitions (scheduleSyncCallback cb s) = workInProgressTransitions s"
  "hasUncaughtError (scheduleSyncCallback cb s) = hasUncaughtError s"
  "firstUncaughtError (scheduleSyncCallback cb s) = firstUncaughtError s"
  "legacyErrorBoundariesThatAlreadyFailed (scheduleSyncCallback cb s) = legacyErrorBoundariesThatAlreadyFailed s"
  "rootDoesHavePassiveEffects (scheduleSyncCallback cb s) = rootDoesHavePassiveEffects s"
  "rootWithPendingPassiveEffects (scheduleSyncCallback cb s) = rootWithPendingPassiveEffects s"
  "pendingPassiveEffectsLanes (scheduleSyncCallback cb s) = pendingPassiveEffectsLanes s"
  "pendingPassiveEffectsRemainingLanes (scheduleSyncCallback cb s) = pendingPassiveEffectsRemainingLanes s"
  "pendingPassiveTransitions (scheduleSyncCallback cb s) = pendingPassiveTransitions s"
  "nestedUpdateCount (scheduleSyncCallback cb s) = nestedUpdateCount s"
  "rootWithNestedUpdates (scheduleSyncCallback cb s) = rootWithNestedUpdates s"
  "isFlushingPassiveEffects (scheduleSyncCallback cb s) = isFlushingPassiveEffects s"
  "didScheduleUpdateDuringPassiveEffects (scheduleSyncCallback cb s) = didScheduleUpdateDuringPassiveEffects s"
  "nestedPassiveUpdateCount (scheduleSyncCallback cb s) = nestedPassiveUpdateCount s"
  "rootWithPassiveNestedUpdates (scheduleSyncCallback cb s) = rootWithPassiveNestedUpdates s"
  "currentEventTime (scheduleSyncCallback cb s) = currentEventTime s"
  "currentEventTransitionLane (scheduleSyncCallback cb s) = currentEventTransitionLane s"
  "currentUpdatePriority (scheduleSyncCallback cb s) = currentUpdatePriority s"
  "transition (scheduleSyncCallback cb s) = transition s"
  "includesLegacySyncCallbacks (scheduleSyncCallback cb s) = includesLegacySyncCallbacks s"
  "isFlushingSyncQueue (scheduleSyncCallback cb s) = isFlushingSyncQueue s"
  "now (scheduleSyncCallback cb s) = now s"
  "walks (scheduleSyncCallback cb s) = walks s"
  "handles (scheduleSyncCallback cb s) = handles s"
  "trace (scheduleSyncCallback cb s) = trace s"
  by (simp_all add: scheduleSyncCallback_def split: option.splits)

lemma scheduleLegacySyncCallback_frame [simp]:
  "root (scheduleLegacySyncCallback cb s) = root s"
  "executionContext (scheduleLegacySyncCallback cb s) = executionContext s"
  "workInProgressRoot (scheduleLegacySyncCallback cb s) = workInProgressRoot s"
  "workInProgress (scheduleLegacySyncCallback cb s) = workInProgress s"
  "workInProgressRootRenderLanes (scheduleLegacySyncCallback cb s) = workInProgressRootRenderLanes s"
  "workInProgressRootExitStatus (scheduleLegacySyncCallback cb s) = workInProgressRootExitStatus s"
  "workInProgressRootFatalError (scheduleLegacySyncCallback cb s) = workInProgressRootFatalError s"
  "workInProgressRootSkippedLanes (scheduleLegacySyncCallback cb s) = workInProgressRootSkippedLanes s"
  "workInProgressRootInterleavedUpdatedLanes (scheduleLegacySyncCallback cb s) = workInProgressRootInterleavedUpdatedLanes s"
  "workInProgressRootRenderPhaseUpdatedLanes (scheduleLegacySyncCallback cb s) = workInProgressRootRenderPhaseUpdatedLanes s"
  "workInProgressRootPingedLanes (scheduleLegacySyncCallback cb s) = workInProgressRootPingedLanes s"
  "workInProgressRootConcurrentErrors (scheduleLegacySyncCallback cb s) = workInProgressRootConcurrentErrors s"
  "workInProgressRootRecoverableErrors (scheduleLegacySyncCallback cb s) = workInProgressRootRecoverableErrors s"
  "globalMostRecentFallbackTime (scheduleLegacySyncCallback cb s) = globalMostRecentFallbackTime s"
  "workInProgressTransitions (scheduleLegacySyncCallback cb s) = workInProgressTransitions s"
  "hasUncaughtError (scheduleLegacySyncCallback cb s) = hasUncaughtError s"
  "firstUncaughtError (scheduleLegacySyncCallback cb s) = firstUncaughtError s"
  "legacyErrorBoundariesThatAlreadyFailed (scheduleLegacySyncCallback cb s) = legacyErrorBoundariesThatAlreadyFailed s"
  "rootDoesHavePassiveEffects (scheduleLegacySyncCallback cb s) = rootDoesHavePassiveEffects s"
  "rootWithPendingPassiveEffects (scheduleLegacySyncCallback cb s) = rootWithPendingPassiveEffects s"
  "pendingPassiveEffectsLanes (scheduleLegacySyncCallback cb s) = pendingPassiveEffectsLanes s"
  "pendingPassiveEffectsRemainingLanes (scheduleLegacySyncCallback cb s) = pendingPassiveEffectsRemainingLanes s"
  "pendingPassiveTransitions (scheduleLegacySyncCallback cb s) = pendingPassiveTransitions s"
  "nestedUpdateCount (scheduleLegacySyncCallback cb s) = nestedUpdateCount s"
  "rootWithNestedUpdates (scheduleLegacySyncCallback cb s) = rootWithNestedUpdates s"
  "isFlushingPassiveEffects (scheduleLegacySyncCallback cb s) = isFlushingPassiveEffects s"
  "didScheduleUpdateDuringPassiveEffects (scheduleLegacySyncCallback cb s) = didScheduleUpdateDuringPassiveEffects s"
  "nestedPassiveUpdateCount (scheduleLegacySyncCallback cb s) = nestedPassiveUpdateCount s"
  "rootWithPassiveNestedUpdates (scheduleLegacySyncCallback cb s) = rootWithPassiveNestedUpdates s"
  "currentEventTime (scheduleLegacySyncCallback cb s) = currentEventTime s"
  "currentEventTransitionLane (scheduleLegacySyncCallback cb s) = currentEventTransitionLane s"
  "currentUpdatePriority (scheduleLegacySyncCallback cb s) = currentUpdatePriority s"
  "transition (scheduleLegacySyncCallback cb s) = transition s"
  "isFlushingSyncQueue (scheduleLegacySyncCallback cb s) = isFlushingSyncQueue s"
  "now (scheduleLegacySyncCallback cb s) = now s"
  "walks (scheduleLegacySyncCallback cb s) = walks s"
  "handles (scheduleLegacySyncCallback cb s) = handles s"
  "trace (scheduleLegacySyncCallback cb s) = trace s"
  by (simp_all add: scheduleLegacySyncCallback_def)

lemma flushSyncCallbacks_frame [simp]:
  "root (flushSyncCallbacks s) = root s"
  "executionContext (flushSyncCallbacks s) = executionContext s"
  "workInProgressRoot (flushSyncCallbacks s) = workInProgressRoot s"
  "workInProgress (flushSyncCallbacks s) = workInProgress s"
  "workInProgressRootRenderLanes (flushSyncCallbacks s) = workInProgressRootRenderLanes s"
  "workInProgressRootExitStatus (flushSyncCallbacks s) = workInProgressRootExitStatus s"
  "workInProgressRootFatalError (flushSyncCallbacks s) = workInProgressRootFatalError s"
  "workInProgressRootSkippedLanes (flushSyncCallbacks s) = workInProgressRootSkippedLanes s"
  "workInProgressRootInterleavedUpdatedLanes (flushSyncCallbacks s) = workInProgressRootInterleavedUpdatedLanes s"
  "workInProgressRootRenderPhaseUpdatedLanes (flushSyncCallbacks s) = workInProgressRootRenderPhaseUpdatedLanes s"
  "workInProgressRootPingedLanes (flushSyncCallbacks s) = workInProgressRootPingedLanes s"
  "workInProgressRootConcurrentErrors (flushSyncCallbacks s) = workInProgressRootConcurrentErrors s"
  "workInProgressRootRecoverableErrors (flushSyncCallbacks s) = workInProgressRootRecoverableErrors s"
  "globalMostRecentFallbackTime (flushSyncCallbacks s) = globalMostRecentFallbackTime s"
  "workInProgressTransitions (flushSyncCallbacks s) = workInProgressTransitions s"
  "hasUncaughtError (flushSyncCallbacks s) = hasUncaughtError s"
  "firstUncaughtError (flushSyncCallbacks s) = firstUncaughtError s"
  "legacyErrorBoundariesThatAlreadyFailed (flushSyncCallbacks s) = legacyErrorBoundariesThatAlreadyFailed s"
  "rootDoesHavePassiveEffects (flushSyncCallbacks s) = rootDoesHavePassiveEffects s"
  "rootWithPendingPassiveEffects (flushSyncCallbacks s) = rootWithPendingPassiveEffects s"
  "pendingPassiveEffectsLanes (flushSyncCallbacks s) = pendingPassiveEffectsLanes s"
  "pendingPassiveEffectsRemainingLanes (flushSyncCallbacks s) = pendingPassiveEffectsRemainingLanes s"
  "pendingPassiveTransitions (flushSyncCallbacks s) = pendingPassiveTransitions s"
  "nestedUpdateCount (flushSyncCallbacks s) = nestedUpdateCount s"
  "rootWithNestedUpdates (flushSyncCallbacks s) = rootWithNestedUpdates s"
  "isFlushingPassiveEffects (flushSyncCallbacks s) = isFlushingPassiveEffects s"
  "didScheduleUpdateDuringPassiveEffects (flushSyncCallbacks s) = didScheduleUpdateDuringPassiveEffects s"
  "nestedPassiveUpdateCount (flushSyncCallbacks s) = nestedPassiveUpdateCount s"
  "rootWithPassiveNestedUpdates (flushSyncCallbacks s) = rootWithPassiveNestedUpdates s"
  "currentEventTime (flushSyncCallbacks s) = currentEventTime s"
  "currentEventTransitionLane (flushSyncCallbacks s) = currentEventTransitionLane s"
  "currentUpdatePriority (flushSyncCallbacks s) = currentUpdatePriority s"
  "transition (flushSyncCallbacks s) = transition s"
  "isFlushingSyncQueue (flushSyncCallbacks s) = isFlushingSyncQueue s"
  "now (flushSyncCallbacks s) = now s"
  "walks (flushSyncCallbacks s) = walks s"
  "handles (flushSyncCallbacks s) = handles s"
  by (simp_all add: flushSyncCallbacks_def Let_def split: option.splits)

lemma countNestedUpdate_frame [simp]:
  "root (countNestedUpdate s) = root s"
  "executionContext (countNestedUpdate s) = executionContext s"
  "workInProgressRoot (countNestedUpdate s) = workInProgressRoot s"
  "workInProgress (countNestedUpdate s) = workInProgress s"
  "workInProgressRootRenderLanes (countNestedUpdate s) = workInProgressRootRenderLanes s"
  "workInProgressRootExitStatus (countNestedUpdate s) = workInProgressRootExitStatus s"
  "workInProgressRootFatalError (countNestedUpdate s) = workInProgressRootFatalError s"
  "workInProgressRootSkippedLanes (countNestedUpdate s) = workInProgressRootSkippedLanes s"
  "workInProgressRootInterleavedUpdatedLanes (countNestedUpdate s) = workInProgressRootInterleavedUpdatedLanes s"
  "workInProgressRootRenderPhaseUpdatedLanes (countNestedUpdate s) = workInProgressRootRenderPhaseUpdatedLanes s"
  "workInProgressRootPingedLanes (countNestedUpdate s) = workInProgressRootPingedLanes s"
  "workInProgressRootConcurrentErrors (countNestedUpdate s) = workInProgressRootConcurrentErrors s"
  "workInProgressRootRecoverableErrors (countNestedUpdate s) = workInProgressRootRecoverableErrors s"
  "globalMostRecentFallbackTime (countNestedUpdate s) = globalMostRecentFallbackTime s"
  "workInProgressTransitions (countNestedUpdate s) = workInProgressTransitions s"
  "hasUncaughtError (countNestedUpdate s) = hasUncaughtError s"
  "firstUncaughtError (countNestedUpdate s) = firstUncaughtError s"
  "legacyErrorBoundariesThatAlreadyFailed (countNestedUpdate s) = legacyErrorBoundariesThatAlreadyFailed s"
  "rootDoesHavePassiveEffects (countNestedUpdate s) = rootDoesHavePassiveEffects s"
  "rootWithPendingPassiveEffects (countNestedUpdate s) = rootWithPendingPassiveEffects s"
  "pendingPassiveEffectsLanes (countNestedUpdate s) = pendingPassiveEffectsLanes s"
  "pendingPassiveEffectsRemainingLanes (countNestedUpdate s) = pendingPassiveEffectsRemainingLanes s"
  "pendingPassiveTransitions (countNestedUpdate s) = pendingPassiveTransitions s"
  "isFlushingPassiveEffects (countNestedUpdate s) = isFlushingPassiveEffects s"
  "didScheduleUpdateDuringPassiveEffects (countNestedUpdate s) = didScheduleUpdateDuringPassiveEffects s"
  "nestedPassiveUpdateCount (countNestedUpdate s) = nestedPassiveUpdateCount s"
  "rootWithPassiveNestedUpdates (countNestedUpdate s) = rootWithPassiveNestedUpdates s"
  "currentEventTime (countNestedUpdate s) = currentEventTime s"
  "currentEventTransitionLane (countNestedUpdate s) = currentEventTransitionLane s"
  "currentUpdatePriority (countNestedUpdate s) = currentUpdatePriority s"
  "transition (countNestedUpdate s) = transition s"
  "syncQueue (countNestedUpdate s) = syncQueue s"
  "includesLegacySyncCallbacks (countNestedUpdate s) = includesLegacySyncCallbacks s"
  "isFlushingSyncQueue (countNestedUpdate s) = isFlushingSyncQueue s"
  "now (countNestedUpdate s) = now s"
  "walks (countNestedUpdate s) = walks s"
  "handles (countNestedUpdate s) = handles s"
  "trace (countNestedUpdate s) = trace s"
  by (simp_all add: countNestedUpdate_def Let_def)

lemma reportRecoverableErrors_frame [simp]:
  "root (reportRecoverableErrors errs s) = root s"
  "executionContext (reportRecoverableErrors errs s) = executionContext s"
  "workInProgressRoot (reportRecoverableErrors errs s) = workInProgressRoot s"
  "workInProgress (reportRecoverableErrors errs s) = workInProgress s"
  "workInProgressRootRenderLanes (reportRecoverableErrors errs s) = workInProgressRootRenderLanes s"
  "workInProgressRootExitStatus (reportRecoverableErrors errs s) = workInProgressRootExitStatus s"
  "workInProgressRootFatalError (reportRecoverableErrors errs s) = workInProgressRootFatalError s"
  "workInProgressRootSkippedLanes (reportRecoverableErrors errs s) = workInProgressRootSkippedLanes s"
  "workInProgressRootInterleavedUpdatedLanes (reportRecoverableErrors errs s) = workInProgressRootInterleavedUpdatedLanes s"
  "workInProgressRootRenderPhaseUpdatedLanes (reportRecoverableErrors errs s) = workInProgressRootRenderPhaseUpdatedLanes s"
  "workInProgressRootPingedLanes (reportRecoverableErrors errs s) = workInProgressRootPingedLanes s"
  "workInProgressRootConcurrentErrors (reportRecoverableErrors errs s) = workInProgressRootConcurrentErrors s"
  "workInProgressRootRecoverableErrors (reportRecoverableErrors errs s) = workInProgressRootRecoverableErrors s"
  "globalMostRecentFallbackTime (reportRecoverableErrors errs s) = globalMostRecentFallbackTime s"
  "workInProgressTransitions (reportRecoverableErrors errs s) = workInProgressTransitions s"
  "hasUncaughtError (reportRecoverableErrors errs s) = hasUncaughtError s"
  "firstUncaughtError (reportRecoverableErrors errs s) = firstUncaughtError s"
  "legacyErrorBoundariesThatAlreadyFailed (reportRecoverableErrors errs s) = legacyErrorBoundariesThatAlreadyFailed s"
  "rootDoesHavePassiveEffects (reportRecoverableErrors errs s) = rootDoesHavePassiveEffects s"
  "rootWithPendingPassiveEffects (reportRecoverableErrors errs s) = rootWithPendingPassiveEffects s"
  "pendingPassiveEffectsLanes (reportRecoverableErrors errs s) = pendingPassiveEffectsLanes s"
  "pendingPassiveEffectsRemainingLanes (reportRecoverableErrors errs s) = pendingPassiveEffectsRemainingLanes s"
  "pendingPassiveTransitions (reportRecoverableErrors errs s) = pendingPassiveTransitions s"
  "nestedUpdateCount (reportRecoverableErrors errs s) = nestedUpdateCount s"
  "rootWithNestedUpdates (reportRecoverableErrors errs s) = rootWithNestedUpdates s"
  "isFlushingPassiveEffects (reportRecoverableErrors errs s) = isFlushingPassiveEffects s"
  "didScheduleUpdateDuringPassiveEffects (reportRecoverableErrors errs s) = didScheduleUpdateDuringPassiveEffects s"
  "nestedPassiveUpdateCount (reportRecoverableErrors errs s) = nestedPassiveUpdateCount s"
  "rootWithPassiveNestedUpdates (reportRecoverableErrors errs s) = rootWithPassiveNestedUpdates s"
  "currentEventTime (reportRecoverableErrors errs s) = currentEventTime s"
  "currentEventTransitionLane (reportRecoverableErrors errs s) = currentEventTransitionLane s"
  "currentUpdatePriority (reportRecoverableErrors errs s) = currentUpdatePriority s"
  "transition (reportRecoverableErrors errs s) = transition s"
  "syncQueue (reportRecoverableErrors errs s) = syncQueue s"
  "includesLegacySyncCallbacks (reportRecoverableErrors errs s) = includesLegacySyncCallbacks s"
  "isFlushingSyncQueue (reportRecoverableErrors errs s) = isFlushingSyncQueue s"
  "now (reportRecoverableErrors errs s) = now s"
  "walks (reportRecoverableErrors errs s) = walks s"
  "handles (reportRecoverableErrors errs s) = handles s"
  by (simp_all add: reportRecoverableErrors_def split: option.splits)

lemma onUncaughtError_frame [simp]:
  "root (onUncaughtError e s) = root s"
  "executionContext (onUncaughtError e s) = executionContext s"
  "workInProgressRoot (onUncaughtError e s) = workInProgressRoot s"
  "workInProgress (onUncaughtError e s) = workInProgress s"
  "workInProgressRootRenderLanes (onUncaughtError e s) = workInProgressRootRenderLanes s"
  "workInProgressRootExitStatus (onUncaughtError e s) = workInProgressRootExitStatus s"
  "workInProgressRootFatalError (onUncaughtError e s) = workInProgressRootFatalError s"
  "workInProgressRootSkippedLanes (onUncaughtError e s) = workInProgressRootSkippedLanes s"
  "workInProgressRootInterleavedUpdatedLanes (onUncaughtError e s) = workInProgressRootInterleavedUpdatedLanes s"
  "workInProgressRootRenderPhaseUpdatedLanes (onUncaughtError e s) = workInProgressRootRenderPhaseUpdatedLanes s"
  "workInProgressRootPingedLanes (onUncaughtError e s) = workInProgressRootPingedLanes s"
  "workInProgressRootConcurrentErrors (onUncaughtError e s) = workInProgressRootConcurrentErrors s"
  "workInProgressRootRecoverableErrors (onUncaughtError e s) = workInProgressRootRecoverableErrors s"
  "globalMostRecentFallbackTime (onUncaughtError e s) = globalMostRecentFallbackTime s"
  "workInProgressTransitions (onUncaughtError e s) = workInProgressTransitions s"
  "legacyErrorBoundariesThatAlreadyFailed (onUncaughtError e s) = legacyErrorBoundariesThatAlreadyFailed s"
  "rootDoesHavePassiveEffects (onUncaughtError e s) = rootDoesHavePassiveEffects s"
  "rootWithPendingPassiveEffects (onUncaughtError e s) = rootWithPendingPassiveEffects s"
  "pendingPassiveEffectsLanes (onUncaughtError e s) = pendingPassiveEffectsLanes s"
  "pendingPassiveEffectsRemainingLanes (onUncaughtError e s) = pendingPassiveEffectsRemainingLanes s"
  "pendingPassiveTransitions (onUncaughtError e s) = pendingPassiveTransitions s"
  "nestedUpdateCount (onUncaughtError e s) = nestedUpdateCount s"
  "rootWithNestedUpdates (onUncaughtError e s) = rootWithNestedUpdates s"
  "isFlushingPassiveEffects (onUncaughtError e s) = isFlushingPassiveEffects s"
  "didScheduleUpdateDuringPassiveEffects (onUncaughtError e s) = didScheduleUpdateDuringPassiveEffects s"
  "nestedPassiveUpdateCount (onUncaughtError e s) = nestedPassiveUpdateCount s"
  "rootWithPassiveNestedUpdates (onUncaughtError e s) = rootWithPassiveNestedUpdates s"
  "currentEventTime (onUncaughtError e s) = currentEventTime s"
  "currentEventTransitionLane (onUncaughtError e s) = currentEventTransitionLane s"
  "currentUpdatePriority (onUncaughtError e s) = currentUpdatePriority s"
  "transition (onUncaughtError e s) = transition s"
  "syncQueue (onUncaughtError e s) = syncQueue s"
  "includesLegacySyncCallbacks (onUncaughtError e s) = includesLegacySyncCallbacks s"
  "isFlushingSyncQueue (onUncaughtError e s) = isFlushingSyncQueue s"
  "now (onUncaughtError e s) = now s"
  "walks (onUncaughtError e s) = walks s"
  "handles (onUncaughtError e s) = handles s"
  "trace (onUncaughtError e s) = trace s"
  by (simp_all add: onUncaughtError_def)

lemma setCurrent_frame [simp]:
  "rootRef (root (setCurrent fw s)) = rootRef (root s)"
  "rootTag (root (setCurrent fw s)) = rootTag (root s)"
  "finishedWork (root (setCurrent fw s)) = finishedWork (root s)"
  "finishedLanes (root (setCurrent fw s)) = finishedLanes (root s)"
  "callbackNode (root (setCurrent fw s)) = callbackNode (root s)"
  "callbackPriority (root (setCurrent fw s)) = callbackPriority (root s)"
  "timeoutHandle (root (setCurrent fw s)) = timeoutHandle (root s)"
  "laneSets (root (setCurrent fw s)) = laneSets (root s)"
  "executionContext (setCurrent fw s) = executionContext s"
  "workInProgressRoot (setCurrent fw s) = workInProgressRoot s"
  "workInProgress (setCurrent fw s) = workInProgress s"
  "workInProgressRootRenderLanes (setCurrent fw s) = workInProgressRootRenderLanes s"
  "workInProgressRootExitStatus (setCurrent fw s) = workInProgressRootExitStatus s"
  "workInProgressRootFatalError (setCurrent fw s) = workInProgressRootFatalError s"
  "workInProgressRootSkippedLanes (setCurrent fw s) = workInProgressRootSkippedLanes s"
  "workInProgressRootInterleavedUpdatedLanes (setCurrent fw s) = workInProgressRootInterleavedUpdatedLanes s"
  "workInProgressRootRenderPhaseUpdatedLanes (setCurrent fw s) = workInProgressRootRenderPhaseUpdatedLanes s"
  "workInProgressRootPingedLanes (setCurrent fw s) = workInProgressRootPingedLanes s"
  "workInProgressRootConcurrentErrors (setCurrent fw s) = workInProgressRootConcurrentErrors s"
  "workInProgressRootRecoverableErrors (setCurrent fw s) = workInProgressRootRecoverableErrors s"
  "globalMostRecentFallbackTime (setCurrent fw s) = globalMostRecentFallbackTime s"
  "workInProgressTransitions (setCurrent fw s) = workInProgressTransitions s"
  "hasUncaughtError (setCurrent fw s) = hasUncaughtError s"
  "firstUncaughtError (setCurrent fw s) = firstUncaughtError s"
  "legacyErrorBoundariesThatAlreadyFailed (setCurrent fw s) = legacyErrorBoundariesThatAlreadyFailed s"
  "rootDoesHavePassiveEffects (setCurrent fw s) = rootDoesHavePassiveEffects s"
  "rootWithPendingPassiveEffects (setCurrent fw s) = rootWithPendingPassiveEffects s"
  "pendingPassiveEffectsLanes (setCurrent fw s) = pendingPassiveEffectsLanes s"
  "pendingPassiveEffectsRemainingLanes (setCurrent fw s) = pendingPassiveEffectsRemainingLanes s"
  "pendingPassiveTransitions (setCurrent fw s) = pendingPassiveTransitions s"
  "nestedUpdateCount (setCurrent fw s) = nestedUpdateCount s"
  "rootWithNestedUpdates (setCurrent fw s) = rootWithNestedUpdates s"
  "isFlushingPassiveEffects (setCurrent fw s) = isFlushingPassiveEffects s"
  "didScheduleUpdateDuringPassiveEffects (setCurrent fw s) = didScheduleUpdateDuringPassiveEffects s"
  "nestedPassiveUpdateCount (setCurrent fw s) = nestedPassiveUpdateCount s"
  "rootWithPassiveNestedUpdates (setCurrent fw s) = rootWithPassiveNestedUpdates s"
  "currentEventTime (setCurrent fw s) = currentEventTime s"
  "currentEventTransitionLane (setCurrent fw s) = currentEventTransitionLane s"
  "currentUpdatePriority (setCurrent fw s) = currentUpdatePriority s"
  "transition (setCurrent fw s) = transition s"
  "syncQueue (setCurrent fw s) = syncQueue s"
  "includesLegacySyncCallbacks (setCurrent fw s) = includesLegacySyncCallbacks s"
  "isFlushingSyncQueue (setCurrent fw s) = isFlushingSyncQueue s"
  "now (setCurrent fw s) = now s"
  "walks (setCurrent fw s) = walks s"
  "handles (setCurrent fw s) = handles s"
  by (simp_all add: setCurrent_def)

lemma commitLayoutEffects_frame [simp]:
  "root (commitLayoutEffects cfg fw s) = root s"
  "executionContext (commitLayoutEffects cfg fw s) = executionContext s"
  "workInProgressRoot (commitLayoutEffects cfg fw s) = workInProgressRoot s"
  "workInProgress (commitLayoutEffects cfg fw s) = workInProgress s"
  "workInProgressRootRenderLanes (commitLayoutEffects cfg fw s) = workInProgressRootRenderLanes s"
  "workInProgressRootExitStatus (commitLayoutEffects cfg fw s) = workInProgressRootExitStatus s"
  "workInProgressRootFatalError (commitLayoutEffects cfg fw s) = workInProgressRootFatalError s"
  "workInProgressRootSkippedLanes (commitLayoutEffects cfg fw s) = workInProgressRootSkippedLanes s"
  "workInProgressRootInterleavedUpdatedLanes (commitLayoutEffects cfg fw s) = workInProgressRootInterleavedUpdatedLanes s"
  "workInProgressRootRenderPhaseUpdatedLanes (commitLayoutEffects cfg fw s) = workInProgressRootRenderPhaseUpdatedLanes s"
  "workInProgressRootPingedLanes (commitLayoutEffects cfg fw s) = workInProgressRootPingedLanes s"
  "workInProgressRootConcurrentErrors (commitLayoutEffects cfg fw s) = workInProgressRootConcurrentErrors s"
  "workInProgressRootRecoverableErrors (commitLayoutEffects cfg fw s) = workInProgressRootRecoverableErrors s"
  "globalMostRecentFallbackTime (commitLayoutEffects cfg fw s) = globalMostRecentFallbackTime s"
  "workInProgressTransitions (commitLayoutEffects cfg fw s) = workInProgressTransitions s"
  "legacyErrorBoundariesThatAlreadyFailed (commitLayoutEffects cfg fw s) = legacyErrorBoundariesThatAlreadyFailed s"
  "rootDoesHavePassiveEffects (commitLayoutEffects cfg fw s) = rootDoesHavePassiveEffects s"
  "rootWithPendingPassiveEffects (commitLayoutEffects cfg fw s) = rootWithPendingPassiveEffects s"
  "pendingPassiveEffectsLanes (commitLayoutEffects cfg fw s) = pendingPassiveEffectsLanes s"
  "pendingPassiveEffectsRemainingLanes (commitLayoutEffects cfg fw s) = pendingPassiveEffectsRemainingLanes s"
  "pendingPassiveTransitions (commitLayoutEffects cfg fw s) = pendingPassiveTransitions s"
  "nestedUpdateCount (commitLayoutEffects cfg fw s) = nestedUpdateCount s"
  "rootWithNestedUpdates (commitLayoutEffects cfg fw s) = rootWithNestedUpdates s"
  "isFlushingPassiveEffects (commitLayoutEffects cfg fw s) = isFlushingPassiveEffects s"
  "didScheduleUpdateDuringPassiveEffects (commitLayoutEffects cfg fw s) = didScheduleUpdateDuringPassiveEffects s"
  "nestedPassiveUpdateCount (commitLayoutEffects cfg fw s) = nestedPassiveUpdateCount s"
  "rootWithPassiveNestedUpdates (commitLayoutEffects cfg fw s) = rootWithPassiveNestedUpdates s"
  "currentEventTime (commitLayoutEffects cfg fw s) = currentEventTime s"
  "currentEventTransitionLane (commitLayoutEffects cfg fw s) = currentEventTransitionLane s"
  "currentUpdatePriority (commitLayoutEffects cfg fw s) = currentUpdatePriority s"
  "transition (commitLayoutEffects cfg fw s) = transition s"
  "syncQueue (commitLayoutEffects cfg fw s) = syncQueue s"
  "includesLegacySyncCallbacks (commitLayoutEffects cfg fw s) = includesLegacySyncCallbacks s"
  "isFlushingSyncQueue (commitLayoutEffects cfg fw s) = isFlushingSyncQueue s"
  "now (commitLayoutEffects cfg fw s) = now s"
  "walks (commitLayoutEffects cfg fw s) = walks s"
  "handles (commitLayoutEffects cfg fw s) = handles s"
  by (simp_all add: commitLayoutEffects_def Let_def split: option.splits)

lemma commitBeforeMutationEffects_frame [simp]:
  "root (snd (commitBeforeMutationEffects cfg fw s)) = root s"
  "executionContext (snd (commitBeforeMutationEffects cfg fw s)) = executionContext s"
  "workInProgressRoot (snd (commitBeforeMutationEffects cfg fw s)) = workInProgressRoot s"
  "workInProgress (snd (commitBeforeMutationEffects cfg fw s)) = workInProgress s"
  "workInProgressRootRenderLanes (snd (commitBeforeMutationEffects cfg fw s)) = workInProgressRootRenderLanes s"
  "workInProgressRootExitStatus (snd (commitBeforeMutationEffects cfg fw s)) = workInProgressRootExitStatus s"
  "workInProgressRootFatalError (snd (commitBeforeMutationEffects cfg fw s)) = workInProgressRootFatalError s"
  "workInProgressRootSkippedLanes (snd (commitBeforeMutationEffects cfg fw s)) = workInProgressRootSkippedLanes s"
  "workInProgressRootInterleavedUpdatedLanes (snd (commitBeforeMutationEffects cfg fw s)) = workInProgressRootInterleavedUpdatedLanes s"
  "workInProgressRootRenderPhaseUpdatedLanes (snd (commitBeforeMutationEffects cfg fw s)) = workInProgressRootRenderPhaseUpdatedLanes s"
  "workInProgressRootPingedLanes (snd (commitBeforeMutationEffects cfg fw s)) = workInProgressRootPingedLanes s"
  "workInProgressRootConcurrentErrors (snd (commitBeforeMutationEffects cfg fw s)) = workInProgressRootConcurrentErrors s"
  "workInProgressRootRecoverableErrors (snd (commitBeforeMutationEffects cfg fw s)) = workInProgressRootRecoverableErrors s"
  "globalMostRecentFallbackTime (snd (commitBeforeMutationEffects cfg fw s)) = globalMostRecentFallbackTime s"
  "workInProgressTransitions (snd (commitBeforeMutationEffects cfg fw s)) = workInProgressTransitions s"
  "hasUncaughtError (snd (commitBeforeMutationEffects cfg fw s)) = hasUncaughtError s"
  "firstUncaughtError (snd (commitBeforeMutationEffects cfg fw s)) = firstUncaughtError s"
  "legacyErrorBoundariesThatAlreadyFailed (snd (commitBeforeMutationEffects cfg fw s)) = legacyErrorBoundariesThatAlreadyFailed s"
  "rootDoesHavePassiveEffects (snd (commitBeforeMutationEffects cfg fw s)) = rootDoesHavePassiveEffects s"
  "rootWithPendingPassiveEffects (snd (commitBeforeMutationEffects cfg fw s)) = rootWithPendingPassiveEffects s"
  "pendingPassiveEffectsLanes (snd (commitBeforeMutationEffects cfg fw s)) = pendingPassiveEffectsLanes s"
  "pendingPassiveEffectsRemainingLanes (snd (commitBeforeMutationEffects cfg fw s)) = pendingPassiveEffectsRemainingLanes s"
  "pendingPassiveTransitions (snd (commitBeforeMutationEffects cfg fw s)) = pendingPassiveTransitions s"
  "nestedUpdateCount (snd (commitBeforeMutationEffects cfg fw s)) = nestedUpdateCount s"
  "rootWithNestedUpdates (snd (commitBeforeMutationEffects cfg fw s)) = rootWithNestedUpdates s"
  "isFlushingPassiveEffects (snd (commitBeforeMutationEffects cfg fw s)) = isFlushingPassiveEffects s"
  "didScheduleUpdateDuringPassiveEffects (snd (commitBeforeMutationEffects cfg fw s)) = didScheduleUpdateDuringPassiveEffects s"
  "nestedPassiveUpdateCount (snd (commitBeforeMutationEffects cfg fw s)) = nestedPassiveUpdateCount s"
  "rootWithPassiveNestedUpdates (snd (commitBeforeMutationEffects cfg fw s)) = rootWithPassiveNestedUpdates s"
  "currentEventTime (snd (commitBeforeMutationEffects cfg fw s)) = currentEventTime s"
  "currentEventTransitionLane (snd (commitBeforeMutationEffects cfg fw s)) = currentEventTransitionLane s"
  "currentUpdatePriority (snd (commitBeforeMutationEffects cfg fw s)) = currentUpdatePriority s"
  "transition (snd (commitBeforeMutationEffects cfg fw s)) = transition s"
  "syncQueue (snd (commitBeforeMutationEffects cfg fw s)) = syncQueue s"
  "includesLegacySyncCallbacks (snd (commitBeforeMutationEffects cfg fw s)) = includesLegacySyncCallbacks s"
  "isFlushingSyncQueue (snd (commitBeforeMutationEffects cfg fw s)) = isFlushingSyncQueue s"
  "now (snd (commitBeforeMutationEffects cfg fw s)) = now s"
  "walks (snd (commitBeforeMutationEffects cfg fw s)) = walks s"
  "handles (snd (commitBeforeMutationEffects cfg fw s)) = handles s"
  by (simp_all add: commitBeforeMutationEffects_def)

lemma commitMutationEffects_frame [simp]:
  "root (commitMutationEffects cfg fw s) = root s"
  "executionContext (commitMutationEffects cfg fw s) = executionContext s"
  "workInProgressRoot (commitMutationEffects cfg fw s) = workInProgressRoot s"
  "workInProgress (commitMutationEffects cfg fw s) = workInProgress s"
  "workInProgressRootRenderLanes (commitMutationEffects cfg fw s) = workInProgressRootRenderLanes s"
  "workInProgressRootExitStatus (commitMutationEffects cfg fw s) = workInProgressRootExitStatus s"
  "workInProgressRootFatalError (commitMutationEffects cfg fw s) = workInProgressRootFatalError s"
  "workInProgressRootSkippedLanes (commitMutationEffects cfg fw s) = workInProgressRootSkippedLanes s"
  "workInProgressRootInterleavedUpdatedLanes (commitMutationEffects cfg fw s) = workInProgressRootInterleavedUpdatedLanes s"
  "workInProgressRootRenderPhaseUpdatedLanes (commitMutationEffects cfg fw s) = workInProgressRootRenderPhaseUpdatedLanes s"
  "workInProgressRootPingedLanes (commitMutationEffects cfg fw s) = workInProgressRootPingedLanes s"
  "workInProgressRootConcurrentErrors (commitMutationEffects cfg fw s) = workInProgressRootConcurrentErrors s"
  "workInProgressRootRecoverableErrors (commitMutationEffects cfg fw s) = workInProgressRootRecoverableErrors s"
  "globalMostRecentFallbackTime (commitMutationEffects cfg fw s) = globalMostRecentFallbackTime s"
  "workInProgressTransitions (commitMutationEffects cfg fw s) = workInProgressTransitions s"
  "hasUncaughtError (commitMutationEffects cfg fw s) = hasUncaughtError s"
  "firstUncaughtError (commitMutationEffects cfg fw s) = firstUncaughtError s"
  "legacyErrorBoundariesThatAlreadyFailed (commitMutationEffects cfg fw s) = legacyErrorBoundariesThatAlreadyFailed s"
  "rootDoesHavePassiveEffects (commitMutationEffects cfg fw s) = rootDoesHavePassiveEffects s"
  "rootWithPendingPassiveEffects (commitMutationEffects cfg fw s) = rootWithPendingPassiveEffects s"
  "pendingPassiveEffectsLanes (commitMutationEffects cfg fw s) = pendingPassiveEffectsLanes s"
  "pendingPassiveEffectsRemainingLanes (commitMutationEffects cfg fw s) = pendingPassiveEffectsRemainingLanes s"
  "pendingPassiveTransitions (commitMutationEffects cfg fw s) = pendingPassiveTransitions s"
  "nestedUpdateCount (commitMutationEffects cfg fw s) = nestedUpdateCount s"
  "rootWithNestedUpdates (commitMutationEffects cfg fw s) = rootWithNestedUpdates s"
  "isFlushingPassiveEffects (commitMutationEffects cfg fw s) = isFlushingPassiveEffects s"
  "didScheduleUpdateDuringPassiveEffects (commitMutationEffects cfg fw s) = didScheduleUpdateDuringPassiveEffects s"
  "nestedPassiveUpdateCount (commitMutationEffects cfg fw s) = nestedPassiveUpdateCount s"
  "rootWithPassiveNestedUpdates (commitMutationEffects cfg fw s) = rootWithPassiveNestedUpdates s"
  "currentEventTime (commitMutationEffects cfg fw s) = currentEventTime s"
  "currentEventTransitionLane (commitMutationEffects cfg fw s) = currentEventTransitionLane s"
  "currentUpdatePriority (commitMutationEffects cfg fw s) = currentUpdatePriority s"
  "transition (commitMutationEffects cfg fw s) = transition s"
  "syncQueue (commitMutationEffects cfg fw s) = syncQueue s"
  "includesLegacySyncCallbacks (commitMutationEffects cfg fw s) = includesLegacySyncCallbacks s"
  "isFlushingSyncQueue (commitMutationEffects cfg fw s) = isFlushingSyncQueue s"
  "now (commitMutationEffects cfg fw s) = now s"
  "walks (commitMutationEffects cfg fw s) = walks s"
  "handles (commitMutationEffects cfg fw s) = handles s"
  by (simp_all add: commitMutationEffects_def)

lemma markRootSuspended_frame [simp]:
  "rootRef (root (markRootSuspended cfg lanes s)) = rootRef (root s)"
  "rootTag (root (markRootSuspended cfg lanes s)) = rootTag (root s)"
  "current (root (markRootSuspended cfg lanes s)) = current (root s)"
  "alternate (root (markRootSuspended cfg lanes s)) = alternate (root s)"
  "finishedWork (root (markRootSuspended cfg lanes s)) = finishedWork (root s)"
  "finishedLanes (root (markRootSuspended cfg lanes s)) = finishedLanes (root s)"
  "callbackNode (root (markRootSuspended cfg lanes s)) = callbackNode (root s)"
  "callbackPriority (root (markRootSuspended cfg lanes s)) = callbackPriority (root s)"
  "timeoutHandle (root (markRootSuspended cfg lanes s)) = timeoutHandle (root s)"
  "executionContext (markRootSuspended cfg lanes s) = executionContext s"
  "workInProgressRoot (markRootSuspended cfg lanes s) = workInProgressRoot s"
  "workInProgress (markRootSuspended cfg lanes s) = workInProgress s"
  "workInProgressRootRenderLanes (markRootSuspended cfg lanes s) = workInProgressRootRenderLanes s"
  "workInProgressRootExitStatus (markRootSuspended cfg lanes s) = workInProgressRootExitStatus s"
  "workInProgressRootFatalError (markRootSuspended cfg lanes s) = workInProgressRootFatalError s"
  "workInProgressRootSkippedLanes (markRootSuspended cfg lanes s) = workInProgressRootSkippedLanes s"
  "workInProgressRootInterleavedUpdatedLanes (markRootSuspended cfg lanes s) = workInProgressRootInterleavedUpdatedLanes s"
  "workInProgressRootRenderPhaseUpdatedLanes (markRootSuspended cfg lanes s) = workInProgressRootRenderPhaseUpdatedLanes s"
  "workInProgressRootPingedLanes (markRootSuspended cfg lanes s) = workInProgressRootPingedLanes s"
  "workInProgressRootConcurrentErrors (markRootSuspended cfg lanes s) = workInProgressRootConcurrentErrors s"
  "workInProgressRootRecoverableErrors (markRootSuspended cfg lanes s) = workInProgressRootRecoverableErrors s"
  "globalMostRecentFallbackTime (markRootSuspended cfg lanes s) = globalMostRecentFallbackTime s"
  "workInProgressTransitions (markRootSuspended cfg lanes s) = workInProgressTransitions s"
  "hasUncaughtError (markRootSuspended cfg lanes s) = hasUncaughtError s"
  "firstUncaughtError (markRootSuspended cfg lanes s) = firstUncaughtError s"
  "legacyErrorBoundariesThatAlreadyFailed (markRootSuspended cfg lanes s) = legacyErrorBoundariesThatAlreadyFailed s"
  "rootDoesHavePassiveEffects (markRootSuspended cfg lanes s) = rootDoesHavePassiveEffects s"
  "rootWithPendingPassiveEffects (markRootSuspended cfg lanes s) = rootWithPendingPassiveEffects s"
  "pendingPassiveEffectsLanes (markRootSuspended cfg lanes s) = pendingPassiveEffectsLanes s"
  "pendingPassiveEffectsRemainingLanes (markRootSuspended cfg lanes s) = pendingPassiveEffectsRemainingLanes s"
  "pendingPassiveTransitions (markRootSuspended cfg lanes s) = pendingPassiveTransitions s"
  "nestedUpdateCount (markRootSuspended cfg lanes s) = nestedUpdateCount s"
  "rootWithNestedUpdates (markRootSuspended cfg lanes s) = rootWithNestedUpdates s"
  "isFlushingPassiveEffects (markRootSuspended cfg lanes s) = isFlushingPassiveEffects s"
  "didScheduleUpdateDuringPassiveEffects (markRootSuspended cfg lanes s) = didScheduleUpdateDuringPassiveEffects s"
  "nestedPassiveUpdateCount (markRootSuspended cfg lanes s) = nestedPassiveUpdateCount s"
  "rootWithPassiveNestedUpdates (markRootSuspended cfg lanes s) = rootWithPassiveNestedUpdates s"
  "currentEventTime (markRootSuspended cfg lanes s) = currentEventTime s"
  "currentEventTransitionLane (markRootSuspended cfg lanes s) = currentEventTransitionLane s"
  "currentUpdatePriority (markRootSuspended cfg lanes s) = currentUpdatePriority s"
  "transition (markRootSuspended cfg lanes s) = transition s"
  "syncQueue (markRootSuspended cfg lanes s) = syncQueue s"
  "includesLegacySyncCallbacks (markRootSuspended cfg lanes s) = includesLegacySyncCallbacks s"
  "isFlushingSyncQueue (markRootSuspended cfg lanes s) = isFlushingSyncQueue s"
  "now (markRootSuspended cfg lanes s) = now s"
  "walks (markRootSuspended cfg lanes s) = walks s"
  "handles (markRootSuspended cfg lanes s) = handles s"
  "trace (markRootSuspended cfg lanes s) = trace s"
  by (simp_all add: markRootSuspended_def Let_def)

lemma scheduleCommitTimeout_frame [simp]:
  "rootRef (root (scheduleCommitTimeout ms s)) = rootRef (root s)"
  "rootTag (root (scheduleCommitTimeout ms s)) = rootTag (root s)"
  "current (root (scheduleCommitTimeout ms s)) = current (root s)"
  "alternate (root (scheduleCommitTimeout ms s)) = alternate (root s)"
  "finishedWork (root (scheduleCommitTimeout ms s)) = finishedWork (root s)"
  "finishedLanes (root (scheduleCommitTimeout ms s)) = finishedLanes (root s)"
  "callbackNode (root (scheduleCommitTimeout ms s)) = callbackNode (root s)"
  "callbackPriority (root (scheduleCommitTimeout ms s)) = callbackPriority (root s)"
  "laneSets (root (scheduleCommitTimeout ms s)) = laneSets (root s)"
  "executionContext (scheduleCommitTimeout ms s) = executionContext s"
  "workInProgressRoot (scheduleCommitTimeout ms s) = workInProgressRoot s"
  "workInProgress (scheduleCommitTimeout ms s) = workInProgress s"
  "workInProgressRootRenderLanes (scheduleCommitTimeout ms s) = workInProgressRootRenderLanes s"
  "workInProgressRootExitStatus (scheduleCommitTimeout ms s) = workInProgressRootExitStatus s"
  "workInProgressRootFatalError (scheduleCommitTimeout ms s) = workInProgressRootFatalError s"
  "workInProgressRootSkippedLanes (scheduleCommitTimeout ms s) = workInProgressRootSkippedLanes s"
  "workInProgressRootInterleavedUpdatedLanes (scheduleCommitTimeout ms s) = workInProgressRootInterleavedUpdatedLanes s"
  "workInProgressRootRenderPhaseUpdatedLanes (scheduleCommitTimeout ms s) = workInProgressRootRenderPhaseUpdatedLanes s"
  "workInProgressRootPingedLanes (scheduleCommitTimeout ms s) = workInProgressRootPingedLanes s"
  "workInProgressRootConcurrentErrors (scheduleCommitTimeout ms s) = workInProgressRootConcurrentErrors s"
  "workInProgressRootRecoverableErrors (scheduleCommitTimeout ms s) = workInProgressRootRecoverableErrors s"
  "globalMostRecentFallbackTime (scheduleCommitTimeout ms s) = globalMostRecentFallbackTime s"
  "workInProgressTransitions (scheduleCommitTimeout ms s) = workInProgressTransitions s"
  "hasUncaughtError (scheduleCommitTimeout ms s) = hasUncaughtError s"
  "firstUncaughtError (scheduleCommitTimeout ms s) = firstUncaughtError s"
  "legacyErrorBoundariesThatAlreadyFailed (scheduleCommitTimeout ms s) = legacyErrorBoundariesThatAlreadyFailed s"
  "rootDoesHavePassiveEffects (scheduleCommitTimeout ms s) = rootDoesHavePassiveEffects s"
  "rootWithPendingPassiveEffects (scheduleCommitTimeout ms s) = rootWithPendingPassiveEffects s"
  "pendingPassiveEffectsLanes (scheduleCommitTimeout ms s) = pendingPassiveEffectsLanes s"
  "pendingPassiveEffectsRemainingLanes (scheduleCommitTimeout ms s) = pendingPassiveEffectsRemainingLanes s"
  "pendingPassiveTransitions (scheduleCommitTimeout ms s) = pendingPassiveTransitions s"
  "nestedUpdateCount (scheduleCommitTimeout ms s) = nestedUpdateCount s"
  "rootWithNestedUpdates (scheduleCommitTimeout ms s) = rootWithNestedUpdates s"
  "isFlushingPassiveEffects (scheduleCommitTimeout ms s) = isFlushingPassiveEffects s"
  "didScheduleUpdateDuringPassiveEffects (scheduleCommitTimeout ms s) = didScheduleUpdateDuringPassiveEffects s"
  "nestedPassiveUpdateCount (scheduleCommitTimeout ms s) = nestedPassiveUpdateCount s"
  "rootWithPassiveNestedUpdates (scheduleCommitTimeout ms s) = rootWithPassiveNestedUpdates s"
  "currentEventTime (scheduleCommitTimeout ms s) = currentEventTime s"
  "currentEventTransitionLane (scheduleCommitTimeout ms s) = currentEventTransitionLane s"
  "currentUpdatePriority (scheduleCommitTimeout ms s) = currentUpdatePriority s"
  "transition (scheduleCommitTimeout ms s) = transition s"
  "syncQueue (scheduleCommitTimeout ms s) = syncQueue s"
  "includesLegacySyncCallbacks (scheduleCommitTimeout ms s) = includesLegacySyncCallbacks s"
  "isFlushingSyncQueue (scheduleCommitTimeout ms s) = isFlushingSyncQueue s"
  "now (scheduleCommitTimeout ms s) = now s"
  "walks (scheduleCommitTimeout ms s) = walks s"
  by (simp_all add: scheduleCommitTimeout_def)

lemma extends_update [simp]:
  "extends s (x\<lparr>root := v0\<rparr>) = extends s x"
  "extends s (x\<lparr>executionContext := v1\<rparr>) = extends s x"
  "extends s (x\<lparr>workInProgressRoot := v2\<rparr>) = extends s x"
  "extends s (x\<lparr>workInProgress := v3\<rparr>) = extends s x"
  "extends s (x\<lparr>workInProgressRootRenderLanes := v4\<rparr>) = extends s x"
  "extends s (x\<lparr>workInProgressRootExitStatus := v5\<rparr>) = extends s x"
  "extends s (x\<lparr>workInProgressRootFatalError := v6\<rparr>) = extends s x"
  "extends s (x\<lparr>workInProgressRootSkippedLanes := v7\<rparr>) = extends s x"
  "extends s (x\<lparr>workInProgressRootInterleavedUpdatedLanes := v8\<rparr>) = extends s x"
  "extends s (x\<lparr>workInProgressRootRenderPhaseUpdatedLanes := v9\<rparr>) = extends s x"
  "extends s (x\<lparr>workInProgressRootPingedLanes := v10\<rparr>) = extends s x"
  "extends s (x\<lparr>workInProgressRootConcurrentErrors := v11\<rparr>) = extends s x"
  "extends s (x\<lparr>workInProgressRootRecoverableErrors := v12\<rparr>) = extends s x"
  "extends s (x\<lparr>globalMostRecentFallbackTime := v13\<rparr>) = extends s x"
  "extends s (x\<lparr>workInProgressTransitions := v14\<rparr>) = extends s x"
  "extends s (x\<lparr>hasUncaughtError := v15\<rparr>) = extends s x"
  "extends s (x\<lparr>firstUncaughtError := v16\<rparr>) = extends s x"
  "extends s (x\<lparr>legacyErrorBoundariesThatAlreadyFailed := v17\<rparr>) = extends s x"
  "extends s (x\<lparr>rootDoesHavePassiveEffects := v18\<rparr>) = extends s x"
  "extends s (x\<lparr>rootWithPendingPassiveEffects := v19\<rparr>) = extends s x"
  "extends s (x\<lparr>pendingPassiveEffectsLanes := v20\<rparr>) = extends s x"
  "extends s (x\<lparr>pendingPassiveEffectsRemainingLanes := v21\<rparr>) = extends s x"
  "extends s (x\<lparr>pendingPassiveTransitions := v22\<rparr>) = extends s x"
  "extends s (x\<lparr>nestedUpdateCount := v23\<rparr>) = extends s x"
  "extends s (x\<lparr>rootWithNestedUpdates := v24\<rparr>) = extends s x"
  "extends s (x\<lparr>isFlushingPassiveEffects := v25\<rparr>) = extends s x"
  "extends s (x\<lparr>didScheduleUpdateDuringPassiveEffects := v26\<rparr>) = extends s x"
  "extends s (x\<lparr>nestedPassiveUpdateCount := v27\<rparr>) = extends s x"
  "extends s (x\<lparr>rootWithPassiveNestedUpdates := v28\<rparr>) = extends s x"
  "extends s (x\<lparr>currentEventTime := v29\<rparr>) = extends s x"
  "extends s (x\<lparr>currentEventTransitionLane := v30\<rparr>) = extends s x"
  "extends s (x\<lparr>currentUpdatePriority := v31\<rparr>) = extends s x"
  "extends s (x\<lparr>transition := v32\<rparr>) = extends s x"
  "extends s (x\<lparr>syncQueue := v33\<rparr>) = extends s x"
  "extends s (x\<lparr>includesLegacySyncCallbacks := v34\<rparr>) = extends s x"
  "extends s (x\<lparr>isFlushingSyncQueue := v35\<rparr>) = extends s x"
  "extends s (x\<lparr>now := v36\<rparr>) = extends s x"
  "extends s (x\<lparr>walks := v37\<rparr>) = extends s x"
  "extends s (x\<lparr>handles := v38\<rparr>) = extends s x"
  by (simp_all add: extends_def)

subsection \<open>Facts about the trace\<close>

lemma map_filter_append: "List.map_filter f (xs @ ys) = List.map_filter f xs @ List.map_filter f ys"
  by (simp add: List.map_filter_def)







lemma aside_sync [simp]: "list_all aside (map SyncCallbackInvoked queue)"
  by (induction queue) simp_all

lemma extends_refl [simp]: "extends s s"
  by (simp add: extends_def)

lemma extends_trans: "extends s s1 \<Longrightarrow> extends s1 s2 \<Longrightarrow> extends s s2"
  by (auto simp: extends_def)

lemma extends_emit [simp]: "extends s x \<Longrightarrow> list_all aside evs \<Longrightarrow> extends s (emit evs x)"
  by (auto simp: extends_def)

lemma extends_onRoot [simp]: "extends s (onRoot g x) = extends s x"
  by (simp add: extends_def)

lemma extends_onLaneSets [simp]: "extends s (onLaneSets g x) = extends s x"
  by (simp add: extends_def)

lemma extends_scheduleCallback [simp]:
  "extends s x \<Longrightarrow> extends s (snd (scheduleCallback cfg level cb x))"
  by (simp add: scheduleCallback_def)

lemma extends_cancelCallback [simp]: "extends s x \<Longrightarrow> extends s (cancelCallback cfg node x)"
  by (simp add: cancelCallback_def split: callbackNode.splits)

lemma extends_scheduleSyncCallback [simp]:
  "extends s (scheduleSyncCallback cb x) = extends s x"
  by (simp add: extends_def)

lemma extends_scheduleLegacySyncCallback [simp]:
  "extends s (scheduleLegacySyncCallback cb x) = extends s x"
  by (simp add: extends_def)

lemma extends_flushSyncCallbacks [simp]: "extends s x \<Longrightarrow> extends s (flushSyncCallbacks x)"
  by (simp add: flushSyncCallbacks_def Let_def split: option.splits)

lemma extends_countNestedUpdate [simp]: "extends s (countNestedUpdate x) = extends s x"
  by (simp add: extends_def)

lemma extends_markRootSuspended [simp]: "extends s (markRootSuspended cfg lanes x) = extends s x"
  by (simp add: extends_def)

lemma extends_onUncaughtError [simp]: "extends s (onUncaughtError e x) = extends s x"
  by (simp add: extends_def)





lemma keeps_trans: "keeps s s1 \<Longrightarrow> keeps s1 s2 \<Longrightarrow> keeps s s2"
  by (auto simp: keeps_def intro: extends_trans)

lemma keeps_extends: "keeps s s' \<Longrightarrow> extends s s'"
  by (simp add: keeps_def)

lemma extends_ensureRootIsScheduled [simp]:
  "extends s x \<Longrightarrow> extends s (ensureRootIsScheduled cfg currentTime x)"
  by (simp add: ensureRootIsScheduled_def Let_def split: option.splits EventPriority.splits)

lemma ensureRootIsScheduled_frame [simp]:
  "rootRef (root (ensureRootIsScheduled cfg currentTime s)) = rootRef (root s)"
  "rootTag (root (ensureRootIsScheduled cfg currentTime s)) = rootTag (root s)"
  "current (root (ensureRootIsScheduled cfg currentTime s)) = current (root s)"
  "alternate (root (ensureRootIsScheduled cfg currentTime s)) = alternate (root s)"
  "finishedWork (root (ensureRootIsScheduled cfg currentTime s)) = finishedWork (root s)"
  "finishedLanes (root (ensureRootIsScheduled cfg currentTime s)) = finishedLanes (root s)"
  "timeoutHandle (root (ensureRootIsScheduled cfg currentTime s)) = timeoutHandle (root s)"
  "executionContext (ensureRootIsScheduled cfg currentTime s) = executionContext s"
  "workInProgressRoot (ensureRootIsScheduled cfg currentTime s) = workInProgressRoot s"
  "workInProgress (ensureRootIsScheduled cfg currentTime s) = workInProgress s"
  "workInProgressRootRenderLanes (ensureRootIsScheduled cfg currentTime s) = workInProgressRootRenderLanes s"
  "workInProgressRootExitStatus (ensureRootIsScheduled cfg currentTime s) = workInProgressRootExitStatus s"
  "workInProgressRootFatalError (ensureRootIsScheduled cfg currentTime s) = workInProgressRootFatalError s"
  "workInProgressRootSkippedLanes (ensureRootIsScheduled cfg currentTime s) = workInProgressRootSkippedLanes s"
  "workInProgressRootInterleavedUpdatedLanes (ensureRootIsScheduled cfg currentTime s) = workInProgressRootInterleavedUpdatedLanes s"
  "workInProgressRootRenderPhaseUpdatedLanes (ensureRootIsScheduled cfg currentTime s) = workInProgressRootRenderPhaseUpdatedLanes s"
  "workInProgressRootPingedLanes (ensureRootIsScheduled cfg currentTime s) = workInProgressRootPingedLanes s"
  "workInProgressRootConcurrentErrors (ensureRootIsScheduled cfg currentTime s) = workInProgressRootConcurrentErrors s"
  "workInProgressRootRecoverableErrors (ensureRootIsScheduled cfg currentTime s) = workInProgressRootRecoverableErrors s"
  "globalMostRecentFallbackTime (ensureRootIsScheduled cfg currentTime s) = globalMostRecentFallbackTime s"
  "workInProgressTransitions (ensureRootIsScheduled cfg currentTime s) = workInProgressTransitions s"
  "hasUncaughtError (ensureRootIsScheduled cfg currentTime s) = hasUncaughtError s"
  "firstUncaughtError (ensureRootIsScheduled cfg currentTime s) = firstUncaughtError s"
  "legacyErrorBoundariesThatAlreadyFailed (ensureRootIsScheduled cfg currentTime s) = legacyErrorBoundariesThatAlreadyFailed s"
  "rootDoesHavePassiveEffects (ensureRootIsScheduled cfg currentTime s) = rootDoesHavePassiveEffects s"
  "rootWithPendingPassiveEffects (ensureRootIsScheduled cfg currentTime s) = rootWithPendingPassiveEffects s"
  "pendingPassiveEffectsLanes (ensureRootIsScheduled cfg currentTime s) = pendingPassiveEffectsLanes s"
  "pendingPassiveEffectsRemainingLanes (ensureRootIsScheduled cfg currentTime s) = pendingPassiveEffectsRemainingLanes s"
  "pendingPassiveTransitions (ensureRootIsScheduled cfg currentTime s) = pendingPassiveTransitions s"
  "nestedUpdateCount (ensureRootIsScheduled cfg currentTime s) = nestedUpdateCount s"
  "rootWithNestedUpdates (ensureRootIsScheduled cfg currentTime s) = rootWithNestedUpdates s"
  "isFlushingPassiveEffects (ensureRootIsScheduled cfg currentTime s) = isFlushingPassiveEffects s"
  "didScheduleUpdateDuringPassiveEffects (ensureRootIsScheduled cfg currentTime s) = didScheduleUpdateDuringPassiveEffects s"
  "nestedPassiveUpdateCount (ensureRootIsScheduled cfg currentTime s) = nestedPassiveUpdateCount s"
  "rootWithPassiveNestedUpdates (ensureRootIsScheduled cfg currentTime s) = rootWithPassiveNestedUpdates s"
  "currentEventTime (ensureRootIsScheduled cfg currentTime s) = currentEventTime s"
  "currentEventTransitionLane (ensureRootIsScheduled cfg currentTime s) = currentEventTransitionLane s"
  "currentUpdatePriority (ensureRootIsScheduled cfg currentTime s) = currentUpdatePriority s"
  "transition (ensureRootIsScheduled cfg currentTime s) = transition s"
  "isFlushingSyncQueue (ensureRootIsScheduled cfg currentTime s) = isFlushingSyncQueue s"
  "now (ensureRootIsScheduled cfg currentTime s) = now s"
  "walks (ensureRootIsScheduled cfg currentTime s) = walks s"
  by (simp_all add: ensureRootIsScheduled_def Let_def split: option.splits EventPriority.splits)

lemma extends_flushPassiveEffectsImpl [simp]:
  "extends s x \<Longrightarrow> extends s (stateOf (flushPassiveEffectsImpl cfg x))"
  by (simp add: flushPassiveEffectsImpl_def Let_def split: option.splits)

lemma flushPassiveEffectsImpl_frame [simp]:
  "root (stateOf (flushPassiveEffectsImpl cfg s)) = root s"
  "executionContext (stateOf (flushPassiveEffectsImpl cfg s)) = executionContext s"
  "workInProgressRoot (stateOf (flushPassiveEffectsImpl cfg s)) = workInProgressRoot s"
  "workInProgress (stateOf (flushPassiveEffectsImpl cfg s)) = workInProgress s"
  "workInProgressRootRenderLanes (stateOf (flushPassiveEffectsImpl cfg s)) = workInProgressRootRenderLanes s"
  "workInProgressRootExitStatus (stateOf (flushPassiveEffectsImpl cfg s)) = workInProgressRootExitStatus s"
  "workInProgressRootFatalError (stateOf (flushPassiveEffectsImpl cfg s)) = workInProgressRootFatalError s"
  "workInProgressRootSkippedLanes (stateOf (flushPassiveEffectsImpl cfg s)) = workInProgressRootSkippedLanes s"
  "workInProgressRootInterleavedUpdatedLanes (stateOf (flushPassiveEffectsImpl cfg s)) = workInProgressRootInterleavedUpdatedLanes s"
  "workInProgressRootRenderPhaseUpdatedLanes (stateOf (flushPassiveEffectsImpl cfg s)) = workInProgressRootRenderPhaseUpdatedLanes s"
  "workInProgressRootPingedLanes (stateOf (flushPassiveEffectsImpl cfg s)) = workInProgressRootPingedLanes s"
  "workInProgressRootConcurrentErrors (stateOf (flushPassiveEffectsImpl cfg s)) = workInProgressRootConcurrentErrors s"
  "workInProgressRootRecoverableErrors (stateOf (flushPassiveEffectsImpl cfg s)) = workInProgressRootRecoverableErrors s"
  "globalMostRecentFallbackTime (stateOf (flushPassiveEffectsImpl cfg s)) = globalMostRecentFallbackTime s"
  "workInProgressTransitions (stateOf (flushPassiveEffectsImpl cfg s)) = workInProgressTransitions s"
  "hasUncaughtError (stateOf (flushPassiveEffectsImpl cfg s)) = hasUncaughtError s"
  "firstUncaughtError (stateOf (flushPassiveEffectsImpl cfg s)) = firstUncaughtError s"
  "legacyErrorBoundariesThatAlreadyFailed (stateOf (flushPassiveEffectsImpl cfg s)) = legacyErrorBoundariesThatAlreadyFailed s"
  "rootDoesHavePassiveEffects (stateOf (flushPassiveEffectsImpl cfg s)) = rootDoesHavePassiveEffects s"
  "pendingPassiveEffectsRemainingLanes (stateOf (flushPassiveEffectsImpl cfg s)) = pendingPassiveEffectsRemainingLanes s"
  "nestedUpdateCount (stateOf (flushPassiveEffectsImpl cfg s)) = nestedUpdateCount s"
  "rootWithNestedUpdates (stateOf (flushPassiveEffectsImpl cfg s)) = rootWithNestedUpdates s"
  "currentEventTime (stateOf (flushPassiveEffectsImpl cfg s)) = currentEventTime s"
  "currentEventTransitionLane (stateOf (flushPassiveEffectsImpl cfg s)) = currentEventTransitionLane s"
  "currentUpdatePriority (stateOf (flushPassiveEffectsImpl cfg s)) = currentUpdatePriority s"
  "transition (stateOf (flushPassiveEffectsImpl cfg s)) = transition s"
  "isFlushingSyncQueue (stateOf (flushPassiveEffectsImpl cfg s)) = isFlushingSyncQueue s"
  "now (stateOf (flushPassiveEffectsImpl cfg s)) = now s"
  "walks (stateOf (flushPassiveEffectsImpl cfg s)) = walks s"
  "handles (stateOf (flushPassiveEffectsImpl cfg s)) = handles s"
  by (simp_all add: flushPassiveEffectsImpl_def Let_def split: option.splits)

lemma stateOf_flushPassiveEffects:
  "stateOf (flushPassiveEffects cfg s) =
     (if rootWithPendingPassiveEffects s \<noteq> None then
        (stateOf (flushPassiveEffectsImpl cfg
           (s\<lparr>pendingPassiveEffectsRemainingLanes := NoLanes, transition := None,
              currentUpdatePriority := lowerEventPriority cfg DefaultEventPriority
                (lanesToEventPriority cfg (pendingPassiveEffectsLanes s))\<rparr>)))
        \<lparr>currentUpdatePriority := currentUpdatePriority s, transition := transition s\<rparr>
      else s)"
  by (simp add: flushPassiveEffects_def Let_def split: completion.splits)

lemma extends_flushPassiveEffects [simp]:
  "extends s x \<Longrightarrow> extends s (stateOf (flushPassiveEffects cfg x))"
  by (simp add: stateOf_flushPassiveEffects)

lemma flushPassiveEffects_frame [simp]:
  "root (stateOf (flushPassiveEffects cfg s)) = root s"
  "executionContext (stateOf (flushPassiveEffects cfg s)) = executionContext s"
  "workInProgressRoot (stateOf (flushPassiveEffects cfg s)) = workInProgressRoot s"
  "workInProgress (stateOf (flushPassiveEffects cfg s)) = workInProgress s"
  "workInProgressRootRenderLanes (stateOf (flushPassiveEffects cfg s)) = workInProgressRootRenderLanes s"
  "workInProgressRootExitStatus (stateOf (flushPassiveEffects cfg s)) = workInProgressRootExitStatus s"
  "workInProgressRootFatalError (stateOf (flushPassiveEffects cfg s)) = workInProgressRootFatalError s"
  "workInProgressRootSkippedLanes (stateOf (flushPassiveEffects cfg s)) = workInProgressRootSkippedLanes s"
  "workInProgressRootInterleavedUpdatedLanes (stateOf (flushPassiveEffects cfg s)) = workInProgressRootInterleavedUpdatedLanes s"
  "workInProgressRootRenderPhaseUpdatedLanes (stateOf (flushPassiveEffects cfg s)) = workInProgressRootRenderPhaseUpdatedLanes s"
  "workInProgressRootPingedLanes (stateOf (flushPassiveEffects cfg s)) = workInProgressRootPingedLanes s"
  "workInProgressRootConcurrentErrors (stateOf (flushPassiveEffects cfg s)) = workInProgressRootConcurrentErrors s"
  "workInProgressRootRecoverableErrors (stateOf (flushPassiveEffects cfg s)) = workInProgressRootRecoverableErrors s"
  "globalMostRecentFallbackTime (stateOf (flushPassiveEffects cfg s)) = globalMostRecentFallbackTime s"
  "workInProgressTransitions (stateOf (flushPassiveEffects cfg s)) = workInProgressTransitions s"
  "hasUncaughtError (stateOf (flushPassiveEffects cfg s)) = hasUncaughtError s"
  "firstUncaughtError (stateOf (flushPassiveEffects cfg s)) = firstUncaughtError s"
  "legacyErrorBoundariesThatAlreadyFailed (stateOf (flushPassiveEffects cfg s)) = legacyErrorBoundariesThatAlreadyFailed s"
  "rootDoesHavePassiveEffects (stateOf (flushPassiveEffects cfg s)) = rootDoesHavePassiveEffects s"
  "nestedUpdateCount (stateOf (flushPassiveEffects cfg s)) = nestedUpdateCount s"
  "rootWithNestedUpdates (stateOf (flushPassiveEffects cfg s)) = rootWithNestedUpdates s"
  "currentEventTime (stateOf (flushPassiveEffects cfg s)) = currentEventTime s"
  "currentEventTransitionLane (stateOf (flushPassiveEffects cfg s)) = currentEventTransitionLane s"
  "currentUpdatePriority (stateOf (flushPassiveEffects cfg s)) = currentUpdatePriority s"
  "transition (stateOf (flushPassiveEffects cfg s)) = transition s"
  "isFlushingSyncQueue (stateOf (flushPassiveEffects cfg s)) = isFlushingSyncQueue s"
  "now (stateOf (flushPassiveEffects cfg s)) = now s"
  "walks (stateOf (flushPassiveEffects cfg s)) = walks s"
  "handles (stateOf (flushPassiveEffects cfg s)) = handles s"
  by (simp_all add: stateOf_flushPassiveEffects)

lemma stateOf_flushPendingPassiveEffects:
  "stateOf (flushPendingPassiveEffects cfg s) = stateOf (flushPassiveEffects cfg s)"
proof (cases "flushPassiveEffects cfg s")
  case (Normal b s1)
  with flushPassiveEffects_pending [OF Normal] show ?thesis
    by (simp add: flushPendingPassiveEffects.simps)
next
  case (Abrupt e s1)
  then show ?thesis by (simp add: flushPendingPassiveEffects.simps)
qed

lemma flushPendingPassiveEffects_none:
  "rootWithPendingPassiveEffects s = None \<Longrightarrow> flushPendingPassiveEffects cfg s = Normal () s"
  by (simp add: flushPendingPassiveEffects.simps flushPassiveEffects_def)

lemma extends_flushPendingPassiveEffects [simp]:
  "extends s x \<Longrightarrow> extends s (stateOf (flushPendingPassiveEffects cfg x))"
  by (simp add: stateOf_flushPendingPassiveEffects)

lemma flushPendingPassiveEffects_frame [simp]:
  "root (stateOf (flushPendingPassiveEffects cfg s)) = root s"
  "executionContext (stateOf (flushPendingPassiveEffects cfg s)) = executionContext s"
  "workInProgressRoot (stateOf (flushPendingPassiveEffects cfg s)) = workInProgressRoot s"
  "workInProgress (stateOf (flushPendingPassiveEffects cfg s)) = workInProgress s"
  "workInProgressRootRenderLanes (stateOf (flushPendingPassiveEffects cfg s)) = workInProgressRootRenderLanes s"
  "workInProgressRootExitStatus (stateOf (flushPendingPassiveEffects cfg s)) = workInProgressRootExitStatus s"
  "workInProgressRootFatalError (stateOf (flushPendingPassiveEffects cfg s)) = workInProgressRootFatalError s"
  "workInProgressRootSkippedLanes (stateOf (flushPendingPassiveEffects cfg s)) = workInProgressRootSkippedLanes s"
  "workInProgressRootInterleavedUpdatedLanes (stateOf (flushPendingPassiveEffects cfg s)) = workInProgressRootInterleavedUpdatedLanes s"
  "workInProgressRootRenderPhaseUpdatedLanes (stateOf (flushPendingPassiveEffects cfg s)) = workInProgressRootRenderPhaseUpdatedLanes s"
  "workInProgressRootPingedLanes (stateOf (flushPendingPassiveEffects cfg s)) = workInProgressRootPingedLanes s"
  "workInProgressRootConcurrentErrors (stateOf (flushPendingPassiveEffects cfg s)) = workInProgressRootConcurrentErrors s"
  "workInProgressRootRecoverableErrors (stateOf (flushPendingPassiveEffects cfg s)) = workInProgressRootRecoverableErrors s"
  "globalMostRecentFallbackTime (stateOf (flushPendingPassiveEffects cfg s)) = globalMostRecentFallbackTime s"
  "workInProgressTransitions (stateOf (flushPendingPassiveEffects cfg s)) = workInProgressTransitions s"
  "hasUncaughtError (stateOf (flushPendingPassiveEffects cfg s)) = hasUncaughtError s"
  "firstUncaughtError (stateOf (flushPendingPassiveEffects cfg s)) = firstUncaughtError s"
  "legacyErrorBoundariesThatAlreadyFailed (stateOf (flushPendingPassiveEffects cfg s)) = legacyErrorBoundariesThatAlreadyFailed s"
  "rootDoesHavePassiveEffects (stateOf (flushPendingPassiveEffects cfg s)) = rootDoesHavePassiveEffects s"
  "nestedUpdateCount (stateOf (flushPendingPassiveEffects cfg s)) = nestedUpdateCount s"
  "rootWithNestedUpdates (stateOf (flushPendingPassiveEffects cfg s)) = rootWithNestedUpdates s"
  "currentEventTime (stateOf (flushPendingPassiveEffects cfg s)) = currentEventTime s"
  "currentEventTransitionLane (stateOf (flushPendingPassiveEffects cfg s)) = currentEventTransitionLane s"
  "currentUpdatePriority (stateOf (flushPendingPassiveEffects cfg s)) = currentUpdatePriority s"
  "transition (stateOf (flushPendingPassiveEffects cfg s)) = transition s"
  "isFlushingSyncQueue (stateOf (flushPendingPassiveEffects cfg s)) = isFlushingSyncQueue s"
  "now (stateOf (flushPendingPassiveEffects cfg s)) = now s"
  "walks (stateOf (flushPendingPassiveEffects cfg s)) = walks s"
  "handles (stateOf (flushPendingPassiveEffects cfg s)) = handles s"
  by (simp_all add: stateOf_flushPendingPassiveEffects)

lemma extends_commitRootImpl_prepare [simp]:
  "extends s x \<Longrightarrow> extends s (commitRootImpl_prepare cfg fw transitions x)"
  by (simp add: commitRootImpl_prepare_def Let_def)

lemma commitRootImpl_prepare_frame [simp]:
  "rootRef (root (commitRootImpl_prepare cfg fw transitions s)) = rootRef (root s)"
  "rootTag (root (commitRootImpl_prepare cfg fw transitions s)) = rootTag (root s)"
  "current (root (commitRootImpl_prepare cfg fw transitions s)) = current (root s)"
  "alternate (root (commitRootImpl_prepare cfg fw transitions s)) = alternate (root s)"
  "finishedWork (root (commitRootImpl_prepare cfg fw transitions s)) = finishedWork (root s)"
  "finishedLanes (root (commitRootImpl_prepare cfg fw transitions s)) = finishedLanes (root s)"
  "timeoutHandle (root (commitRootImpl_prepare cfg fw transitions s)) = timeoutHandle (root s)"
  "executionContext (commitRootImpl_prepare cfg fw transitions s) = executionContext s"
  "workInProgressRootExitStatus (commitRootImpl_prepare cfg fw transitions s) = workInProgressRootExitStatus s"
  "workInProgressRootFatalError (commitRootImpl_prepare cfg fw transitions s) = workInProgressRootFatalError s"
  "workInProgressRootSkippedLanes (commitRootImpl_prepare cfg fw transitions s) = workInProgressRootSkippedLanes s"
  "workInProgressRootInterleavedUpdatedLanes (commitRootImpl_prepare cfg fw transitions s) = workInProgressRootInterleavedUpdatedLanes s"
  "workInProgressRootRenderPhaseUpdatedLanes (commitRootImpl_prepare cfg fw transitions s) = workInProgressRootRenderPhaseUpdatedLanes s"
  "workInProgressRootPingedLanes (commitRootImpl_prepare cfg fw transitions s) = workInProgressRootPingedLanes s"
  "workInProgressRootConcurrentErrors (commitRootImpl_prepare cfg fw transitions s) = workInProgressRootConcurrentErrors s"
  "workInProgressRootRecoverableErrors (commitRootImpl_prepare cfg fw transitions s) = workInProgressRootRecoverableErrors s"
  "globalMostRecentFallbackTime (commitRootImpl_prepare cfg fw transitions s) = globalMostRecentFallbackTime s"
  "workInProgressTransitions (commitRootImpl_prepare cfg fw transitions s) = workInProgressTransitions s"
  "hasUncaughtError (commitRootImpl_prepare cfg fw transitions s) = hasUncaughtError s"
  "firstUncaughtError (commitRootImpl_prepare cfg fw transitions s) = firstUncaughtError s"
  "legacyErrorBoundariesThatAlreadyFailed (commitRootImpl_prepare cfg fw transitions s) = legacyErrorBoundariesThatAlreadyFailed s"
  "rootWithPendingPassiveEffects (commitRootImpl_prepare cfg fw transitions s) = rootWithPendingPassiveEffects s"
  "pendingPassiveEffectsLanes (commitRootImpl_prepare cfg fw transitions s) = pendingPassiveEffectsLanes s"
  "nestedUpdateCount (commitRootImpl_prepare cfg fw transitions s) = nestedUpdateCount s"
  "rootWithNestedUpdates (commitRootImpl_prepare cfg fw transitions s) = rootWithNestedUpdates s"
  "isFlushingPassiveEffects (commitRootImpl_prepare cfg fw transitions s) = isFlushingPassiveEffects s"
  "didScheduleUpdateDuringPassiveEffects (commitRootImpl_prepare cfg fw transitions s) = didScheduleUpdateDuringPassiveEffects s"
  "nestedPassiveUpdateCount (commitRootImpl_prepare cfg fw transitions s) = nestedPassiveUpdateCount s"
  "rootWithPassiveNestedUpdates (commitRootImpl_prepare cfg fw transitions s) = rootWithPassiveNestedUpdates s"
  "currentEventTime (commitRootImpl_prepare cfg fw transitions s) = currentEventTime s"
  "currentEventTransitionLane (commitRootImpl_prepare cfg fw transitions s) = currentEventTransitionLane s"
  "currentUpdatePriority (commitRootImpl_prepare cfg fw transitions s) = currentUpdatePriority s"
  "transition (commitRootImpl_prepare cfg fw transitions s) = transition s"
  "syncQueue (commitRootImpl_prepare cfg fw transitions s) = syncQueue s"
  "includesLegacySyncCallbacks (commitRootImpl_prepare cfg fw transitions s) = includesLegacySyncCallbacks s"
  "isFlushingSyncQueue (commitRootImpl_prepare cfg fw transitions s) = isFlushingSyncQueue s"
  "now (commitRootImpl_prepare cfg fw transitions s) = now s"
  "walks (commitRootImpl_prepare cfg fw transitions s) = walks s"
  by (simp_all add: commitRootImpl_prepare_def Let_def)

lemma commitRootImpl_effects_frame [simp]:
  "rootRef (root (commitRootImpl_effects cfg fw s)) = rootRef (root s)"
  "rootTag (root (commitRootImpl_effects cfg fw s)) = rootTag (root s)"
  "finishedWork (root (commitRootImpl_effects cfg fw s)) = finishedWork (root s)"
  "finishedLanes (root (commitRootImpl_effects cfg fw s)) = finishedLanes (root s)"
  "callbackNode (root (commitRootImpl_effects cfg fw s)) = callbackNode (root s)"
  "callbackPriority (root (commitRootImpl_effects cfg fw s)) = callbackPriority (root s)"
  "timeoutHandle (root (commitRootImpl_effects cfg fw s)) = timeoutHandle (root s)"
  "laneSets (root (commitRootImpl_effects cfg fw s)) = laneSets (root s)"
  "executionContext (commitRootImpl_effects cfg fw s) = executionContext s"
  "workInProgressRoot (commitRootImpl_effects cfg fw s) = workInProgressRoot s"
  "workInProgress (commitRootImpl_effects cfg fw s) = workInProgress s"
  "workInProgressRootRenderLanes (commitRootImpl_effects cfg fw s) = workInProgressRootRenderLanes s"
  "workInProgressRootExitStatus (commitRootImpl_effects cfg fw s) = workInProgressRootExitStatus s"
  "workInProgressRootFatalError (commitRootImpl_effects cfg fw s) = workInProgressRootFatalError s"
  "workInProgressRootSkippedLanes (commitRootImpl_effects cfg fw s) = workInProgressRootSkippedLanes s"
  "workInProgressRootInterleavedUpdatedLanes (commitRootImpl_effects cfg fw s) = workInProgressRootInterleavedUpdatedLanes s"
  "workInProgressRootRenderPhaseUpdatedLanes (commitRootImpl_effects cfg fw s) = workInProgressRootRenderPhaseUpdatedLanes s"
  "workInProgressRootPingedLanes (commitRootImpl_effects cfg fw s) = workInProgressRootPingedLanes s"
  "workInProgressRootConcurrentErrors (commitRootImpl_effects cfg fw s) = workInProgressRootConcurrentErrors s"
  "workInProgressRootRecoverableErrors (commitRootImpl_effects cfg fw s) = workInProgressRootRecoverableErrors s"
  "globalMostRecentFallbackTime (commitRootImpl_effects cfg fw s) = globalMostRecentFallbackTime s"
  "workInProgressTransitions (commitRootImpl_effects cfg fw s) = workInProgressTransitions s"
  "legacyErrorBoundariesThatAlreadyFailed (commitRootImpl_effects cfg fw s) = legacyErrorBoundariesThatAlreadyFailed s"
  "rootDoesHavePassiveEffects (commitRootImpl_effects cfg fw s) = rootDoesHavePassiveEffects s"
  "rootWithPendingPassiveEffects (commitRootImpl_effects cfg fw s) = rootWithPendingPassiveEffects s"
  "pendingPassiveEffectsLanes (commitRootImpl_effects cfg fw s) = pendingPassiveEffectsLanes s"
  "pendingPassiveEffectsRemainingLanes (commitRootImpl_effects cfg fw s) = pendingPassiveEffectsRemainingLanes s"
  "pendingPassiveTransitions (commitRootImpl_effects cfg fw s) = pendingPassiveTransitions s"
  "nestedUpdateCount (commitRootImpl_effects cfg fw s) = nestedUpdateCount s"
  "rootWithNestedUpdates (commitRootImpl_effects cfg fw s) = rootWithNestedUpdates s"
  "isFlushingPassiveEffects (commitRootImpl_effects cfg fw s) = isFlushingPassiveEffects s"
  "didScheduleUpdateDuringPassiveEffects (commitRootImpl_effects cfg fw s) = didScheduleUpdateDuringPassiveEffects s"
  "nestedPassiveUpdateCount (commitRootImpl_effects cfg fw s) = nestedPassiveUpdateCount s"
  "rootWithPassiveNestedUpdates (commitRootImpl_effects cfg fw s) = rootWithPassiveNestedUpdates s"
  "currentEventTime (commitRootImpl_effects cfg fw s) = currentEventTime s"
  "currentEventTransitionLane (commitRootImpl_effects cfg fw s) = currentEventTransitionLane s"
  "currentUpdatePriority (commitRootImpl_effects cfg fw s) = currentUpdatePriority s"
  "transition (commitRootImpl_effects cfg fw s) = transition s"
  "syncQueue (commitRootImpl_effects cfg fw s) = syncQueue s"
  "includesLegacySyncCallbacks (commitRootImpl_effects cfg fw s) = includesLegacySyncCallbacks s"
  "isFlushingSyncQueue (commitRootImpl_effects cfg fw s) = isFlushingSyncQueue s"
  "now (commitRootImpl_effects cfg fw s) = now s"
  "walks (commitRootImpl_effects cfg fw s) = walks s"
  "handles (commitRootImpl_effects cfg fw s) = handles s"
  by (simp_all add: commitRootImpl_effects_def Let_def)

subsection \<open>Facts about the commit phase\<close>











lemma root_commitRootImpl_effects [simp]:
  "current (root (commitRootImpl_effects cfg fw s)) = fw"
  "alternate (root (commitRootImpl_effects cfg fw s)) = Some (current (root s))"
  by (simp_all add: commitRootImpl_effects_def Let_def setCurrent_def)






lemma trace_reportRecoverableErrors [simp]:
  "trace (reportRecoverableErrors errs s) = trace s @ map OnRecoverableError (errorsOf errs)"
  by (cases errs) (simp_all add: reportRecoverableErrors_def)



















text \<open>The definitions that evaluate a commit on a given state.\<close>

lemmas commit_defs =
  commitRoot_def commitRootImpl_def commitRootImpl_prepare_def commitRootImpl_effects_def
  commitRootImpl_finish_def ensureRootIsScheduled_def reportRecoverableErrors_def
  countNestedUpdate_def flushSyncCallbacks_def setCurrent_def commitLayoutEffects_def
  commitBeforeMutationEffects_def commitMutationEffects_def cancelCallback_def
  scheduleCallback_def scheduleSyncCallback_def scheduleLegacySyncCallback_def
  includesSomeLane_def mergeLanes_def removeLanes_def SyncLane_def NoLane_def NoLanes_def
  NoFlags_def Let_def onLaneSets_def onRoot_def emit_def


subsection \<open>What a render leaves as it is\<close>

lemma createWorkInProgress_frame [simp]:
  "rootRef (root (createWorkInProgress s)) = rootRef (root s)"
  "rootTag (root (createWorkInProgress s)) = rootTag (root s)"
  "current (root (createWorkInProgress s)) = current (root s)"
  "finishedWork (root (createWorkInProgress s)) = finishedWork (root s)"
  "finishedLanes (root (createWorkInProgress s)) = finishedLanes (root s)"
  "callbackNode (root (createWorkInProgress s)) = callbackNode (root s)"
  "callbackPriority (root (createWorkInProgress s)) = callbackPriority (root s)"
  "timeoutHandle (root (createWorkInProgress s)) = timeoutHandle (root s)"
  "laneSets (root (createWorkInProgress s)) = laneSets (root s)"
  "executionContext (createWorkInProgress s) = executionContext s"
  "workInProgressRoot (createWorkInProgress s) = workInProgressRoot s"
  "workInProgress (createWorkInProgress s) = workInProgress s"
  "workInProgressRootRenderLanes (createWorkInProgress s) = workInProgressRootRenderLanes s"
  "workInProgressRootExitStatus (createWorkInProgress s) = workInProgressRootExitStatus s"
  "workInProgressRootFatalError (createWorkInProgress s) = workInProgressRootFatalError s"
  "workInProgressRootSkippedLanes (createWorkInProgress s) = workInProgressRootSkippedLanes s"
  "workInProgressRootInterleavedUpdatedLanes (createWorkInProgress s) = workInProgressRootInterleavedUpdatedLanes s"
  "workInProgressRootRenderPhaseUpdatedLanes (createWorkInProgress s) = workInProgressRootRenderPhaseUpdatedLanes s"
  "workInProgressRootPingedLanes (createWorkInProgress s) = workInProgressRootPingedLanes s"
  "workInProgressRootConcurrentErrors (createWorkInProgress s) = workInProgressRootConcurrentErrors s"
  "workInProgressRootRecoverableErrors (createWorkInProgress s) = workInProgressRootRecoverableErrors s"
  "globalMostRecentFallbackTime (createWorkInProgress s) = globalMostRecentFallbackTime s"
  "workInProgressTransitions (createWorkInProgress s) = workInProgressTransitions s"
  "hasUncaughtError (createWorkInProgress s) = hasUncaughtError s"
  "firstUncaughtError (createWorkInProgress s) = firstUncaughtError s"
  "legacyErrorBoundariesThatAlreadyFailed (createWorkInProgress s) = legacyErrorBoundariesThatAlreadyFailed s"
  "rootDoesHavePassiveEffects (createWorkInProgress s) = rootDoesHavePassiveEffects s"
  "rootWithPendingPassiveEffects (createWorkInProgress s) = rootWithPendingPassiveEffects s"
  "pendingPassiveEffectsLanes (createWorkInProgress s) = pendingPassiveEffectsLanes s"
  "pendingPassiveEffectsRemainingLanes (createWorkInProgress s) = pendingPassiveEffectsRemainingLanes s"
  "pendingPassiveTransitions (createWorkInProgress s) = pendingPassiveTransitions s"
  "nestedUpdateCount (createWorkInProgress s) = nestedUpdateCount s"
  "rootWithNestedUpdates (createWorkInProgress s) = rootWithNestedUpdates s"
  "isFlushingPassiveEffects (createWorkInProgress s) = isFlushingPassiveEffects s"
  "didScheduleUpdateDuringPassiveEffects (createWorkInProgress s) = didScheduleUpdateDuringPassiveEffects s"
  "nestedPassiveUpdateCount (createWorkInProgress s) = nestedPassiveUpdateCount s"
  "rootWithPassiveNestedUpdates (createWorkInProgress s) = rootWithPassiveNestedUpdates s"
  "currentEventTime (createWorkInProgress s) = currentEventTime s"
  "currentEventTransitionLane (createWorkInProgress s) = currentEventTransitionLane s"
  "currentUpdatePriority (createWorkInProgress s) = currentUpdatePriority s"
  "transition (createWorkInProgress s) = transition s"
  "syncQueue (createWorkInProgress s) = syncQueue s"
  "includesLegacySyncCallbacks (createWorkInProgress s) = includesLegacySyncCallbacks s"
  "isFlushingSyncQueue (createWorkInProgress s) = isFlushingSyncQueue s"
  "now (createWorkInProgress s) = now s"
  "walks (createWorkInProgress s) = walks s"
  "handles (createWorkInProgress s) = handles s"
  "trace (createWorkInProgress s) = trace s"
  by (simp_all add: createWorkInProgress_def Let_def)

lemma extends_createWorkInProgress [simp]: "extends s (createWorkInProgress x) = extends s x"
  by (simp add: extends_def)

lemma extends_prepareFreshStack [simp]:
  "extends s x \<Longrightarrow> extends s (prepareFreshStack cfg lanes x)"
  by (simp add: prepareFreshStack_def Let_def split: option.splits)

lemma prepareFreshStack_frame [simp]:
  "rootRef (root (prepareFreshStack cfg lanes s)) = rootRef (root s)"
  "rootTag (root (prepareFreshStack cfg lanes s)) = rootTag (root s)"
  "current (root (prepareFreshStack cfg lanes s)) = current (root s)"
  "callbackNode (root (prepareFreshStack cfg lanes s)) = callbackNode (root s)"
  "callbackPriority (root (prepareFreshStack cfg lanes s)) = callbackPriority (root s)"
  "laneSets (root (prepareFreshStack cfg lanes s)) = laneSets (root s)"
  "executionContext (prepareFreshStack cfg lanes s) = executionContext s"
  "globalMostRecentFallbackTime (prepareFreshStack cfg lanes s) = globalMostRecentFallbackTime s"
  "workInProgressTransitions (prepareFreshStack cfg lanes s) = workInProgressTransitions s"
  "hasUncaughtError (prepareFreshStack cfg lanes s) = hasUncaughtError s"
  "firstUncaughtError (prepareFreshStack cfg lanes s) = firstUncaughtError s"
  "legacyErrorBoundariesThatAlreadyFailed (prepareFreshStack cfg lanes s) = legacyErrorBoundariesThatAlreadyFailed s"
  "rootDoesHavePassiveEffects (prepareFreshStack cfg lanes s) = rootDoesHavePassiveEffects s"
  "rootWithPendingPassiveEffects (prepareFreshStack cfg lanes s) = rootWithPendingPassiveEffects s"
  "pendingPassiveEffectsLanes (prepareFreshStack cfg lanes s) = pendingPassiveEffectsLanes s"
  "pendingPassiveEffectsRemainingLanes (prepareFreshStack cfg lanes s) = pendingPassiveEffectsRemainingLanes s"
  "pendingPassiveTransitions (prepareFreshStack cfg lanes s) = pendingPassiveTransitions s"
  "nestedUpdateCount (prepareFreshStack cfg lanes s) = nestedUpdateCount s"
  "rootWithNestedUpdates (prepareFreshStack cfg lanes s) = rootWithNestedUpdates s"
  "isFlushingPassiveEffects (prepareFreshStack cfg lanes s) = isFlushingPassiveEffects s"
  "didScheduleUpdateDuringPassiveEffects (prepareFreshStack cfg lanes s) = didScheduleUpdateDuringPassiveEffects s"
  "nestedPassiveUpdateCount (prepareFreshStack cfg lanes s) = nestedPassiveUpdateCount s"
  "rootWithPassiveNestedUpdates (prepareFreshStack cfg lanes s) = rootWithPassiveNestedUpdates s"
  "currentEventTime (prepareFreshStack cfg lanes s) = currentEventTime s"
  "currentEventTransitionLane (prepareFreshStack cfg lanes s) = currentEventTransitionLane s"
  "currentUpdatePriority (prepareFreshStack cfg lanes s) = currentUpdatePriority s"
  "transition (prepareFreshStack cfg lanes s) = transition s"
  "syncQueue (prepareFreshStack cfg lanes s) = syncQueue s"
  "includesLegacySyncCallbacks (prepareFreshStack cfg lanes s) = includesLegacySyncCallbacks s"
  "isFlushingSyncQueue (prepareFreshStack cfg lanes s) = isFlushingSyncQueue s"
  "now (prepareFreshStack cfg lanes s) = now s"
  "walks (prepareFreshStack cfg lanes s) = walks s"
  "handles (prepareFreshStack cfg lanes s) = handles s"
  by (simp_all add: prepareFreshStack_def Let_def split: option.splits)

lemma renderDidSuspend_frame [simp]:
  "root (renderDidSuspend s) = root s"
  "executionContext (renderDidSuspend s) = executionContext s"
  "workInProgressRoot (renderDidSuspend s) = workInProgressRoot s"
  "workInProgress (renderDidSuspend s) = workInProgress s"
  "workInProgressRootRenderLanes (renderDidSuspend s) = workInProgressRootRenderLanes s"
  "workInProgressRootFatalError (renderDidSuspend s) = workInProgressRootFatalError s"
  "workInProgressRootSkippedLanes (renderDidSuspend s) = workInProgressRootSkippedLanes s"
  "workInProgressRootInterleavedUpdatedLanes (renderDidSuspend s) = workInProgressRootInterleavedUpdatedLanes s"
  "workInProgressRootRenderPhaseUpdatedLanes (renderDidSuspend s) = workInProgressRootRenderPhaseUpdatedLanes s"
  "workInProgressRootPingedLanes (renderDidSuspend s) = workInProgressRootPingedLanes s"
  "workInProgressRootConcurrentErrors (renderDidSuspend s) = workInProgressRootConcurrentErrors s"
  "workInProgressRootRecoverableErrors (renderDidSuspend s) = workInProgressRootRecoverableErrors s"
  "globalMostRecentFallbackTime (renderDidSuspend s) = globalMostRecentFallbackTime s"
  "workInProgressTransitions (renderDidSuspend s) = workInProgressTransitions s"
  "hasUncaughtError (renderDidSuspend s) = hasUncaughtError s"
  "firstUncaughtError (renderDidSuspend s) = firstUncaughtError s"
  "legacyErrorBoundariesThatAlreadyFailed (renderDidSuspend s) = legacyErrorBoundariesThatAlreadyFailed s"
  "rootDoesHavePassiveEffects (renderDidSuspend s) = rootDoesHavePassiveEffects s"
  "rootWithPendingPassiveEffects (renderDidSuspend s) = rootWithPendingPassiveEffects s"
  "pendingPassiveEffectsLanes (renderDidSuspend s) = pendingPassiveEffectsLanes s"
  "pendingPassiveEffectsRemainingLanes (renderDidSuspend s) = pendingPassiveEffectsRemainingLanes s"
  "pendingPassiveTransitions (renderDidSuspend s) = pendingPassiveTransitions s"
  "nestedUpdateCount (renderDidSuspend s) = nestedUpdateCount s"
  "rootWithNestedUpdates (renderDidSuspend s) = rootWithNestedUpdates s"
  "isFlushingPassiveEffects (renderDidSuspend s) = isFlushingPassiveEffects s"
  "didScheduleUpdateDuringPassiveEffects (renderDidSuspend s) = didScheduleUpdateDuringPassiveEffects s"
  "nestedPassiveUpdateCount (renderDidSuspend s) = nestedPassiveUpdateCount s"
  "rootWithPassiveNestedUpdates (renderDidSuspend s) = rootWithPassiveNestedUpdates s"
  "currentEventTime (renderDidSuspend s) = currentEventTime s"
  "currentEventTransitionLane (renderDidSuspend s) = currentEventTransitionLane s"
  "currentUpdatePriority (renderDidSuspend s) = currentUpdatePriority s"
  "transition (renderDidSuspend s) = transition s"
  "syncQueue (renderDidSuspend s) = syncQueue s"
  "includesLegacySyncCallbacks (renderDidSuspend s) = includesLegacySyncCallbacks s"
  "isFlushingSyncQueue (renderDidSuspend s) = isFlushingSyncQueue s"
  "now (renderDidSuspend s) = now s"
  "walks (renderDidSuspend s) = walks s"
  "handles (renderDidSuspend s) = handles s"
  "trace (renderDidSuspend s) = trace s"
  by (simp_all add: renderDidSuspend_def)

lemma renderDidSuspendDelayIfPossible_frame [simp]:
  "rootRef (root (renderDidSuspendDelayIfPossible cfg s)) = rootRef (root s)"
  "rootTag (root (renderDidSuspendDelayIfPossible cfg s)) = rootTag (root s)"
  "current (root (renderDidSuspendDelayIfPossible cfg s)) = current (root s)"
  "alternate (root (renderDidSuspendDelayIfPossible cfg s)) = alternate (root s)"
  "finishedWork (root (renderDidSuspendDelayIfPossible cfg s)) = finishedWork (root s)"
  "finishedLanes (root (renderDidSuspendDelayIfPossible cfg s)) = finishedLanes (root s)"
  "callbackNode (root (renderDidSuspendDelayIfPossible cfg s)) = callbackNode (root s)"
  "callbackPriority (root (renderDidSuspendDelayIfPossible cfg s)) = callbackPriority (root s)"
  "timeoutHandle (root (renderDidSuspendDelayIfPossible cfg s)) = timeoutHandle (root s)"
  "executionContext (renderDidSuspendDelayIfPossible cfg s) = executionContext s"
  "workInProgressRoot (renderDidSuspendDelayIfPossible cfg s) = workInProgressRoot s"
  "workInProgress (renderDidSuspendDelayIfPossible cfg s) = workInProgress s"
  "workInProgressRootRenderLanes (renderDidSuspendDelayIfPossible cfg s) = workInProgressRootRenderLanes s"
  "workInProgressRootFatalError (renderDidSuspendDelayIfPossible cfg s) = workInProgressRootFatalError s"
  "workInProgressRootSkippedLanes (renderDidSuspendDelayIfPossible cfg s) = workInProgressRootSkippedLanes s"
  "workInProgressRootInterleavedUpdatedLanes (renderDidSuspendDelayIfPossible cfg s) = workInProgressRootInterleavedUpdatedLanes s"
  "workInProgressRootRenderPhaseUpdatedLanes (renderDidSuspendDelayIfPossible cfg s) = workInProgressRootRenderPhaseUpdatedLanes s"
  "workInProgressRootPingedLanes (renderDidSuspendDelayIfPossible cfg s) = workInProgressRootPingedLanes s"
  "workInProgressRootConcurrentErrors (renderDidSuspendDelayIfPossible cfg s) = workInProgressRootConcurrentErrors s"
  "workInProgressRootRecoverableErrors (renderDidSuspendDelayIfPossible cfg s) = workInProgressRootRecoverableErrors s"
  "globalMostRecentFallbackTime (renderDidSuspendDelayIfPossible cfg s) = globalMostRecentFallbackTime s"
  "workInProgressTransitions (renderDidSuspendDelayIfPossible cfg s) = workInProgressTransitions s"
  "hasUncaughtError (renderDidSuspendDelayIfPossible cfg s) = hasUncaughtError s"
  "firstUncaughtError (renderDidSuspendDelayIfPossible cfg s) = firstUncaughtError s"
  "legacyErrorBoundariesThatAlreadyFailed (renderDidSuspendDelayIfPossible cfg s) = legacyErrorBoundariesThatAlreadyFailed s"
  "rootDoesHavePassiveEffects (renderDidSuspendDelayIfPossible cfg s) = rootDoesHavePassiveEffects s"
  "rootWithPendingPassiveEffects (renderDidSuspendDelayIfPossible cfg s) = rootWithPendingPassiveEffects s"
  "pendingPassiveEffectsLanes (renderDidSuspendDelayIfPossible cfg s) = pendingPassiveEffectsLanes s"
  "pendingPassiveEffectsRemainingLanes (renderDidSuspendDelayIfPossible cfg s) = pendingPassiveEffectsRemainingLanes s"
  "pendingPassiveTransitions (renderDidSuspendDelayIfPossible cfg s) = pendingPassiveTransitions s"
  "nestedUpdateCount (renderDidSuspendDelayIfPossible cfg s) = nestedUpdateCount s"
  "rootWithNestedUpdates (renderDidSuspendDelayIfPossible cfg s) = rootWithNestedUpdates s"
  "isFlushingPassiveEffects (renderDidSuspendDelayIfPossible cfg s) = isFlushingPassiveEffects s"
  "didScheduleUpdateDuringPassiveEffects (renderDidSuspendDelayIfPossible cfg s) = didScheduleUpdateDuringPassiveEffects s"
  "nestedPassiveUpdateCount (renderDidSuspendDelayIfPossible cfg s) = nestedPassiveUpdateCount s"
  "rootWithPassiveNestedUpdates (renderDidSuspendDelayIfPossible cfg s) = rootWithPassiveNestedUpdates s"
  "currentEventTime (renderDidSuspendDelayIfPossible cfg s) = currentEventTime s"
  "currentEventTransitionLane (renderDidSuspendDelayIfPossible cfg s) = currentEventTransitionLane s"
  "currentUpdatePriority (renderDidSuspendDelayIfPossible cfg s) = currentUpdatePriority s"
  "transition (renderDidSuspendDelayIfPossible cfg s) = transition s"
  "syncQueue (renderDidSuspendDelayIfPossible cfg s) = syncQueue s"
  "includesLegacySyncCallbacks (renderDidSuspendDelayIfPossible cfg s) = includesLegacySyncCallbacks s"
  "isFlushingSyncQueue (renderDidSuspendDelayIfPossible cfg s) = isFlushingSyncQueue s"
  "now (renderDidSuspendDelayIfPossible cfg s) = now s"
  "walks (renderDidSuspendDelayIfPossible cfg s) = walks s"
  "handles (renderDidSuspendDelayIfPossible cfg s) = handles s"
  "trace (renderDidSuspendDelayIfPossible cfg s) = trace s"
  by (simp_all add: renderDidSuspendDelayIfPossible_def Let_def)

lemma renderDidError_frame [simp]:
  "root (renderDidError error s) = root s"
  "executionContext (renderDidError error s) = executionContext s"
  "workInProgressRoot (renderDidError error s) = workInProgressRoot s"
  "workInProgress (renderDidError error s) = workInProgress s"
  "workInProgressRootRenderLanes (renderDidError error s) = workInProgressRootRenderLanes s"
  "workInProgressRootFatalError (renderDidError error s) = workInProgressRootFatalError s"
  "workInProgressRootSkippedLanes (renderDidError error s) = workInProgressRootSkippedLanes s"
  "workInProgressRootInterleavedUpdatedLanes (renderDidError error s) = workInProgressRootInterleavedUpdatedLanes s"
  "workInProgressRootRenderPhaseUpdatedLanes (renderDidError error s) = workInProgressRootRenderPhaseUpdatedLanes s"
  "workInProgressRootPingedLanes (renderDidError error s) = workInProgressRootPingedLanes s"
  "workInProgressRootRecoverableErrors (renderDidError error s) = workInProgressRootRecoverableErrors s"
  "globalMostRecentFallbackTime (renderDidError error s) = globalMostRecentFallbackTime s"
  "workInProgressTransitions (renderDidError error s) = workInProgressTransitions s"
  "hasUncaughtError (renderDidError error s) = hasUncaughtError s"
  "firstUncaughtError (renderDidError error s) = firstUncaughtError s"
  "legacyErrorBoundariesThatAlreadyFailed (renderDidError error s) = legacyErrorBoundariesThatAlreadyFailed s"
  "rootDoesHavePassiveEffects (renderDidError error s) = rootDoesHavePassiveEffects s"
  "rootWithPendingPassiveEffects (renderDidError error s) = rootWithPendingPassiveEffects s"
  "pendingPassiveEffectsLanes (renderDidError error s) = pendingPassiveEffectsLanes s"
  "pendingPassiveEffectsRemainingLanes (renderDidError error s) = pendingPassiveEffectsRemainingLanes s"
  "pendingPassiveTransitions (renderDidError error s) = pendingPassiveTransitions s"
  "nestedUpdateCount (renderDidError error s) = nestedUpdateCount s"
  "rootWithNestedUpdates (renderDidError error s) = rootWithNestedUpdates s"
  "isFlushingPassiveEffects (renderDidError error s) = isFlushingPassiveEffects s"
  "didScheduleUpdateDuringPassiveEffects (renderDidError error s) = didScheduleUpdateDuringPassiveEffects s"
  "nestedPassiveUpdateCount (renderDidError error s) = nestedPassiveUpdateCount s"
  "rootWithPassiveNestedUpdates (renderDidError error s) = rootWithPassiveNestedUpdates s"
  "currentEventTime (renderDidError error s) = currentEventTime s"
  "currentEventTransitionLane (renderDidError error s) = currentEventTransitionLane s"
  "currentUpdatePriority (renderDidError error s) = currentUpdatePriority s"
  "transition (renderDidError error s) = transition s"
  "syncQueue (renderDidError error s) = syncQueue s"
  "includesLegacySyncCallbacks (renderDidError error s) = includesLegacySyncCallbacks s"
  "isFlushingSyncQueue (renderDidError error s) = isFlushingSyncQueue s"
  "now (renderDidError error s) = now s"
  "walks (renderDidError error s) = walks s"
  "handles (renderDidError error s) = handles s"
  "trace (renderDidError error s) = trace s"
  by (simp_all add: renderDidError_def Let_def split: option.splits)

lemma queueRecoverableErrors_frame [simp]:
  "root (queueRecoverableErrors errors s) = root s"
  "executionContext (queueRecoverableErrors errors s) = executionContext s"
  "workInProgressRoot (queueRecoverableErrors errors s) = workInProgressRoot s"
  "workInProgress (queueRecoverableErrors errors s) = workInProgress s"
  "workInProgressRootRenderLanes (queueRecoverableErrors errors s) = workInProgressRootRenderLanes s"
  "workInProgressRootExitStatus (queueRecoverableErrors errors s) = workInProgressRootExitStatus s"
  "workInProgressRootFatalError (queueRecoverableErrors errors s) = workInProgressRootFatalError s"
  "workInProgressRootSkippedLanes (queueRecoverableErrors errors s) = workInProgressRootSkippedLanes s"
  "workInProgressRootInterleavedUpdatedLanes (queueRecoverableErrors errors s) = workInProgressRootInterleavedUpdatedLanes s"
  "workInProgressRootRenderPhaseUpdatedLanes (queueRecoverableErrors errors s) = workInProgressRootRenderPhaseUpdatedLanes s"
  "workInProgressRootPingedLanes (queueRecoverableErrors errors s) = workInProgressRootPingedLanes s"
  "workInProgressRootConcurrentErrors (queueRecoverableErrors errors s) = workInProgressRootConcurrentErrors s"
  "globalMostRecentFallbackTime (queueRecoverableErrors errors s) = globalMostRecentFallbackTime s"
  "workInProgressTransitions (queueRecoverableErrors errors s) = workInProgressTransitions s"
  "hasUncaughtError (queueRecoverableErrors errors s) = hasUncaughtError s"
  "firstUncaughtError (queueRecoverableErrors errors s) = firstUncaughtError s"
  "legacyErrorBoundariesThatAlreadyFailed (queueRecoverableErrors errors s) = legacyErrorBoundariesThatAlreadyFailed s"
  "rootDoesHavePassiveEffects (queueRecoverableErrors errors s) = rootDoesHavePassiveEffects s"
  "rootWithPendingPassiveEffects (queueRecoverableErrors errors s) = rootWithPendingPassiveEffects s"
  "pendingPassiveEffectsLanes (queueRecoverableErrors errors s) = pendingPassiveEffectsLanes s"
  "pendingPassiveEffectsRemainingLanes (queueRecoverableErrors errors s) = pendingPassiveEffectsRemainingLanes s"
  "pendingPassiveTransitions (queueRecoverableErrors errors s) = pendingPassiveTransitions s"
  "nestedUpdateCount (queueRecoverableErrors errors s) = nestedUpdateCount s"
  "rootWithNestedUpdates (queueRecoverableErrors errors s) = rootWithNestedUpdates s"
  "isFlushingPassiveEffects (queueRecoverableErrors errors s) = isFlushingPassiveEffects s"
  "didScheduleUpdateDuringPassiveEffects (queueRecoverableErrors errors s) = didScheduleUpdateDuringPassiveEffects s"
  "nestedPassiveUpdateCount (queueRecoverableErrors errors s) = nestedPassiveUpdateCount s"
  "rootWithPassiveNestedUpdates (queueRecoverableErrors errors s) = rootWithPassiveNestedUpdates s"
  "currentEventTime (queueRecoverableErrors errors s) = currentEventTime s"
  "currentEventTransitionLane (queueRecoverableErrors errors s) = currentEventTransitionLane s"
  "currentUpdatePriority (queueRecoverableErrors errors s) = currentUpdatePriority s"
  "transition (queueRecoverableErrors errors s) = transition s"
  "syncQueue (queueRecoverableErrors errors s) = syncQueue s"
  "includesLegacySyncCallbacks (queueRecoverableErrors errors s) = includesLegacySyncCallbacks s"
  "isFlushingSyncQueue (queueRecoverableErrors errors s) = isFlushingSyncQueue s"
  "now (queueRecoverableErrors errors s) = now s"
  "walks (queueRecoverableErrors errors s) = walks s"
  "handles (queueRecoverableErrors errors s) = handles s"
  "trace (queueRecoverableErrors errors s) = trace s"
  by (simp_all add: queueRecoverableErrors_def split: option.splits)

lemma markSkippedUpdateLanes_frame [simp]:
  "root (markSkippedUpdateLanes lane s) = root s"
  "executionContext (markSkippedUpdateLanes lane s) = executionContext s"
  "workInProgressRoot (markSkippedUpdateLanes lane s) = workInProgressRoot s"
  "workInProgress (markSkippedUpdateLanes lane s) = workInProgress s"
  "workInProgressRootRenderLanes (markSkippedUpdateLanes lane s) = workInProgressRootRenderLanes s"
  "workInProgressRootExitStatus (markSkippedUpdateLanes lane s) = workInProgressRootExitStatus s"
  "workInProgressRootFatalError (markSkippedUpdateLanes lane s) = workInProgressRootFatalError s"
  "workInProgressRootInterleavedUpdatedLanes (markSkippedUpdateLanes lane s) = workInProgressRootInterleavedUpdatedLanes s"
  "workInProgressRootRenderPhaseUpdatedLanes (markSkippedUpdateLanes lane s) = workInProgressRootRenderPhaseUpdatedLanes s"
  "workInProgressRootPingedLanes (markSkippedUpdateLanes lane s) = workInProgressRootPingedLanes s"
  "workInProgressRootConcurrentErrors (markSkippedUpdateLanes lane s) = workInProgressRootConcurrentErrors s"
  "workInProgressRootRecoverableErrors (markSkippedUpdateLanes lane s) = workInProgressRootRecoverableErrors s"
  "globalMostRecentFallbackTime (markSkippedUpdateLanes lane s) = globalMostRecentFallbackTime s"
  "workInProgressTransitions (markSkippedUpdateLanes lane s) = workInProgressTransitions s"
  "hasUncaughtError (markSkippedUpdateLanes lane s) = hasUncaughtError s"
  "firstUncaughtError (markSkippedUpdateLanes lane s) = firstUncaughtError s"
  "legacyErrorBoundariesThatAlreadyFailed (markSkippedUpdateLanes lane s) = legacyErrorBoundariesThatAlreadyFailed s"
  "rootDoesHavePassiveEffects (markSkippedUpdateLanes lane s) = rootDoesHavePassiveEffects s"
  "rootWithPendingPassiveEffects (markSkippedUpdateLanes lane s) = rootWithPendingPassiveEffects s"
  "pendingPassiveEffectsLanes (markSkippedUpdateLanes lane s) = pendingPassiveEffectsLanes s"
  "pendingPassiveEffectsRemainingLanes (markSkippedUpdateLanes lane s) = pendingPassiveEffectsRemainingLanes s"
  "pendingPassiveTransitions (markSkippedUpdateLanes lane s) = pendingPassiveTransitions s"
  "nestedUpdateCount (markSkippedUpdateLanes lane s) = nestedUpdateCount s"
  "rootWithNestedUpdates (markSkippedUpdateLanes lane s) = rootWithNestedUpdates s"
  "isFlushingPassiveEffects (markSkippedUpdateLanes lane s) = isFlushingPassiveEffects s"
  "didScheduleUpdateDuringPassiveEffects (markSkippedUpdateLanes lane s) = didScheduleUpdateDuringPassiveEffects s"
  "nestedPassiveUpdateCount (markSkippedUpdateLanes lane s) = nestedPassiveUpdateCount s"
  "rootWithPassiveNestedUpdates (markSkippedUpdateLanes lane s) = rootWithPassiveNestedUpdates s"
  "currentEventTime (markSkippedUpdateLanes lane s) = currentEventTime s"
  "currentEventTransitionLane (markSkippedUpdateLanes lane s) = currentEventTransitionLane s"
  "currentUpdatePriority (markSkippedUpdateLanes lane s) = currentUpdatePriority s"
  "transition (markSkippedUpdateLanes lane s) = transition s"
  "syncQueue (markSkippedUpdateLanes lane s) = syncQueue s"
  "includesLegacySyncCallbacks (markSkippedUpdateLanes lane s) = includesLegacySyncCallbacks s"
  "isFlushingSyncQueue (markSkippedUpdateLanes lane s) = isFlushingSyncQueue s"
  "now (markSkippedUpdateLanes lane s) = now s"
  "walks (markSkippedUpdateLanes lane s) = walks s"
  "handles (markSkippedUpdateLanes lane s) = handles s"
  "trace (markSkippedUpdateLanes lane s) = trace s"
  by (simp_all add: markSkippedUpdateLanes_def)

lemma applyWalkCall_frame [simp]:
  "rootRef (root (applyWalkCall cfg c s)) = rootRef (root s)"
  "rootTag (root (applyWalkCall cfg c s)) = rootTag (root s)"
  "current (root (applyWalkCall cfg c s)) = current (root s)"
  "alternate (root (applyWalkCall cfg c s)) = alternate (root s)"
  "finishedWork (root (applyWalkCall cfg c s)) = finishedWork (root s)"
  "finishedLanes (root (applyWalkCall cfg c s)) = finishedLanes (root s)"
  "callbackNode (root (applyWalkCall cfg c s)) = callbackNode (root s)"
  "callbackPriority (root (applyWalkCall cfg c s)) = callbackPriority (root s)"
  "timeoutHandle (root (applyWalkCall cfg c s)) = timeoutHandle (root s)"
  "executionContext (applyWalkCall cfg c s) = executionContext s"
  "workInProgressRoot (applyWalkCall cfg c s) = workInProgressRoot s"
  "workInProgress (applyWalkCall cfg c s) = workInProgress s"
  "workInProgressRootRenderLanes (applyWalkCall cfg c s) = workInProgressRootRenderLanes s"
  "workInProgressRootFatalError (applyWalkCall cfg c s) = workInProgressRootFatalError s"
  "workInProgressRootInterleavedUpdatedLanes (applyWalkCall cfg c s) = workInProgressRootInterleavedUpdatedLanes s"
  "workInProgressRootRenderPhaseUpdatedLanes (applyWalkCall cfg c s) = workInProgressRootRenderPhaseUpdatedLanes s"
  "workInProgressRootPingedLanes (applyWalkCall cfg c s) = workInProgressRootPingedLanes s"
  "globalMostRecentFallbackTime (applyWalkCall cfg c s) = globalMostRecentFallbackTime s"
  "workInProgressTransitions (applyWalkCall cfg c s) = workInProgressTransitions s"
  "hasUncaughtError (applyWalkCall cfg c s) = hasUncaughtError s"
  "firstUncaughtError (applyWalkCall cfg c s) = firstUncaughtError s"
  "legacyErrorBoundariesThatAlreadyFailed (applyWalkCall cfg c s) = legacyErrorBoundariesThatAlreadyFailed s"
  "rootDoesHavePassiveEffects (applyWalkCall cfg c s) = rootDoesHavePassiveEffects s"
  "rootWithPendingPassiveEffects (applyWalkCall cfg c s) = rootWithPendingPassiveEffects s"
  "pendingPassiveEffectsLanes (applyWalkCall cfg c s) = pendingPassiveEffectsLanes s"
  "pendingPassiveEffectsRemainingLanes (applyWalkCall cfg c s) = pendingPassiveEffectsRemainingLanes s"
  "pendingPassiveTransitions (applyWalkCall cfg c s) = pendingPassiveTransitions s"
  "nestedUpdateCount (applyWalkCall cfg c s) = nestedUpdateCount s"
  "rootWithNestedUpdates (applyWalkCall cfg c s) = rootWithNestedUpdates s"
  "isFlushingPassiveEffects (applyWalkCall cfg c s) = isFlushingPassiveEffects s"
  "didScheduleUpdateDuringPassiveEffects (applyWalkCall cfg c s) = didScheduleUpdateDuringPassiveEffects s"
  "nestedPassiveUpdateCount (applyWalkCall cfg c s) = nestedPassiveUpdateCount s"
  "rootWithPassiveNestedUpdates (applyWalkCall cfg c s) = rootWithPassiveNestedUpdates s"
  "currentEventTime (applyWalkCall cfg c s) = currentEventTime s"
  "currentEventTransitionLane (applyWalkCall cfg c s) = currentEventTransitionLane s"
  "currentUpdatePriority (applyWalkCall cfg c s) = currentUpdatePriority s"
  "transition (applyWalkCall cfg c s) = transition s"
  "syncQueue (applyWalkCall cfg c s) = syncQueue s"
  "includesLegacySyncCallbacks (applyWalkCall cfg c s) = includesLegacySyncCallbacks s"
  "isFlushingSyncQueue (applyWalkCall cfg c s) = isFlushingSyncQueue s"
  "now (applyWalkCall cfg c s) = now s"
  "walks (applyWalkCall cfg c s) = walks s"
  "handles (applyWalkCall cfg c s) = handles s"
  "trace (applyWalkCall cfg c s) = trace s"
  by (cases c; simp)+

lemma walkCalls_frame [simp]:
  "rootRef (root (fold (applyWalkCall cfg) cs s)) = rootRef (root s)"
  "rootTag (root (fold (applyWalkCall cfg) cs s)) = rootTag (root s)"
  "current (root (fold (applyWalkCall cfg) cs s)) = current (root s)"
  "alternate (root (fold (applyWalkCall cfg) cs s)) = alternate (root s)"
  "finishedWork (root (fold (applyWalkCall cfg) cs s)) = finishedWork (root s)"
  "finishedLanes (root (fold (applyWalkCall cfg) cs s)) = finishedLanes (root s)"
  "callbackNode (root (fold (applyWalkCall cfg) cs s)) = callbackNode (root s)"
  "callbackPriority (root (fold (applyWalkCall cfg) cs s)) = callbackPriority (root s)"
  "timeoutHandle (root (fold (applyWalkCall cfg) cs s)) = timeoutHandle (root s)"
  "executionContext (fold (applyWalkCall cfg) cs s) = executionContext s"
  "workInProgressRoot (fold (applyWalkCall cfg) cs s) = workInProgressRoot s"
  "workInProgress (fold (applyWalkCall cfg) cs s) = workInProgress s"
  "workInProgressRootRenderLanes (fold (applyWalkCall cfg) cs s) = workInProgressRootRenderLanes s"
  "workInProgressRootFatalError (fold (applyWalkCall cfg) cs s) = workInProgressRootFatalError s"
  "workInProgressRootInterleavedUpdatedLanes (fold (applyWalkCall cfg) cs s) = workInProgressRootInterleavedUpdatedLanes s"
  "workInProgressRootRenderPhaseUpdatedLanes (fold (applyWalkCall cfg) cs s) = workInProgressRootRenderPhaseUpdatedLanes s"
  "workInProgressRootPingedLanes (fold (applyWalkCall cfg) cs s) = workInProgressRootPingedLanes s"
  "globalMostRecentFallbackTime (fold (applyWalkCall cfg) cs s) = globalMostRecentFallbackTime s"
  "workInProgressTransitions (fold (applyWalkCall cfg) cs s) = workInProgressTransitions s"
  "hasUncaughtError (fold (applyWalkCall cfg) cs s) = hasUncaughtError s"
  "firstUncaughtError (fold (applyWalkCall cfg) cs s) = firstUncaughtError s"
  "legacyErrorBoundariesThatAlreadyFailed (fold (applyWalkCall cfg) cs s) = legacyErrorBoundariesThatAlreadyFailed s"
  "rootDoesHavePassiveEffects (fold (applyWalkCall cfg) cs s) = rootDoesHavePassiveEffects s"
  "rootWithPendingPassiveEffects (fold (applyWalkCall cfg) cs s) = rootWithPendingPassiveEffects s"
  "pendingPassiveEffectsLanes (fold (applyWalkCall cfg) cs s) = pendingPassiveEffectsLanes s"
  "pendingPassiveEffectsRemainingLanes (fold (applyWalkCall cfg) cs s) = pendingPassiveEffectsRemainingLanes s"
  "pendingPassiveTransitions (fold (applyWalkCall cfg) cs s) = pendingPassiveTransitions s"
  "nestedUpdateCount (fold (applyWalkCall cfg) cs s) = nestedUpdateCount s"
  "rootWithNestedUpdates (fold (applyWalkCall cfg) cs s) = rootWithNestedUpdates s"
  "isFlushingPassiveEffects (fold (applyWalkCall cfg) cs s) = isFlushingPassiveEffects s"
  "didScheduleUpdateDuringPassiveEffects (fold (applyWalkCall cfg) cs s) = didScheduleUpdateDuringPassiveEffects s"
  "nestedPassiveUpdateCount (fold (applyWalkCall cfg) cs s) = nestedPassiveUpdateCount s"
  "rootWithPassiveNestedUpdates (fold (applyWalkCall cfg) cs s) = rootWithPassiveNestedUpdates s"
  "currentEventTime (fold (applyWalkCall cfg) cs s) = currentEventTime s"
  "currentEventTransitionLane (fold (applyWalkCall cfg) cs s) = currentEventTransitionLane s"
  "currentUpdatePriority (fold (applyWalkCall cfg) cs s) = currentUpdatePriority s"
  "transition (fold (applyWalkCall cfg) cs s) = transition s"
  "syncQueue (fold (applyWalkCall cfg) cs s) = syncQueue s"
  "includesLegacySyncCallbacks (fold (applyWalkCall cfg) cs s) = includesLegacySyncCallbacks s"
  "isFlushingSyncQueue (fold (applyWalkCall cfg) cs s) = isFlushingSyncQueue s"
  "now (fold (applyWalkCall cfg) cs s) = now s"
  "walks (fold (applyWalkCall cfg) cs s) = walks s"
  "handles (fold (applyWalkCall cfg) cs s) = handles s"
  "trace (fold (applyWalkCall cfg) cs s) = trace s"
  by (induction cs arbitrary: s; simp)+

lemma rootFatalErrored_frame [simp]:
  "root (rootFatalErrored thrownValue s) = root s"
  "executionContext (rootFatalErrored thrownValue s) = executionContext s"
  "workInProgressRoot (rootFatalErrored thrownValue s) = workInProgressRoot s"
  "workInProgressRootRenderLanes (rootFatalErrored thrownValue s) = workInProgressRootRenderLanes s"
  "workInProgressRootSkippedLanes (rootFatalErrored thrownValue s) = workInProgressRootSkippedLanes s"
  "workInProgressRootInterleavedUpdatedLanes (rootFatalErrored thrownValue s) = workInProgressRootInterleavedUpdatedLanes s"
  "workInProgressRootRenderPhaseUpdatedLanes (rootFatalErrored thrownValue s) = workInProgressRootRenderPhaseUpdatedLanes s"
  "workInProgressRootPingedLanes (rootFatalErrored thrownValue s) = workInProgressRootPingedLanes s"
  "workInProgressRootConcurrentErrors (rootFatalErrored thrownValue s) = workInProgressRootConcurrentErrors s"
  "workInProgressRootRecoverableErrors (rootFatalErrored thrownValue s) = workInProgressRootRecoverableErrors s"
  "globalMostRecentFallbackTime (rootFatalErrored thrownValue s) = globalMostRecentFallbackTime s"
  "workInProgressTransitions (rootFatalErrored thrownValue s) = workInProgressTransitions s"
  "hasUncaughtError (rootFatalErrored thrownValue s) = hasUncaughtError s"
  "firstUncaughtError (rootFatalErrored thrownValue s) = firstUncaughtError s"
  "legacyErrorBoundariesThatAlreadyFailed (rootFatalErrored thrownValue s) = legacyErrorBoundariesThatAlreadyFailed s"
  "rootDoesHavePassiveEffects (rootFatalErrored thrownValue s) = rootDoesHavePassiveEffects s"
  "rootWithPendingPassiveEffects (rootFatalErrored thrownValue s) = rootWithPendingPassiveEffects s"
  "pendingPassiveEffectsLanes (rootFatalErrored thrownValue s) = pendingPassiveEffectsLanes s"
  "pendingPassiveEffectsRemainingLanes (rootFatalErrored thrownValue s) = pendingPassiveEffectsRemainingLanes s"
  "pendingPassiveTransitions (rootFatalErrored thrownValue s) = pendingPassiveTransitions s"
  "nestedUpdateCount (rootFatalErrored thrownValue s) = nestedUpdateCount s"
  "rootWithNestedUpdates (rootFatalErrored thrownValue s) = rootWithNestedUpdates s"
  "isFlushingPassiveEffects (rootFatalErrored thrownValue s) = isFlushingPassiveEffects s"
  "didScheduleUpdateDuringPassiveEffects (rootFatalErrored thrownValue s) = didScheduleUpdateDuringPassiveEffects s"
  "nestedPassiveUpdateCount (rootFatalErrored thrownValue s) = nestedPassiveUpdateCount s"
  "rootWithPassiveNestedUpdates (rootFatalErrored thrownValue s) = rootWithPassiveNestedUpdates s"
  "currentEventTime (rootFatalErrored thrownValue s) = currentEventTime s"
  "currentEventTransitionLane (rootFatalErrored thrownValue s) = currentEventTransitionLane s"
  "currentUpdatePriority (rootFatalErrored thrownValue s) = currentUpdatePriority s"
  "transition (rootFatalErrored thrownValue s) = transition s"
  "syncQueue (rootFatalErrored thrownValue s) = syncQueue s"
  "includesLegacySyncCallbacks (rootFatalErrored thrownValue s) = includesLegacySyncCallbacks s"
  "isFlushingSyncQueue (rootFatalErrored thrownValue s) = isFlushingSyncQueue s"
  "now (rootFatalErrored thrownValue s) = now s"
  "walks (rootFatalErrored thrownValue s) = walks s"
  "handles (rootFatalErrored thrownValue s) = handles s"
  "trace (rootFatalErrored thrownValue s) = trace s"
  by (simp_all add: rootFatalErrored_def)

lemma rootDidNotComplete_frame [simp]:
  "root (rootDidNotComplete s) = root s"
  "executionContext (rootDidNotComplete s) = executionContext s"
  "workInProgressRoot (rootDidNotComplete s) = workInProgressRoot s"
  "workInProgressRootRenderLanes (rootDidNotComplete s) = workInProgressRootRenderLanes s"
  "workInProgressRootFatalError (rootDidNotComplete s) = workInProgressRootFatalError s"
  "workInProgressRootSkippedLanes (rootDidNotComplete s) = workInProgressRootSkippedLanes s"
  "workInProgressRootInterleavedUpdatedLanes (rootDidNotComplete s) = workInProgressRootInterleavedUpdatedLanes s"
  "workInProgressRootRenderPhaseUpdatedLanes (rootDidNotComplete s) = workInProgressRootRenderPhaseUpdatedLanes s"
  "workInProgressRootPingedLanes (rootDidNotComplete s) = workInProgressRootPingedLanes s"
  "workInProgressRootConcurrentErrors (rootDidNotComplete s) = workInProgressRootConcurrentErrors s"
  "workInProgressRootRecoverableErrors (rootDidNotComplete s) = workInProgressRootRecoverableErrors s"
  "globalMostRecentFallbackTime (rootDidNotComplete s) = globalMostRecentFallbackTime s"
  "workInProgressTransitions (rootDidNotComplete s) = workInProgressTransitions s"
  "hasUncaughtError (rootDidNotComplete s) = hasUncaughtError s"
  "firstUncaughtError (rootDidNotComplete s) = firstUncaughtError s"
  "legacyErrorBoundariesThatAlreadyFailed (rootDidNotComplete s) = legacyErrorBoundariesThatAlreadyFailed s"
  "rootDoesHavePassiveEffects (rootDidNotComplete s) = rootDoesHavePassiveEffects s"
  "rootWithPendingPassiveEffects (rootDidNotComplete s) = rootWithPendingPassiveEffects s"
  "pendingPassiveEffectsLanes (rootDidNotComplete s) = pendingPassiveEffectsLanes s"
  "pendingPassiveEffectsRemainingLanes (rootDidNotComplete s) = pendingPassiveEffectsRemainingLanes s"
  "pendingPassiveTransitions (rootDidNotComplete s) = pendingPassiveTransitions s"
  "nestedUpdateCount (rootDidNotComplete s) = nestedUpdateCount s"
  "rootWithNestedUpdates (rootDidNotComplete s) = rootWithNestedUpdates s"
  "isFlushingPassiveEffects (rootDidNotComplete s) = isFlushingPassiveEffects s"
  "didScheduleUpdateDuringPassiveEffects (rootDidNotComplete s) = didScheduleUpdateDuringPassiveEffects s"
  "nestedPassiveUpdateCount (rootDidNotComplete s) = nestedPassiveUpdateCount s"
  "rootWithPassiveNestedUpdates (rootDidNotComplete s) = rootWithPassiveNestedUpdates s"
  "currentEventTime (rootDidNotComplete s) = currentEventTime s"
  "currentEventTransitionLane (rootDidNotComplete s) = currentEventTransitionLane s"
  "currentUpdatePriority (rootDidNotComplete s) = currentUpdatePriority s"
  "transition (rootDidNotComplete s) = transition s"
  "syncQueue (rootDidNotComplete s) = syncQueue s"
  "includesLegacySyncCallbacks (rootDidNotComplete s) = includesLegacySyncCallbacks s"
  "isFlushingSyncQueue (rootDidNotComplete s) = isFlushingSyncQueue s"
  "now (rootDidNotComplete s) = now s"
  "walks (rootDidNotComplete s) = walks s"
  "handles (rootDidNotComplete s) = handles s"
  "trace (rootDidNotComplete s) = trace s"
  by (simp_all add: rootDidNotComplete_def)

lemma rootCompleted_frame [simp]:
  "root (rootCompleted s) = root s"
  "executionContext (rootCompleted s) = executionContext s"
  "workInProgressRoot (rootCompleted s) = workInProgressRoot s"
  "workInProgress (rootCompleted s) = workInProgress s"
  "workInProgressRootRenderLanes (rootCompleted s) = workInProgressRootRenderLanes s"
  "workInProgressRootFatalError (rootCompleted s) = workInProgressRootFatalError s"
  "workInProgressRootSkippedLanes (rootCompleted s) = workInProgressRootSkippedLanes s"
  "workInProgressRootInterleavedUpdatedLanes (rootCompleted s) = workInProgressRootInterleavedUpdatedLanes s"
  "workInProgressRootRenderPhaseUpdatedLanes (rootCompleted s) = workInProgressRootRenderPhaseUpdatedLanes s"
  "workInProgressRootPingedLanes (rootCompleted s) = workInProgressRootPingedLanes s"
  "workInProgressRootConcurrentErrors (rootCompleted s) = workInProgressRootConcurrentErrors s"
  "workInProgressRootRecoverableErrors (rootCompleted s) = workInProgressRootRecoverableErrors s"
  "globalMostRecentFallbackTime (rootCompleted s) = globalMostRecentFallbackTime s"
  "workInProgressTransitions (rootCompleted s) = workInProgressTransitions s"
  "hasUncaughtError (rootCompleted s) = hasUncaughtError s"
  "firstUncaughtError (rootCompleted s) = firstUncaughtError s"
  "legacyErrorBoundariesThatAlreadyFailed (rootCompleted s) = legacyErrorBoundariesThatAlreadyFailed s"
  "rootDoesHavePassiveEffects (rootCompleted s) = rootDoesHavePassiveEffects s"
  "rootWithPendingPassiveEffects (rootCompleted s) = rootWithPendingPassiveEffects s"
  "pendingPassiveEffectsLanes (rootCompleted s) = pendingPassiveEffectsLanes s"
  "pendingPassiveEffectsRemainingLanes (rootCompleted s) = pendingPassiveEffectsRemainingLanes s"
  "pendingPassiveTransitions (rootCompleted s) = pendingPassiveTransitions s"
  "nestedUpdateCount (rootCompleted s) = nestedUpdateCount s"
  "rootWithNestedUpdates (rootCompleted s) = rootWithNestedUpdates s"
  "isFlushingPassiveEffects (rootCompleted s) = isFlushingPassiveEffects s"
  "didScheduleUpdateDuringPassiveEffects (rootCompleted s) = didScheduleUpdateDuringPassiveEffects s"
  "nestedPassiveUpdateCount (rootCompleted s) = nestedPassiveUpdateCount s"
  "rootWithPassiveNestedUpdates (rootCompleted s) = rootWithPassiveNestedUpdates s"
  "currentEventTime (rootCompleted s) = currentEventTime s"
  "currentEventTransitionLane (rootCompleted s) = currentEventTransitionLane s"
  "currentUpdatePriority (rootCompleted s) = currentUpdatePriority s"
  "transition (rootCompleted s) = transition s"
  "syncQueue (rootCompleted s) = syncQueue s"
  "includesLegacySyncCallbacks (rootCompleted s) = includesLegacySyncCallbacks s"
  "isFlushingSyncQueue (rootCompleted s) = isFlushingSyncQueue s"
  "now (rootCompleted s) = now s"
  "walks (rootCompleted s) = walks s"
  "handles (rootCompleted s) = handles s"
  "trace (rootCompleted s) = trace s"
  by (simp_all add: rootCompleted_def)

lemma runWalk_frame [simp]:
  "rootRef (root (runWalk cfg s)) = rootRef (root s)"
  "rootTag (root (runWalk cfg s)) = rootTag (root s)"
  "current (root (runWalk cfg s)) = current (root s)"
  "finishedWork (root (runWalk cfg s)) = finishedWork (root s)"
  "finishedLanes (root (runWalk cfg s)) = finishedLanes (root s)"
  "callbackNode (root (runWalk cfg s)) = callbackNode (root s)"
  "callbackPriority (root (runWalk cfg s)) = callbackPriority (root s)"
  "timeoutHandle (root (runWalk cfg s)) = timeoutHandle (root s)"
  "executionContext (runWalk cfg s) = executionContext s"
  "workInProgressRoot (runWalk cfg s) = workInProgressRoot s"
  "workInProgressRootRenderLanes (runWalk cfg s) = workInProgressRootRenderLanes s"
  "workInProgressRootInterleavedUpdatedLanes (runWalk cfg s) = workInProgressRootInterleavedUpdatedLanes s"
  "workInProgressRootRenderPhaseUpdatedLanes (runWalk cfg s) = workInProgressRootRenderPhaseUpdatedLanes s"
  "workInProgressRootPingedLanes (runWalk cfg s) = workInProgressRootPingedLanes s"
  "globalMostRecentFallbackTime (runWalk cfg s) = globalMostRecentFallbackTime s"
  "workInProgressTransitions (runWalk cfg s) = workInProgressTransitions s"
  "hasUncaughtError (runWalk cfg s) = hasUncaughtError s"
  "firstUncaughtError (runWalk cfg s) = firstUncaughtError s"
  "legacyErrorBoundariesThatAlreadyFailed (runWalk cfg s) = legacyErrorBoundariesThatAlreadyFailed s"
  "rootDoesHavePassiveEffects (runWalk cfg s) = rootDoesHavePassiveEffects s"
  "rootWithPendingPassiveEffects (runWalk cfg s) = rootWithPendingPassiveEffects s"
  "pendingPassiveEffectsLanes (runWalk cfg s) = pendingPassiveEffectsLanes s"
  "pendingPassiveEffectsRemainingLanes (runWalk cfg s) = pendingPassiveEffectsRemainingLanes s"
  "pendingPassiveTransitions (runWalk cfg s) = pendingPassiveTransitions s"
  "nestedUpdateCount (runWalk cfg s) = nestedUpdateCount s"
  "rootWithNestedUpdates (runWalk cfg s) = rootWithNestedUpdates s"
  "isFlushingPassiveEffects (runWalk cfg s) = isFlushingPassiveEffects s"
  "didScheduleUpdateDuringPassiveEffects (runWalk cfg s) = didScheduleUpdateDuringPassiveEffects s"
  "nestedPassiveUpdateCount (runWalk cfg s) = nestedPassiveUpdateCount s"
  "rootWithPassiveNestedUpdates (runWalk cfg s) = rootWithPassiveNestedUpdates s"
  "currentEventTime (runWalk cfg s) = currentEventTime s"
  "currentEventTransitionLane (runWalk cfg s) = currentEventTransitionLane s"
  "currentUpdatePriority (runWalk cfg s) = currentUpdatePriority s"
  "transition (runWalk cfg s) = transition s"
  "syncQueue (runWalk cfg s) = syncQueue s"
  "includesLegacySyncCallbacks (runWalk cfg s) = includesLegacySyncCallbacks s"
  "isFlushingSyncQueue (runWalk cfg s) = isFlushingSyncQueue s"
  "now (runWalk cfg s) = now s"
  "handles (runWalk cfg s) = handles s"
  "trace (runWalk cfg s) = trace s"
  by (simp_all add: runWalk_def Let_def split: walkEnd.splits)

lemma forceClientRender_frame [simp]:
  "rootRef (root (forceClientRender cfg lanes s)) = rootRef (root s)"
  "rootTag (root (forceClientRender cfg lanes s)) = rootTag (root s)"
  "current (root (forceClientRender cfg lanes s)) = current (root s)"
  "callbackNode (root (forceClientRender cfg lanes s)) = callbackNode (root s)"
  "callbackPriority (root (forceClientRender cfg lanes s)) = callbackPriority (root s)"
  "laneSets (root (forceClientRender cfg lanes s)) = laneSets (root s)"
  "executionContext (forceClientRender cfg lanes s) = executionContext s"
  "globalMostRecentFallbackTime (forceClientRender cfg lanes s) = globalMostRecentFallbackTime s"
  "workInProgressTransitions (forceClientRender cfg lanes s) = workInProgressTransitions s"
  "hasUncaughtError (forceClientRender cfg lanes s) = hasUncaughtError s"
  "firstUncaughtError (forceClientRender cfg lanes s) = firstUncaughtError s"
  "legacyErrorBoundariesThatAlreadyFailed (forceClientRender cfg lanes s) = legacyErrorBoundariesThatAlreadyFailed s"
  "rootDoesHavePassiveEffects (forceClientRender cfg lanes s) = rootDoesHavePassiveEffects s"
  "rootWithPendingPassiveEffects (forceClientRender cfg lanes s) = rootWithPendingPassiveEffects s"
  "pendingPassiveEffectsLanes (forceClientRender cfg lanes s) = pendingPassiveEffectsLanes s"
  "pendingPassiveEffectsRemainingLanes (forceClientRender cfg lanes s) = pendingPassiveEffectsRemainingLanes s"
  "pendingPassiveTransitions (forceClientRender cfg lanes s) = pendingPassiveTransitions s"
  "nestedUpdateCount (forceClientRender cfg lanes s) = nestedUpdateCount s"
  "rootWithNestedUpdates (forceClientRender cfg lanes s) = rootWithNestedUpdates s"
  "isFlushingPassiveEffects (forceClientRender cfg lanes s) = isFlushingPassiveEffects s"
  "didScheduleUpdateDuringPassiveEffects (forceClientRender cfg lanes s) = didScheduleUpdateDuringPassiveEffects s"
  "nestedPassiveUpdateCount (forceClientRender cfg lanes s) = nestedPassiveUpdateCount s"
  "rootWithPassiveNestedUpdates (forceClientRender cfg lanes s) = rootWithPassiveNestedUpdates s"
  "currentEventTime (forceClientRender cfg lanes s) = currentEventTime s"
  "currentEventTransitionLane (forceClientRender cfg lanes s) = currentEventTransitionLane s"
  "currentUpdatePriority (forceClientRender cfg lanes s) = currentUpdatePriority s"
  "transition (forceClientRender cfg lanes s) = transition s"
  "syncQueue (forceClientRender cfg lanes s) = syncQueue s"
  "includesLegacySyncCallbacks (forceClientRender cfg lanes s) = includesLegacySyncCallbacks s"
  "isFlushingSyncQueue (forceClientRender cfg lanes s) = isFlushingSyncQueue s"
  "now (forceClientRender cfg lanes s) = now s"
  "walks (forceClientRender cfg lanes s) = walks s"
  "handles (forceClientRender cfg lanes s) = handles s"
  by (simp_all add: forceClientRender_def Let_def)

lemma extends_runWalk [simp]: "extends s (runWalk cfg x) = extends s x"
  by (simp add: extends_def)

lemma extends_forceClientRender [simp]:
  "extends s x \<Longrightarrow> extends s (forceClientRender cfg lanes x)"
  by (simp add: forceClientRender_def Let_def)



subsection \<open>Facts about rendering\<close>

lemma prepareFreshStack_fields [simp]:
  "workInProgress (prepareFreshStack cfg lanes s) \<noteq> []"
  "workInProgressRoot (prepareFreshStack cfg lanes s) = Some (rootRef (root s))"
  "workInProgressRootRenderLanes (prepareFreshStack cfg lanes s) = lanes"
  "workInProgressRootExitStatus (prepareFreshStack cfg lanes s) = RootInProgress"
  "workInProgressRootFatalError (prepareFreshStack cfg lanes s) = None"
  "workInProgressRootConcurrentErrors (prepareFreshStack cfg lanes s) = None"
  "workInProgressRootRecoverableErrors (prepareFreshStack cfg lanes s) = None"
  "finishedWork (root (prepareFreshStack cfg lanes s)) = None"
  by (simp_all add: prepareFreshStack_def Let_def createWorkInProgress_def split: option.splits)







lemma walks_runWalk:
  "workInProgress s \<noteq> [] \<Longrightarrow> walks (runWalk cfg s) = walks s + 1"
  by (simp add: runWalk_def Let_def split: walkEnd.splits)









subsection \<open>Facts about the unit of work\<close>

lemma markIncomplete_fields [simp]:
  "incomplete (markIncomplete u)" "sibling (markIncomplete u) = sibling u"
  "unitId (markIncomplete u) = unitId u"
  by (cases u; simp)+


lemma rootDidNotComplete_workInProgress [simp]:
  "rootDidNotComplete (s\<lparr>workInProgress := path\<rparr>) = rootDidNotComplete s"
  by (simp add: rootDidNotComplete_def)




subsection \<open>Facts about the entry points\<close>




lemma exited_fatal [simp]:
  "performConcurrentWorkOnRoot_exited cfg RootFatalErrored lanes s = throwFatalError cfg lanes s"
  by (simp add: performConcurrentWorkOnRoot_exited_def retrySynchronouslyOnError_def)

lemma exited_didNotComplete [simp]:
  "performConcurrentWorkOnRoot_exited cfg RootDidNotComplete lanes s
     = Normal () (markRootSuspended cfg lanes s)"
  by (simp add: performConcurrentWorkOnRoot_exited_def retrySynchronouslyOnError_def)




subsection \<open>Facts about what follows a render\<close>





lemma finish_event [simp]:
  "steps (emit [FinishConcurrentRender st lanes] s) = steps s"
  "renders (emit [FinishConcurrentRender st lanes] s) = renders s"
  "reported (emit [FinishConcurrentRender st lanes] s) = reported s"
  by (simp_all add: steps_def renders_def reported_def map_filter_append List.map_filter_def)







subsection \<open>Claims about the work loop\<close>





text \<open>
  Claim C9, amended. When a concurrent render ends suspended with lanes that are only
  retries, outside an \<open>act\<close> scope of a development build, with more than 10ms left of
  the 500ms since the last fallback was committed, no other work pending on the root,
  and the rendered lanes all marked suspended, \<open>finishConcurrentRender\<close> does not
  commit: it schedules the commit on a timeout of what is left of the 500ms, keeps
  the handle on the root, and leaves \<open>root.current\<close> and the finished work alone.
\<close>

theorem finishConcurrentRender_throttled:
  assumes retries: "includesOnlyRetries cfg lanes"
      and noact: "\<not> shouldForceFlushFallbacksInDEV cfg"
      and window: "10 < globalMostRecentFallbackTime s + 500 - now s"
      and nowork: "getNextLanes cfg (laneSets (root (markRootSuspended cfg lanes s))) NoLanes
                     = NoLanes"
      and subset: "isSubsetOfLanes cfg
                     (suspendedLanes (laneSets (root (markRootSuspended cfg lanes s)))) lanes"
  shows "\<exists>s'. finishConcurrentRender cfg RootSuspended lanes s = Normal () s'
           \<and> trace s' = trace s @ [FinishConcurrentRender RootSuspended lanes,
                                    ScheduleTimeout (globalMostRecentFallbackTime s + 500 - now s)]
           \<and> timeoutHandle (root s') = Some (handles s)
           \<and> current (root s') = current (root s)
           \<and> finishedWork (root s') = finishedWork (root s)"
proof -
  let ?e = "emit [FinishConcurrentRender RootSuspended lanes] s"
  have m: "laneSets (root (markRootSuspended cfg lanes ?e))
             = laneSets (root (markRootSuspended cfg lanes s))"
    by (simp add: markRootSuspended_def Let_def)
  have f: "globalMostRecentFallbackTime (markRootSuspended cfg lanes ?e)
             = globalMostRecentFallbackTime s"
    "now (markRootSuspended cfg lanes ?e) = now s"
    "trace (markRootSuspended cfg lanes ?e) = trace s @ [FinishConcurrentRender RootSuspended lanes]"
    "handles (markRootSuspended cfg lanes ?e) = handles s"
    "current (root (markRootSuspended cfg lanes ?e)) = current (root s)"
    "finishedWork (root (markRootSuspended cfg lanes ?e)) = finishedWork (root s)"
    by (simp_all add: markRootSuspended_def Let_def)
  have "finishConcurrentRender cfg RootSuspended lanes s
      = Normal () (scheduleCommitTimeout (globalMostRecentFallbackTime s + 500 - now s)
          (markRootSuspended cfg lanes ?e))"
    using retries noact window nowork subset
    by (simp add: finishConcurrentRender_def Let_def m f FALLBACK_THROTTLE_MS_def)
  then show ?thesis
    by (simp add: scheduleCommitTimeout_def f)
qed

theorem finishConcurrentRender_throttled_witness:
  "\<exists>s'. finishConcurrentRender exampleConfig RootSuspended retryLane suspendedRetry = Normal () s'
     \<and> trace s' = [FinishConcurrentRender RootSuspended retryLane, ScheduleTimeout 400]
     \<and> timeoutHandle (root s') = Some 0
     \<and> current (root s') = currentTree
     \<and> finishedWork (root s') = Some renderedTree"
  using finishConcurrentRender_throttled [of exampleConfig retryLane suspendedRetry]
  by (simp add: shouldForceFlushFallbacksInDEV_def markRootSuspended_def removeLanes_def
        suspendedRetry_def finishedRender_def idleRoot_def retryLane_def exampleConfig_def
        NoLanes_def Let_def)

text \<open>
  Inside an \<open>act\<close> scope of a development build the same render, with 400ms of the
  window left, is committed at once and no timeout is scheduled.
\<close>

theorem finishConcurrentRender_act_counterexample:
  "includesOnlyRetries actConfig retryLane
   \<and> getNextLanes actConfig
       (laneSets (root (markRootSuspended actConfig retryLane suspendedRetry))) NoLanes = NoLanes
   \<and> globalMostRecentFallbackTime suspendedRetry + 500 - now suspendedRetry = 400
   \<and> current (root (stateOf
        (finishConcurrentRender actConfig RootSuspended retryLane suspendedRetry))) = renderedTree
   \<and> ScheduleTimeout 400 \<notin> set (trace (stateOf
        (finishConcurrentRender actConfig RootSuspended retryLane suspendedRetry)))"
  by (simp add: finishConcurrentRender_def commit_defs flushPendingPassiveEffects_none
        shouldForceFlushFallbacksInDEV_def markRootSuspended_def removeLanes_def
        suspendedRetry_def finishedRender_def idleRoot_def retryLane_def actConfig_def
        exampleConfig_def renderedTree_def currentTree_def)













end
